theory Spec2Isabelle
  imports Complex_Main "HOL-Library.Log_Nat"
begin

section \<open>Values thrown by the JavaScript code\<close>

text \<open>
  The handlers read \<open>error.message\<close>, \<open>error.response?.status\<close>,
  \<open>error.response?.data\<close> and \<open>error.code\<close> of a caught value. A thrown value is a
  record of these; a plain \<open>new Error(m)\<close> has no response and no code.
\<close>

record vendor_error_body =
  body_error :: "string option"
  body_error_description :: "string option"
  body_message :: "string option"

record err_response =
  err_status :: nat
  err_statusText :: string
  err_data :: "vendor_error_body option"

record js_error =
  message :: string
  response :: "err_response option"
  code :: "string option"

definition Error :: "string \<Rightarrow> js_error" where
  "Error m = \<lparr>message = m, response = None, code = None\<rparr>"

definition TypeError :: "string \<Rightarrow> js_error" where
  "TypeError m = \<lparr>message = m, response = None, code = None\<rparr>"

definition SyntaxError :: "string \<Rightarrow> js_error" where
  "SyntaxError m = \<lparr>message = m, response = None, code = None\<rparr>"

definition ReferenceError :: "string \<Rightarrow> js_error" where
  "ReferenceError m = \<lparr>message = m, response = None, code = None\<rparr>"

text \<open>\<open>error.response?.status\<close>, \<open>error.response?.data?.message\<close> and
  \<open>error.response?.data?.error\<close>.\<close>

definition status_of :: "js_error \<Rightarrow> nat option" where
  "status_of e = map_option err_status (response e)"

definition data_of :: "js_error \<Rightarrow> vendor_error_body option" where
  "data_of e = (case response e of None \<Rightarrow> None | Some r \<Rightarrow> err_data r)"

definition data_message_of :: "js_error \<Rightarrow> string option" where
  "data_message_of e = (case data_of e of None \<Rightarrow> None | Some d \<Rightarrow> body_message d)"

definition data_error_of :: "js_error \<Rightarrow> string option" where
  "data_error_of e = (case data_of e of None \<Rightarrow> None | Some d \<Rightarrow> body_error d)"

section \<open>Strings and JavaScript values\<close>

text \<open>Decimal rendering of a non-negative whole number, as a template literal or
  \<open>toString()\<close> renders it.\<close>

fun show_nat :: "nat \<Rightarrow> string" where
  "show_nat n = (if n < 10 then [''0123456789'' ! n]
                 else show_nat (n div 10) @ [''0123456789'' ! (n mod 10)])"

declare show_nat.simps [simp del]

text \<open>\<open>Array.prototype.join\<close>.\<close>

fun join :: "string \<Rightarrow> string list \<Rightarrow> string" where
  "join sep [] = []"
| "join sep [x] = x"
| "join sep (x # y # ys) = x @ sep @ join sep (y # ys)"

text \<open>\<open>String.prototype.includes\<close>: \<open>str_includes s sub\<close> is \<open>s.includes(sub)\<close>.\<close>

fun str_includes :: "string \<Rightarrow> string \<Rightarrow> bool" where
  "str_includes [] sub = (sub = [])"
| "str_includes (c # cs) sub = (take (length sub) (c # cs) = sub \<or> str_includes cs sub)"

text \<open>\<open>s.split('/')\<close>, and \<open>url.pathname.split('/').filter(Boolean)\<close>. The path is taken
  as the pathname the URL parser returns.\<close>

fun split_slash :: "string \<Rightarrow> string list" where
  "split_slash [] = [[]]"
| "split_slash (c # cs) =
     (if c = CHR ''/'' then [] # split_slash cs
      else (case split_slash cs of [] \<Rightarrow> [[c]] | x # xs \<Rightarrow> (c # x) # xs))"

definition pathSegments_of :: "string \<Rightarrow> string list" where
  "pathSegments_of path = filter (\<lambda>seg. seg \<noteq> []) (split_slash path)"

text \<open>Truthiness of a possibly absent string: \<open>undefined\<close> and the empty string are
  falsy. \<open>or_else v d\<close> is \<open>v || d\<close>; \<open>render v\<close> is \<open>v\<close> inside a template literal.\<close>

definition truthy :: "string option \<Rightarrow> bool" where
  "truthy v = (case v of None \<Rightarrow> False | Some s \<Rightarrow> s \<noteq> [])"

definition or_else :: "string option \<Rightarrow> string \<Rightarrow> string" where
  "or_else v d = (case v of None \<Rightarrow> d | Some s \<Rightarrow> if s = [] then d else s)"

definition render :: "string option \<Rightarrow> string" where
  "render v = (case v of None \<Rightarrow> ''undefined'' | Some s \<Rightarrow> s)"

text \<open>Objects the handlers build and return, before \<open>JSON.stringify\<close>.\<close>

datatype jsval =
    Undefined
  | JBool bool
  | JNum rat
  | JStr string
  | JObj "(string \<times> jsval) list"

definition opt_str :: "string option \<Rightarrow> jsval" where
  "opt_str v = (case v of None \<Rightarrow> Undefined | Some s \<Rightarrow> JStr s)"

definition field :: "jsval \<Rightarrow> string \<Rightarrow> jsval" where
  "field v k = (case v of JObj kvs \<Rightarrow> (case map_of kvs k of Some x \<Rightarrow> x | None \<Rightarrow> Undefined)
                | _ \<Rightarrow> Undefined)"

datatype body = NoContent | Text string | Stringify jsval

record response_t =
  statusCode :: nat
  headers :: "(string \<times> string) list"
  body :: body

section \<open>JavaScript numbers\<close>

text \<open>
  A JavaScript number is a binary64 floating-point value. A finite number is kept as the
  rational it denotes. \<open>round64\<close> takes a rational to the nearest binary64 value, ties to
  the even significand: the significand has 53 bits, and below \<open>2 ^ - 1022\<close> the values
  are the multiples of \<open>2 ^ - 1074\<close>. \<open>binade x\<close> is the exponent \<open>e\<close> with
  \<open>2 ^ e \<le> \<bar>x\<bar> < 2 ^ (e + 1)\<close>. The sum and the product of two numbers are the exact
  results rounded. A result of magnitude \<open>2 ^ 1024\<close> or more (\<open>Infinity\<close>), \<open>NaN\<close> and
  the sign of zero are not represented.
\<close>

definition pow2 :: "int \<Rightarrow> rat" where
  "pow2 k = (if 0 \<le> k then 2 ^ nat k else 1 / 2 ^ nat (- k))"

definition binade :: "rat \<Rightarrow> int" where
  "binade x = (case quotient_of x of (p, q) \<Rightarrow>
                 (let d = bitlen \<bar>p\<bar> - bitlen q in if pow2 d \<le> \<bar>x\<bar> then d else d - 1))"

definition round_half_even :: "rat \<Rightarrow> int" where
  "round_half_even x =
     (let f = \<lfloor>x\<rfloor>; r = x - of_int f
      in if r < 1 / 2 then f else if 1 / 2 < r then f + 1 else if even f then f else f + 1)"

definition round64 :: "rat \<Rightarrow> rat" where
  "round64 x =
     (if x = 0 then 0
      else (let u = pow2 (max (binade x) (- 1022) - 52)
            in of_int (round_half_even (x / u)) * u))"

definition js_add :: "rat \<Rightarrow> rat \<Rightarrow> rat" where
  "js_add a b = round64 (a + b)"

definition js_mul :: "rat \<Rightarrow> rat \<Rightarrow> rat" where
  "js_mul a b = round64 (a * b)"

section \<open>Requests to the handlers\<close>

datatype 'b req_body = Absent | Malformed string | Parsed 'b

record 'b event =
  httpMethod :: string
  path :: string
  event_body :: "'b req_body"

text \<open>What the handler reads of its invocation context and of the clock:
  \<open>context.awsRequestId\<close>, \<open>Date.now()\<close> where the request id is made, the three
  readings of the clock in \<open>createZohoInvoice\<close> (for the invoice number, the invoice
  date and the due date, in this order), the ISO text of the time of the response, and \<open>process.version\<close>.\<close>

record ctx =
  awsRequestId :: "string option"
  at_request :: nat
  at_invoice_number :: nat
  at_invoice_date :: nat
  at_due_date :: nat
  timestamp :: string
  nodeVersion :: string

definition requestId_of :: "ctx \<Rightarrow> string" where
  "requestId_of c = or_else (awsRequestId c) (show_nat (at_request c))"

record env =
  ZOHO_CLIENT_ID :: "string option"
  ZOHO_CLIENT_SECRET :: "string option"
  ZOHO_REFRESH_TOKEN :: "string option"
  ZOHO_ORGANIZATION_ID :: "string option"
  EMAIL_USER :: "string option"
  EMAIL_PASSWORD :: "string option"
  NODE_ENV :: "string option"
  NETLIFY :: "string option"
  URL :: "string option"

record customer_data =
  cust_name :: "string option"
  cust_email :: "string option"
  cust_phone :: "string option"
  cust_company :: "string option"

record service_item =
  serviceName :: string
  packageType :: string
  item_quantity :: nat
  unitPrice :: rat
  totalPrice :: rat

record invoice_data =
  inv_serviceItems :: "service_item list option"
  inv_currency :: "string option"
  inv_notes :: "string option"

record zoho_request =
  rq_customerData :: "customer_data option"
  rq_serviceItems :: "service_item list option"
  rq_currency :: "string option"
  rq_notes :: "string option"
  rq_customerId :: "string option"
  rq_name :: "string option"
  rq_email :: "string option"
  rq_phone :: "string option"
  rq_company :: "string option"

definition empty_request :: zoho_request where
  "empty_request =
     \<lparr>rq_customerData = None, rq_serviceItems = None, rq_currency = None, rq_notes = None,
      rq_customerId = None, rq_name = None, rq_email = None, rq_phone = None,
      rq_company = None\<rparr>"

text \<open>The request object itself read as customer data and as invoice data (the first
  version of zohoIntegration.js passes \<open>requestData\<close> for both).\<close>

definition as_customer :: "zoho_request \<Rightarrow> customer_data" where
  "as_customer rq = \<lparr>cust_name = rq_name rq, cust_email = rq_email rq,
                      cust_phone = rq_phone rq, cust_company = rq_company rq\<rparr>"

definition as_invoice_data :: "zoho_request \<Rightarrow> invoice_data" where
  "as_invoice_data rq = \<lparr>inv_serviceItems = rq_serviceItems rq, inv_currency = rq_currency rq,
                          inv_notes = rq_notes rq\<rparr>"

section \<open>Outbound calls\<close>

record customer_payload =
  p_contact_name :: "string option"
  p_company_name :: string
  p_email :: "string option"
  p_phone :: string

record line_item =
  li_name :: string
  li_description :: string
  li_rate :: rat
  li_quantity :: nat
  li_item_total :: rat

text \<open>The two dates of an invoice are kept as UTC day numbers (days since 1970-01-01):
  \<open>toISOString().split('T')[0]\<close> is the calendar date of that day.\<close>

record invoice_payload =
  p_customer_id :: "string option"
  p_invoice_number :: string
  p_date :: nat
  p_due_date :: nat
  p_line_items :: "line_item list"
  p_notes :: string
  p_terms :: string
  p_currency_code :: "string option"
  p_is_inclusive_tax :: "bool option"

definition utc_day :: "nat \<Rightarrow> nat" where
  "utc_day ms = ms div 86400000"

record email_options =
  mail_from :: "string option"
  mail_to :: "string option"
  mail_subject :: string
  mail_template :: string
  mail_values :: "string list"

datatype request =
    TokenRefresh
  | ContactCreate customer_payload
  | ContactSearch "string option"
  | ContactsProbe
  | InvoiceCreate invoice_payload
  | InvoiceGet string
  | SmtpVerify
  | SmtpSend email_options

text \<open>An outbound call: where it goes, what it asks, the value of the Authorization
  header and the \<open>timeout\<close> option in milliseconds (\<open>None\<close> where the call sets none).
  The other headers are left out.\<close>

record outcall =
  oc_url :: string
  oc_request :: request
  oc_auth :: "string option"
  oc_timeout :: "nat option"

text \<open>The trace of a handler: its outbound calls with their success, and its waits.\<close>

datatype trace_event = Outbound outcall bool | Delay nat

type_synonym trace = "trace_event list"

fun calls :: "trace \<Rightarrow> outcall list" where
  "calls [] = []"
| "calls (Outbound c ok # tr) = c # calls tr"
| "calls (Delay ms # tr) = calls tr"

text \<open>A computation that may throw and that extends the trace.\<close>

type_synonym 'a io = "trace \<Rightarrow> (js_error + 'a) \<times> trace"

definition return :: "'a \<Rightarrow> 'a io" where
  "return a tr = (Inr a, tr)"

definition throw :: "js_error \<Rightarrow> 'a io" where
  "throw e tr = (Inl e, tr)"

definition bind :: "'a io \<Rightarrow> ('a \<Rightarrow> 'b io) \<Rightarrow> 'b io" where
  "bind m f tr = (case m tr of (Inl e, tr') \<Rightarrow> (Inl e, tr') | (Inr a, tr') \<Rightarrow> f a tr')"

definition catch :: "'a io \<Rightarrow> (js_error \<Rightarrow> 'a io) \<Rightarrow> 'a io" where
  "catch m h tr = (case m tr of (Inl e, tr') \<Rightarrow> h e tr' | (Inr a, tr') \<Rightarrow> (Inr a, tr'))"

subsection \<open>The vendor behind axios\<close>

record contact =
  contact_id :: string
  contact_name :: string
  contact_email :: string

record vendor_invoice =
  invoice_id :: string
  invoice_number :: string
  invoice_total :: rat
  invoice_status :: string
  last_payment_date :: "string option"

record vendor_data =
  access_token :: "string option"
  data_contact :: "contact option"
  data_contacts :: "contact list option"
  data_invoice :: "vendor_invoice option"

text \<open>\<open>await axios.post(...)\<close> and \<open>await axios.get(...)\<close> resolve with a response,
  of which the code reads \<open>data\<close>, or reject with an error. What the vendor answers may
  depend on the calls made before.\<close>

datatype axios_outcome = Resolved vendor_data | Rejected js_error

type_synonym axios_world = "outcall list \<Rightarrow> outcall \<Rightarrow> axios_outcome"

definition axios :: "axios_world \<Rightarrow> outcall \<Rightarrow> vendor_data io" where
  "axios w c tr =
     (case w (calls tr) c of
        Resolved d \<Rightarrow> (Inr d, tr @ [Outbound c True])
      | Rejected e \<Rightarrow> (Inl e, tr @ [Outbound c False]))"

definition oauth :: "string option \<Rightarrow> string option" where
  "oauth accessToken = Some (''Zoho-oauthtoken '' @ render accessToken)"

section \<open>Shared pieces of the Zoho handlers\<close>

definition baseUrl_in :: string where
  "baseUrl_in = ''https://invoice.zoho.in/api/v3''"

definition baseUrl_com :: string where
  "baseUrl_com = ''https://invoice.zoho.com/api/v3''"

text \<open>The \<open>missing\<close> array: one push per absent variable, in the order of the four
  \<open>if\<close> statements.\<close>

definition missing_vars :: "env \<Rightarrow> string list" where
  "missing_vars env =
     (if \<not> truthy (ZOHO_CLIENT_ID env) then [''ZOHO_CLIENT_ID''] else [])
     @ (if \<not> truthy (ZOHO_CLIENT_SECRET env) then [''ZOHO_CLIENT_SECRET''] else [])
     @ (if \<not> truthy (ZOHO_REFRESH_TOKEN env) then [''ZOHO_REFRESH_TOKEN''] else [])
     @ (if \<not> truthy (ZOHO_ORGANIZATION_ID env) then [''ZOHO_ORGANIZATION_ID''] else [])"

definition validateZohoConfig :: "env \<Rightarrow> unit io" where
  "validateZohoConfig env =
     (let missing = missing_vars env
      in if length missing > 0
         then throw (Error (''Missing Zoho configuration: '' @ join '', '' missing))
         else return ())"

definition customerPayload :: "customer_data \<Rightarrow> customer_payload" where
  "customerPayload customerData =
     \<lparr>p_contact_name = cust_name customerData,
      p_company_name = or_else (cust_company customerData) [],
      p_email = cust_email customerData,
      p_phone = or_else (cust_phone customerData) []\<rparr>"

text \<open>\<open>JSON.parse(event.body || '{}')\<close>.\<close>

definition parse_or_empty :: "zoho_request req_body \<Rightarrow> zoho_request io" where
  "parse_or_empty b =
     (case b of Absent \<Rightarrow> return empty_request
      | Malformed m \<Rightarrow> throw (SyntaxError m)
      | Parsed rq \<Rightarrow> return rq)"

definition debug_flags :: "env \<Rightarrow> jsval" where
  "debug_flags env =
     JObj [(''hasClientId'', JBool (truthy (ZOHO_CLIENT_ID env))),
           (''hasClientSecret'', JBool (truthy (ZOHO_CLIENT_SECRET env))),
           (''hasRefreshToken'', JBool (truthy (ZOHO_REFRESH_TOKEN env))),
           (''hasOrgId'', JBool (truthy (ZOHO_ORGANIZATION_ID env)))]"

definition json_headers :: "(string \<times> string) list" where
  "json_headers = [(''Access-Control-Allow-Origin'', ''*''),
                   (''Content-Type'', ''application/json'')]"

definition preflight :: "string \<Rightarrow> string \<Rightarrow> response_t" where
  "preflight allow_headers allow_methods =
     \<lparr>statusCode = 200,
      headers = [(''Access-Control-Allow-Origin'', ''*''),
                 (''Access-Control-Allow-Headers'', allow_headers),
                 (''Access-Control-Allow-Methods'', allow_methods)],
      body = Text []\<rparr>"

definition json_response :: "nat \<Rightarrow> (string \<times> jsval) list \<Rightarrow> response_t" where
  "json_response st kvs = \<lparr>statusCode = st, headers = json_headers, body = Stringify (JObj kvs)\<rparr>"

section \<open>netlify/functions/zohoIntegration.js, first version (lines 1 to 392)\<close>

definition getZohoAccessToken_v1 :: "axios_world \<Rightarrow> string option io" where
  "getZohoAccessToken_v1 w =
     catch
       (bind (axios w \<lparr>oc_url = ''https://accounts.zoho.in/oauth/v2/token'',
                       oc_request = TokenRefresh, oc_auth = None, oc_timeout = Some 10000\<rparr>)
          (\<lambda>d. return (access_token d)))
       (\<lambda>error.
          if status_of error = Some 400
          then throw (Error ''Invalid Zoho credentials. Please check ZOHO_CLIENT_ID, ZOHO_CLIENT_SECRET, and ZOHO_REFRESH_TOKEN.'')
          else if status_of error = Some 401
          then throw (Error ''Zoho refresh token expired. Please regenerate the refresh token.'')
          else throw (Error (''Zoho authentication failed: '' @ message error)))"

definition findZohoCustomer_v1 :: "axios_world \<Rightarrow> string option \<Rightarrow> string option \<Rightarrow> string io" where
  "findZohoCustomer_v1 w accessToken email =
     catch
       (bind (axios w \<lparr>oc_url = baseUrl_in @ ''/contacts'', oc_request = ContactSearch email,
                       oc_auth = oauth accessToken, oc_timeout = Some 15000\<rparr>)
          (\<lambda>d. case data_contacts d of
                  Some (c # cs) \<Rightarrow> return (contact_id c)
                | _ \<Rightarrow> throw (Error ''Customer not found'')))
       (\<lambda>error. throw (Error (''Customer lookup failed: '' @ message error)))"

text \<open>\<open>customerData\<close> is \<open>None\<close> when the caller passes \<open>undefined\<close>: reading its
  \<open>email\<close> throws a TypeError (the text is the engine's).\<close>

definition createZohoCustomer_v1 ::
  "axios_world \<Rightarrow> string option \<Rightarrow> customer_data option \<Rightarrow> string io" where
  "createZohoCustomer_v1 w accessToken customerData =
     catch
       (case customerData of
          None \<Rightarrow> throw (TypeError ''Cannot read properties of undefined (reading 'email')'')
        | Some cd \<Rightarrow>
            bind (axios w \<lparr>oc_url = baseUrl_in @ ''/contacts'',
                          oc_request = ContactCreate (customerPayload cd),
                          oc_auth = oauth accessToken, oc_timeout = Some 15000\<rparr>)
              (\<lambda>d. case data_contact d of
                      None \<Rightarrow> throw (TypeError ''Cannot read properties of undefined (reading 'contact_id')'')
                    | Some c \<Rightarrow> return (contact_id c)))
       (\<lambda>error.
          if status_of error = Some 400
          then (case customerData of
                  None \<Rightarrow> throw (TypeError ''Cannot read properties of undefined (reading 'email')'')
                | Some cd \<Rightarrow> findZohoCustomer_v1 w accessToken (cust_email cd))
          else throw error)"

definition lineItem_with_quantity :: "service_item \<Rightarrow> line_item" where
  "lineItem_with_quantity item =
     \<lparr>li_name = serviceName item,
      li_description = serviceName item @ '' - '' @ packageType item @ '' Package (Quantity: ''
                         @ show_nat (item_quantity item) @ '')'',
      li_rate = unitPrice item,
      li_quantity = item_quantity item,
      li_item_total = totalPrice item\<rparr>"

definition thirty_days :: nat where
  "thirty_days = 30 * 24 * 60 * 60 * 1000"

text \<open>The \<open>invoicePayload\<close> object, the same in the three files but for
  \<open>is_inclusive_tax\<close>, which only zohoIntegration.js sets. The clock is read once for the
  invoice number, once for the date and once for the due date.\<close>

definition invoicePayload_of ::
  "ctx \<Rightarrow> string option \<Rightarrow> invoice_data \<Rightarrow> line_item list \<Rightarrow> bool option \<Rightarrow> invoice_payload" where
  "invoicePayload_of c customerId invoiceData lineItems tax =
     \<lparr>p_customer_id = customerId,
      p_invoice_number = ''INV-'' @ show_nat (at_invoice_number c),
      p_date = utc_day (at_invoice_date c),
      p_due_date = utc_day (at_due_date c + thirty_days),
      p_line_items = lineItems,
      p_notes = or_else (inv_notes invoiceData) ''Thank you for choosing Mechinweb!'',
      p_terms = ''Payment due within 30 days.'',
      p_currency_code = inv_currency invoiceData,
      p_is_inclusive_tax = tax\<rparr>"

text \<open>\<open>createZohoInvoice\<close> of zohoIntegration.js; the later version of the file has the
  same function (it logs two more fields).\<close>

definition createZohoInvoice_v1 ::
  "ctx \<Rightarrow> axios_world \<Rightarrow> string option \<Rightarrow> string option \<Rightarrow> invoice_data \<Rightarrow> jsval io" where
  "createZohoInvoice_v1 c w accessToken customerId invoiceData =
     catch
       (case inv_serviceItems invoiceData of
          None \<Rightarrow> throw (TypeError ''Cannot read properties of undefined (reading 'map')'')
        | Some serviceItems \<Rightarrow>
            (let lineItems = map lineItem_with_quantity serviceItems;
                 invoicePayload = invoicePayload_of c customerId invoiceData lineItems (Some False)
             in bind (axios w \<lparr>oc_url = baseUrl_in @ ''/invoices'',
                              oc_request = InvoiceCreate invoicePayload,
                              oc_auth = oauth accessToken, oc_timeout = Some 20000\<rparr>)
                  (\<lambda>d. case data_invoice d of
                          None \<Rightarrow> throw (TypeError ''Cannot read properties of undefined (reading 'invoice_id')'')
                        | Some invoice \<Rightarrow>
                            return (JObj
                              [(''invoice_id'', JStr (invoice_id invoice)),
                               (''invoice_number'', JStr (invoice_number invoice)),
                               (''payment_url'', JStr (''https://invoice.zoho.in/invoices/''
                                                       @ invoice_id invoice @ ''/payment'')),
                               (''total'', JNum (invoice_total invoice)),
                               (''status'', JStr (invoice_status invoice)),
                               (''customer_id'', opt_str customerId)]))))
       (\<lambda>error. throw (Error (''Invoice creation failed: ''
                                @ (if truthy (data_message_of error)
                                   then render (data_message_of error) else message error))))"

definition getZohoInvoiceStatus_v1 :: "axios_world \<Rightarrow> string option \<Rightarrow> string \<Rightarrow> jsval io" where
  "getZohoInvoiceStatus_v1 w accessToken invoiceId =
     catch
       (bind (axios w \<lparr>oc_url = baseUrl_in @ ''/invoices/'' @ invoiceId,
                       oc_request = InvoiceGet invoiceId,
                       oc_auth = oauth accessToken, oc_timeout = Some 15000\<rparr>)
          (\<lambda>d. case data_invoice d of
                  None \<Rightarrow> throw (TypeError ''Cannot read properties of undefined (reading 'status')'')
                | Some invoice \<Rightarrow>
                    return (JObj [(''status'', JStr (invoice_status invoice)),
                                  (''total'', JNum (invoice_total invoice)),
                                  (''payment_date'', opt_str (last_payment_date invoice))])))
       (\<lambda>error. throw (Error (''Invoice status check failed: '' @ message error)))"

definition error_response :: "ctx \<Rightarrow> env \<Rightarrow> js_error \<Rightarrow> response_t" where
  "error_response c env error =
     json_response 500
       [(''success'', JBool False),
        (''error'', JStr (message error)),
        (''requestId'', JStr (requestId_of c)),
        (''timestamp'', JStr (timestamp c)),
        (''debug'', debug_flags env)]"

definition handler_v1 :: "ctx \<Rightarrow> env \<Rightarrow> axios_world \<Rightarrow> zoho_request event \<Rightarrow> response_t io" where
  "handler_v1 c env w ev =
     (if httpMethod ev = ''OPTIONS''
      then return (preflight ''Content-Type, Authorization'' ''GET, POST, OPTIONS'')
      else
        catch
          (bind (validateZohoConfig env) (\<lambda>_.
             let pathSegments = pathSegments_of (path ev)
             in bind (getZohoAccessToken_v1 w) (\<lambda>accessToken.
               if httpMethod ev = ''POST''
               then bind (parse_or_empty (event_body ev)) (\<lambda>requestData.
                      if ''customers'' \<in> set pathSegments
                      then bind (createZohoCustomer_v1 w accessToken (Some (as_customer requestData)))
                             (\<lambda>customerId.
                                return (json_response 200
                                  [(''success'', JBool True), (''contact_id'', JStr customerId),
                                   (''requestId'', JStr (requestId_of c))]))
                      else if ''invoices'' \<in> set pathSegments
                      then bind (createZohoInvoice_v1 c w accessToken (rq_customerId requestData)
                                   (as_invoice_data requestData))
                             (\<lambda>invoice.
                                return (json_response 200
                                  [(''success'', JBool True), (''invoice'', invoice),
                                   (''requestId'', JStr (requestId_of c))]))
                      else return (json_response 404
                             [(''success'', JBool False), (''error'', JStr ''Endpoint not found''),
                              (''requestId'', JStr (requestId_of c))]))
               else if httpMethod ev = ''GET''
                       \<and> ''invoices'' \<in> set pathSegments \<and> length pathSegments \<ge> 2
               then bind (getZohoInvoiceStatus_v1 w accessToken (last pathSegments))
                      (\<lambda>status.
                         return (json_response 200
                           [(''success'', JBool True), (''status'', status),
                            (''requestId'', JStr (requestId_of c))]))
               else return (json_response 404
                      [(''success'', JBool False), (''error'', JStr ''Endpoint not found''),
                       (''requestId'', JStr (requestId_of c))]))))
          (\<lambda>error. return (error_response c env error)))"

section \<open>netlify/functions/zohoIntegration.js, later version (lines 727 to 1273)\<close>

text \<open>In the \<open>catch\<close> block, status 400 reads \<open>error.response.data.error\<close>: without a
  body that read throws a TypeError out of the block.\<close>

definition getZohoAccessToken_v3 :: "axios_world \<Rightarrow> string option io" where
  "getZohoAccessToken_v3 w =
     catch
       (bind (axios w \<lparr>oc_url = ''https://accounts.zoho.in/oauth/v2/token'',
                       oc_request = TokenRefresh, oc_auth = None, oc_timeout = Some 15000\<rparr>)
          (\<lambda>d. if \<not> truthy (access_token d)
                then throw (Error ''Invalid token response: missing access_token'')
                else return (access_token d)))
       (\<lambda>error.
          if status_of error = Some 400
          then (case data_of error of
                  None \<Rightarrow> throw (TypeError ''Cannot read properties of undefined (reading 'error')'')
                | Some errorData \<Rightarrow>
                    if body_error errorData = Some ''invalid_grant''
                    then throw (Error ''Zoho refresh token has expired. Please regenerate the refresh token in Zoho Developer Console.'')
                    else if body_error errorData = Some ''invalid_client''
                    then throw (Error ''Invalid Zoho client credentials. Please check ZOHO_CLIENT_ID and ZOHO_CLIENT_SECRET.'')
                    else throw (Error (''Zoho token error: ''
                                  @ (if truthy (body_error_description errorData)
                                     then render (body_error_description errorData)
                                     else render (body_error errorData)))))
          else if status_of error = Some 401
          then throw (Error ''Zoho authentication failed. Please check your credentials.'')
          else throw (Error (''Zoho token request failed: '' @ message error)))"

definition testZohoConnection_v3 :: "axios_world \<Rightarrow> string option \<Rightarrow> bool io" where
  "testZohoConnection_v3 w accessToken =
     catch
       (bind (axios w \<lparr>oc_url = baseUrl_in @ ''/contacts'', oc_request = ContactsProbe,
                       oc_auth = oauth accessToken, oc_timeout = Some 15000\<rparr>)
          (\<lambda>d. return True))
       (\<lambda>error.
          if status_of error = Some 401
          then throw (Error ''Zoho API authorization failed. Check organization ID and API permissions.'')
          else if status_of error = Some 403
          then throw (Error ''Access denied. Check ZOHO_ORGANIZATION_ID and ensure API access is enabled.'')
          else throw (Error (''Zoho API test failed: '' @ message error)))"

definition findZohoCustomer_v3 :: "axios_world \<Rightarrow> string option \<Rightarrow> string option \<Rightarrow> contact io" where
  "findZohoCustomer_v3 w accessToken email =
     catch
       (bind (axios w \<lparr>oc_url = baseUrl_in @ ''/contacts'', oc_request = ContactSearch email,
                       oc_auth = oauth accessToken, oc_timeout = Some 15000\<rparr>)
          (\<lambda>d. case data_contacts d of
                  Some (customer # cs) \<Rightarrow>
                    return \<lparr>contact_id = contact_id customer,
                            contact_name = contact_name customer,
                            contact_email = contact_email customer\<rparr>
                | _ \<Rightarrow> throw (Error ''Customer not found'')))
       (\<lambda>error. throw (Error (''Customer lookup failed: '' @ message error)))"

definition createZohoCustomer_v3 ::
  "axios_world \<Rightarrow> string option \<Rightarrow> customer_data option \<Rightarrow> contact io" where
  "createZohoCustomer_v3 w accessToken customerData =
     catch
       (case customerData of
          None \<Rightarrow> throw (TypeError ''Cannot read properties of undefined (reading 'email')'')
        | Some cd \<Rightarrow>
            bind (axios w \<lparr>oc_url = baseUrl_in @ ''/contacts'',
                          oc_request = ContactCreate (customerPayload cd),
                          oc_auth = oauth accessToken, oc_timeout = Some 15000\<rparr>)
              (\<lambda>d. case data_contact d of
                      None \<Rightarrow> throw (TypeError ''Cannot read properties of undefined (reading 'contact_id')'')
                    | Some c \<Rightarrow>
                        return \<lparr>contact_id = contact_id c, contact_name = contact_name c,
                                contact_email = contact_email c\<rparr>))
       (\<lambda>error.
          if status_of error = Some 400
             \<and> (case data_message_of error of None \<Rightarrow> False
                 | Some m \<Rightarrow> str_includes m ''already exists'')
          then (case customerData of
                  None \<Rightarrow> throw (TypeError ''Cannot read properties of undefined (reading 'email')'')
                | Some cd \<Rightarrow> findZohoCustomer_v3 w accessToken (cust_email cd))
          else throw (Error (''Customer creation failed: ''
                        @ (if truthy (data_message_of error)
                           then render (data_message_of error) else message error))))"

definition contact_json :: "contact \<Rightarrow> jsval" where
  "contact_json c = JObj [(''contact_id'', JStr (contact_id c)),
                          (''contact_name'', JStr (contact_name c)),
                          (''email'', JStr (contact_email c))]"

text \<open>The body is parsed only for a POST with a body; a text that is not JSON becomes
  the error \<open>Invalid JSON in request body\<close>.\<close>

definition parse_body_v3 :: "zoho_request event \<Rightarrow> zoho_request io" where
  "parse_body_v3 ev =
     (if httpMethod ev = ''POST''
      then (case event_body ev of
              Absent \<Rightarrow> return empty_request
            | Malformed m \<Rightarrow> throw (Error ''Invalid JSON in request body'')
            | Parsed rq \<Rightarrow> return rq)
      else return empty_request)"

definition handler_v3 :: "ctx \<Rightarrow> env \<Rightarrow> axios_world \<Rightarrow> zoho_request event \<Rightarrow> response_t io" where
  "handler_v3 c env w ev =
     (if httpMethod ev = ''OPTIONS''
      then return (preflight ''Content-Type, Authorization'' ''GET, POST, OPTIONS'')
      else
        catch
          (bind (validateZohoConfig env) (\<lambda>_.
           bind (getZohoAccessToken_v3 w) (\<lambda>accessToken.
           bind (testZohoConnection_v3 w accessToken) (\<lambda>_.
           bind (parse_body_v3 ev) (\<lambda>requestData.
             if httpMethod ev = ''POST''
             then
               (if rq_customerData requestData \<noteq> None \<and> rq_serviceItems requestData \<noteq> None
                then bind (createZohoCustomer_v3 w accessToken (rq_customerData requestData))
                       (\<lambda>customer.
                     bind (createZohoInvoice_v1 c w accessToken (Some (contact_id customer))
                             \<lparr>inv_serviceItems = rq_serviceItems requestData,
                              inv_currency = Some (or_else (rq_currency requestData) ''USD''),
                              inv_notes = rq_notes requestData\<rparr>)
                       (\<lambda>invoice.
                          return (json_response 200
                            [(''success'', JBool True), (''customer'', contact_json customer),
                             (''invoice'', invoice), (''requestId'', JStr (requestId_of c)),
                             (''timestamp'', JStr (timestamp c))])))
                else if truthy (rq_name requestData) \<and> truthy (rq_email requestData)
                then bind (createZohoCustomer_v3 w accessToken (Some (as_customer requestData)))
                       (\<lambda>customer.
                          return (json_response 200
                            [(''success'', JBool True), (''customer'', contact_json customer),
                             (''requestId'', JStr (requestId_of c))]))
                else throw (Error ''Invalid request data. Expected customerData and serviceItems or customer details.''))
             else if httpMethod ev = ''GET''
             then
               (let pathSegments = pathSegments_of (path ev)
                in if ''invoices'' \<in> set pathSegments \<and> length pathSegments \<ge> 3
                   then bind (getZohoInvoiceStatus_v1 w accessToken (last pathSegments))
                          (\<lambda>status.
                             return (json_response 200
                               [(''success'', JBool True), (''status'', status),
                                (''requestId'', JStr (requestId_of c))]))
                   else return (json_response 200
                          [(''success'', JBool True),
                           (''message'', JStr ''Zoho integration is working correctly''),
                           (''timestamp'', JStr (timestamp c)),
                           (''requestId'', JStr (requestId_of c)),
                           (''config'', JObj
                              [(''hasClientId'', JBool (truthy (ZOHO_CLIENT_ID env))),
                               (''hasClientSecret'', JBool (truthy (ZOHO_CLIENT_SECRET env))),
                               (''hasRefreshToken'', JBool (truthy (ZOHO_REFRESH_TOKEN env))),
                               (''hasOrgId'', JBool (truthy (ZOHO_ORGANIZATION_ID env))),
                               (''apiConnectionSuccessful'', JBool True)])]))
             else return (json_response 405
                    [(''success'', JBool False), (''error'', JStr ''Method not allowed''),
                     (''requestId'', JStr (requestId_of c))]))))))
          (\<lambda>error. return (error_response c env error)))"

section \<open>netlify/functions/createPayment.js\<close>

definition getZohoAccessToken_cp :: "axios_world \<Rightarrow> string option io" where
  "getZohoAccessToken_cp w =
     catch
       (bind (axios w \<lparr>oc_url = ''https://accounts.zoho.com/oauth/v2/token'',
                       oc_request = TokenRefresh, oc_auth = None, oc_timeout = Some 10000\<rparr>)
          (\<lambda>d. return (access_token d)))
       (\<lambda>error. throw (Error (''Zoho authentication failed: ''
                                @ (if truthy (data_error_of error)
                                   then render (data_error_of error) else message error))))"

definition findZohoCustomer_cp :: "axios_world \<Rightarrow> string option \<Rightarrow> string option \<Rightarrow> string io" where
  "findZohoCustomer_cp w accessToken email =
     catch
       (bind (axios w \<lparr>oc_url = baseUrl_com @ ''/contacts'', oc_request = ContactSearch email,
                       oc_auth = oauth accessToken, oc_timeout = Some 15000\<rparr>)
          (\<lambda>d. case data_contacts d of
                  Some (c # cs) \<Rightarrow> return (contact_id c)
                | _ \<Rightarrow> throw (Error ''Customer not found'')))
       (\<lambda>error. throw error)"

definition createZohoCustomer_cp ::
  "axios_world \<Rightarrow> string option \<Rightarrow> customer_data option \<Rightarrow> string io" where
  "createZohoCustomer_cp w accessToken customerData =
     catch
       (case customerData of
          None \<Rightarrow> throw (TypeError ''Cannot read properties of undefined (reading 'name')'')
        | Some cd \<Rightarrow>
            bind (axios w \<lparr>oc_url = baseUrl_com @ ''/contacts'',
                          oc_request = ContactCreate (customerPayload cd),
                          oc_auth = oauth accessToken, oc_timeout = Some 15000\<rparr>)
              (\<lambda>d. case data_contact d of
                      None \<Rightarrow> throw (TypeError ''Cannot read properties of undefined (reading 'contact_id')'')
                    | Some c \<Rightarrow> return (contact_id c)))
       (\<lambda>error.
          if status_of error = Some 400
          then (case customerData of
                  None \<Rightarrow> throw (TypeError ''Cannot read properties of undefined (reading 'email')'')
                | Some cd \<Rightarrow> findZohoCustomer_cp w accessToken (cust_email cd))
          else throw error)"

definition lineItem_plain :: "service_item \<Rightarrow> line_item" where
  "lineItem_plain item =
     \<lparr>li_name = serviceName item,
      li_description = serviceName item @ '' - '' @ packageType item @ '' Package'',
      li_rate = unitPrice item,
      li_quantity = item_quantity item,
      li_item_total = totalPrice item\<rparr>"

definition createZohoInvoice_cp ::
  "ctx \<Rightarrow> axios_world \<Rightarrow> string option \<Rightarrow> string option \<Rightarrow> invoice_data \<Rightarrow> jsval io" where
  "createZohoInvoice_cp c w accessToken customerId invoiceData =
     catch
       (case inv_serviceItems invoiceData of
          None \<Rightarrow> throw (TypeError ''Cannot read properties of undefined (reading 'map')'')
        | Some serviceItems \<Rightarrow>
            (let lineItems = map lineItem_plain serviceItems;
                 invoicePayload = invoicePayload_of c customerId invoiceData lineItems None
             in bind (axios w \<lparr>oc_url = baseUrl_com @ ''/invoices'',
                              oc_request = InvoiceCreate invoicePayload,
                              oc_auth = oauth accessToken, oc_timeout = Some 20000\<rparr>)
                  (\<lambda>d. case data_invoice d of
                          None \<Rightarrow> throw (TypeError ''Cannot read properties of undefined (reading 'invoice_id')'')
                        | Some invoice \<Rightarrow>
                            return (JObj
                              [(''invoice_id'', JStr (invoice_id invoice)),
                               (''invoice_number'', JStr (invoice_number invoice)),
                               (''payment_url'', JStr (''https://invoice.zoho.com/invoices/''
                                                       @ invoice_id invoice @ ''/payment'')),
                               (''total'', JNum (invoice_total invoice)),
                               (''status'', JStr (invoice_status invoice))]))))
       (\<lambda>error. throw (Error (''Invoice creation failed: ''
                                @ (if truthy (data_message_of error)
                                   then render (data_message_of error) else message error))))"

definition error_response_cp :: "ctx \<Rightarrow> env \<Rightarrow> js_error \<Rightarrow> response_t" where
  "error_response_cp c env error =
     json_response 500
       [(''success'', JBool False),
        (''error'', JStr (message error)),
        (''requestId'', JStr (requestId_of c)),
        (''timestamp'', JStr (timestamp c)),
        (''debug'', JObj
           [(''hasZohoClientId'', JBool (truthy (ZOHO_CLIENT_ID env))),
            (''hasZohoClientSecret'', JBool (truthy (ZOHO_CLIENT_SECRET env))),
            (''hasZohoRefreshToken'', JBool (truthy (ZOHO_REFRESH_TOKEN env))),
            (''hasZohoOrgId'', JBool (truthy (ZOHO_ORGANIZATION_ID env)))])]"

definition handler_cp :: "ctx \<Rightarrow> env \<Rightarrow> axios_world \<Rightarrow> zoho_request event \<Rightarrow> response_t io" where
  "handler_cp c env w ev =
     (if httpMethod ev = ''OPTIONS''
      then return (preflight ''Content-Type, Authorization'' ''POST, OPTIONS'')
      else if httpMethod ev \<noteq> ''POST''
      then return (json_response 405 [(''error'', JStr ''Method not allowed'')])
      else
        catch
          (bind (validateZohoConfig env) (\<lambda>_.
           bind (parse_or_empty (event_body ev)) (\<lambda>requestData.
           bind (getZohoAccessToken_cp w) (\<lambda>accessToken.
           bind (createZohoCustomer_cp w accessToken (rq_customerData requestData)) (\<lambda>customerId.
           bind (createZohoInvoice_cp c w accessToken (Some customerId)
                   \<lparr>inv_serviceItems = rq_serviceItems requestData,
                    inv_currency = rq_currency requestData,
                    inv_notes = rq_notes requestData\<rparr>)
             (\<lambda>invoice.
                return (json_response 200
                  [(''success'', JBool True), (''invoice'', invoice),
                   (''requestId'', JStr (requestId_of c)),
                   (''timestamp'', JStr (timestamp c))])))))))
          (\<lambda>error. return (error_response_cp c env error)))"

section \<open>The Zoho test function (src/unnamed/part_000)\<close>

definition envCheck :: "env \<Rightarrow> (string \<times> jsval) list" where
  "envCheck env =
     [(''ZOHO_CLIENT_ID'', JBool (truthy (ZOHO_CLIENT_ID env))),
      (''ZOHO_CLIENT_SECRET'', JBool (truthy (ZOHO_CLIENT_SECRET env))),
      (''ZOHO_REFRESH_TOKEN'', JBool (truthy (ZOHO_REFRESH_TOKEN env))),
      (''ZOHO_ORGANIZATION_ID'', JBool (truthy (ZOHO_ORGANIZATION_ID env))),
      (''CLIENT_ID_LENGTH'', JNum (of_nat (length (or_else (ZOHO_CLIENT_ID env) [])))),
      (''REFRESH_TOKEN_LENGTH'', JNum (of_nat (length (or_else (ZOHO_REFRESH_TOKEN env) []))))]"

definition error_body_json :: "vendor_error_body \<Rightarrow> jsval" where
  "error_body_json d =
     JObj [(''error'', opt_str (body_error d)),
           (''error_description'', opt_str (body_error_description d)),
           (''message'', opt_str (body_message d))]"

text \<open>The \<open>catch\<close> block of the test function: the message and the type it reports.\<close>

definition classify_test_error :: "js_error \<Rightarrow> string \<times> string" where
  "classify_test_error error =
     (case response error of
        Some r \<Rightarrow>
          (if err_status r = 400
           then ''Invalid Zoho credentials. Please check your ZOHO_CLIENT_ID, ZOHO_CLIENT_SECRET, and ZOHO_REFRESH_TOKEN.''
           else if err_status r = 401
           then ''Zoho refresh token expired. Please regenerate your refresh token.''
           else if err_status r = 403
           then ''Access denied. Please check your ZOHO_ORGANIZATION_ID and API permissions.''
           else ''API Error '' @ show_nat (err_status r) @ '': ''
                  @ (if truthy (data_error_of error) then render (data_error_of error)
                     else err_statusText r),
           ''api_error'')
      | None \<Rightarrow>
          if code error = Some ''ECONNABORTED''
          then (''Request timeout. Zoho API might be slow or unreachable.'', ''timeout'')
          else if code error = Some ''ENOTFOUND''
          then (''Network error. Cannot reach Zoho servers.'', ''network'')
          else (message error, ''unknown''))"

definition handler_test_zoho :: "ctx \<Rightarrow> env \<Rightarrow> axios_world \<Rightarrow> zoho_request event \<Rightarrow> response_t io" where
  "handler_test_zoho c env w ev =
     (if httpMethod ev = ''OPTIONS''
      then return (preflight ''Content-Type'' ''GET, OPTIONS'')
      else
        catch
          (let missing = missing_vars env
           in if length missing > 0
              then return (json_response 500
                     [(''success'', JBool False),
                      (''error'', JStr (''Missing Zoho configuration: '' @ join '', '' missing)),
                      (''debug'', JObj (envCheck env))])
              else
                bind (axios w \<lparr>oc_url = ''https://accounts.zoho.com/oauth/v2/token'',
                                oc_request = TokenRefresh, oc_auth = None,
                                oc_timeout = Some 10000\<rparr>) (\<lambda>tokenData.
                bind (axios w \<lparr>oc_url = ''https://invoice.zoho.com/api/v3/contacts'',
                                oc_request = ContactsProbe,
                                oc_auth = oauth (access_token tokenData),
                                oc_timeout = Some 15000\<rparr>) (\<lambda>apiTest.
                  return (json_response 200
                    [(''success'', JBool True),
                     (''message'', JStr ''Zoho configuration is working correctly''),
                     (''timestamp'', JStr (timestamp c)),
                     (''debug'', JObj (envCheck env @
                                       [(''tokenObtained'', JBool True),
                                        (''apiCallSuccessful'', JBool True),
                                        (''organizationAccess'', JBool True)]))]))))
          (\<lambda>error.
             return (json_response 500
               [(''success'', JBool False),
                (''error'', JStr (fst (classify_test_error error))),
                (''errorType'', JStr (snd (classify_test_error error))),
                (''timestamp'', JStr (timestamp c)),
                (''debug'', JObj
                   [(''ZOHO_CLIENT_ID'', JBool (truthy (ZOHO_CLIENT_ID env))),
                    (''ZOHO_CLIENT_SECRET'', JBool (truthy (ZOHO_CLIENT_SECRET env))),
                    (''ZOHO_REFRESH_TOKEN'', JBool (truthy (ZOHO_REFRESH_TOKEN env))),
                    (''ZOHO_ORGANIZATION_ID'', JBool (truthy (ZOHO_ORGANIZATION_ID env))),
                    (''errorDetails'', (case data_of error of
                                          Some d \<Rightarrow> error_body_json d
                                        | None \<Rightarrow> JStr (message error)))])])))"

section \<open>supabase/functions/zoho-integration/index.ts\<close>

text \<open>\<open>await fetch(...)\<close> resolves with a response for every HTTP status and rejects
  only when no response arrives. Of a response the code reads \<open>ok\<close> (status 200 to 299),
  \<open>status\<close>, \<open>text()\<close> and \<open>json()\<close>; \<open>json()\<close> throws when the body is not JSON. No
  call of this file sets a timeout or an abort signal.\<close>

record fetch_response =
  fr_status :: nat
  fr_text :: string
  fr_json :: "vendor_data option"

datatype fetch_outcome = Responded fetch_response | NoResponse js_error

type_synonym fetch_world = "outcall list \<Rightarrow> outcall \<Rightarrow> fetch_outcome"

definition fr_ok :: "fetch_response \<Rightarrow> bool" where
  "fr_ok r = (200 \<le> fr_status r \<and> fr_status r \<le> 299)"

definition fetch :: "fetch_world \<Rightarrow> outcall \<Rightarrow> fetch_response io" where
  "fetch w c tr =
     (case w (calls tr) c of
        Responded r \<Rightarrow> (Inr r, tr @ [Outbound c (fr_ok r)])
      | NoResponse e \<Rightarrow> (Inl e, tr @ [Outbound c False]))"

definition response_json :: "fetch_response \<Rightarrow> vendor_data io" where
  "response_json r =
     (case fr_json r of
        None \<Rightarrow> throw (SyntaxError ''Unexpected end of JSON input'')
      | Some d \<Rightarrow> return d)"

definition getZohoAccessToken_sb :: "fetch_world \<Rightarrow> vendor_data io" where
  "getZohoAccessToken_sb w =
     bind (fetch w \<lparr>oc_url = ''https://accounts.zoho.com/oauth/v2/token'',
                    oc_request = TokenRefresh, oc_auth = None, oc_timeout = None\<rparr>)
       (\<lambda>response.
          if \<not> fr_ok response
          then throw (Error (''Failed to get Zoho access token: ''
                        @ show_nat (fr_status response) @ '' '' @ fr_text response))
          else response_json response)"

text \<open>The search address is the contacts address with the query \<open>email=...\<close>; the
  query is carried by the request, as for the axios calls with \<open>params\<close>.\<close>

definition findZohoCustomer_sb :: "fetch_world \<Rightarrow> string option \<Rightarrow> contact io" where
  "findZohoCustomer_sb w email =
     bind (getZohoAccessToken_sb w) (\<lambda>tokenResponse.
     bind (fetch w \<lparr>oc_url = ''https://invoice.zoho.com/api/v3/contacts'',
                    oc_request = ContactSearch email,
                    oc_auth = oauth (access_token tokenResponse), oc_timeout = None\<rparr>)
       (\<lambda>response.
          if \<not> fr_ok response
          then throw (Error ''Customer not found and could not be created'')
          else bind (response_json response) (\<lambda>d.
                 case data_contacts d of
                   Some (c # cs) \<Rightarrow> return c
                 | _ \<Rightarrow> throw (Error ''Customer not found''))))"

text \<open>The result is \<open>data.contact\<close>, which is \<open>None\<close> when the vendor's answer has no
  such field.\<close>

definition createZohoCustomer_sb :: "fetch_world \<Rightarrow> customer_data \<Rightarrow> contact option io" where
  "createZohoCustomer_sb w customerData =
     bind (getZohoAccessToken_sb w) (\<lambda>tokenResponse.
     bind (fetch w \<lparr>oc_url = ''https://invoice.zoho.com/api/v3/contacts'',
                    oc_request = ContactCreate (customerPayload customerData),
                    oc_auth = oauth (access_token tokenResponse), oc_timeout = None\<rparr>)
       (\<lambda>response.
          if \<not> fr_ok response
          then bind (findZohoCustomer_sb w (cust_email customerData)) (\<lambda>found. return (Some found))
          else bind (response_json response) (\<lambda>d. return (data_contact d))))"

definition createZohoInvoice_sb ::
  "ctx \<Rightarrow> fetch_world \<Rightarrow> string option \<Rightarrow> invoice_data \<Rightarrow> jsval io" where
  "createZohoInvoice_sb c w customerId invoiceData =
     bind (getZohoAccessToken_sb w) (\<lambda>tokenResponse.
       case inv_serviceItems invoiceData of
         None \<Rightarrow> throw (TypeError ''Cannot read properties of undefined (reading 'map')'')
       | Some serviceItems \<Rightarrow>
           (let lineItems = map lineItem_with_quantity serviceItems;
                invoicePayload = invoicePayload_of c customerId invoiceData lineItems None
            in bind (fetch w \<lparr>oc_url = ''https://invoice.zoho.com/api/v3/invoices'',
                             oc_request = InvoiceCreate invoicePayload,
                             oc_auth = oauth (access_token tokenResponse),
                             oc_timeout = None\<rparr>)
                 (\<lambda>response.
                    if \<not> fr_ok response
                    then throw (Error (''Failed to create Zoho invoice: ''
                                  @ show_nat (fr_status response) @ '' '' @ fr_text response))
                    else bind (response_json response) (\<lambda>d.
                           case data_invoice d of
                             None \<Rightarrow> throw (TypeError ''Cannot read properties of undefined (reading 'invoice_id')'')
                           | Some invoice \<Rightarrow>
                               return (JObj
                                 [(''invoice_id'', JStr (invoice_id invoice)),
                                  (''invoice_number'', JStr (invoice_number invoice)),
                                  (''payment_url'', JStr (''https://invoice.zoho.com/invoices/''
                                                          @ invoice_id invoice @ ''/payment'')),
                                  (''total'', JNum (invoice_total invoice)),
                                  (''status'', JStr (invoice_status invoice))])))))"

definition invoice_json :: "vendor_invoice \<Rightarrow> jsval" where
  "invoice_json invoice =
     JObj [(''invoice_id'', JStr (invoice_id invoice)),
           (''invoice_number'', JStr (invoice_number invoice)),
           (''total'', JNum (invoice_total invoice)),
           (''status'', JStr (invoice_status invoice)),
           (''last_payment_date'', opt_str (last_payment_date invoice))]"

definition getZohoInvoice_sb :: "fetch_world \<Rightarrow> string \<Rightarrow> jsval io" where
  "getZohoInvoice_sb w invoiceId =
     bind (getZohoAccessToken_sb w) (\<lambda>tokenResponse.
     bind (fetch w \<lparr>oc_url = ''https://invoice.zoho.com/api/v3/invoices/'' @ invoiceId,
                    oc_request = InvoiceGet invoiceId,
                    oc_auth = oauth (access_token tokenResponse), oc_timeout = None\<rparr>)
       (\<lambda>response.
          if \<not> fr_ok response
          then throw (Error ''Invoice not found'')
          else bind (response_json response) (\<lambda>d.
                 return (case data_invoice d of None \<Rightarrow> Undefined
                         | Some invoice \<Rightarrow> invoice_json invoice))))"

text \<open>\<open>await req.json()\<close>: it throws when the request has no JSON body.\<close>

definition req_json :: "zoho_request req_body \<Rightarrow> zoho_request io" where
  "req_json b =
     (case b of Absent \<Rightarrow> throw (SyntaxError ''Unexpected end of JSON input'')
      | Malformed m \<Rightarrow> throw (SyntaxError m)
      | Parsed rq \<Rightarrow> return rq)"

text \<open>The handler passed to \<open>Deno.serve\<close>. \<open>corsHeaders\<close> is imported from
  \<open>_shared/cors.ts\<close> and is a parameter here. A response built without a status has
  status 200.\<close>

definition error_response_sb ::
  "(string \<times> string) list \<Rightarrow> ctx \<Rightarrow> zoho_request event \<Rightarrow> js_error \<Rightarrow> response_t" where
  "error_response_sb corsHeaders c ev error =
     \<lparr>statusCode = 500,
      headers = (''Content-Type'', ''application/json'') # corsHeaders,
      body = Stringify (JObj
        [(''error'', JStr (if message error = [] then ''Internal server error''
                           else message error)),
         (''details'', JObj [(''timestamp'', JStr (timestamp c)),
                             (''path'', JStr (path ev))])])\<rparr>"

definition handler_sb ::
  "(string \<times> string) list \<Rightarrow> ctx \<Rightarrow> env \<Rightarrow> fetch_world \<Rightarrow> zoho_request event \<Rightarrow> response_t io" where
  "handler_sb corsHeaders c env w ev =
     (if httpMethod ev = ''OPTIONS''
      then return \<lparr>statusCode = 200, headers = corsHeaders, body = NoContent\<rparr>
      else
        catch
          (if \<not> truthy (ZOHO_CLIENT_ID env) \<or> \<not> truthy (ZOHO_CLIENT_SECRET env)
              \<or> \<not> truthy (ZOHO_REFRESH_TOKEN env)
           then throw (Error ''Zoho credentials not configured. Please check ZOHO_CLIENT_ID, ZOHO_CLIENT_SECRET, and ZOHO_REFRESH_TOKEN environment variables.'')
           else if str_includes (path ev) ''/token''
           then bind (getZohoAccessToken_sb w) (\<lambda>tokenResponse.
                  return \<lparr>statusCode = 200,
                          headers = (''Content-Type'', ''application/json'') # corsHeaders,
                          body = Stringify (JObj [(''access_token'',
                                                   opt_str (access_token tokenResponse))])\<rparr>)
           else if str_includes (path ev) ''/customers'' \<and> httpMethod ev = ''POST''
           then bind (req_json (event_body ev)) (\<lambda>requestData.
                bind (createZohoCustomer_sb w (as_customer requestData)) (\<lambda>customer.
                  return \<lparr>statusCode = 200,
                          headers = (''Content-Type'', ''application/json'') # corsHeaders,
                          body = Stringify (case customer of None \<Rightarrow> Undefined
                                            | Some k \<Rightarrow> contact_json k)\<rparr>))
           else if str_includes (path ev) ''/invoices'' \<and> httpMethod ev = ''POST''
           then bind (req_json (event_body ev)) (\<lambda>requestData.
                bind (createZohoInvoice_sb c w (rq_customerId requestData)
                        (as_invoice_data requestData)) (\<lambda>invoice.
                  return \<lparr>statusCode = 200,
                          headers = (''Content-Type'', ''application/json'') # corsHeaders,
                          body = Stringify invoice\<rparr>))
           else if str_includes (path ev) ''/invoices/'' \<and> httpMethod ev = ''GET''
           then bind (getZohoInvoice_sb w (last (split_slash (path ev)))) (\<lambda>invoice.
                  return \<lparr>statusCode = 200,
                          headers = (''Content-Type'', ''application/json'') # corsHeaders,
                          body = Stringify invoice\<rparr>)
           else return \<lparr>statusCode = 404,
                        headers = (''Content-Type'', ''application/json'') # corsHeaders,
                        body = Stringify (JObj [(''error'', JStr ''Endpoint not found'')])\<rparr>)
          (\<lambda>error. return (error_response_sb corsHeaders c ev error)))"

section \<open>The mail transport\<close>

record send_info =
  messageId :: string
  smtp_response :: string

text \<open>What the mail library and the SMTP relay do: whether
  \<open>nodemailer.createTransport\<close> throws, whether \<open>transporter.verify()\<close> rejects, what the
  \<open>n\<close>-th \<open>sendMail\<close> of a message gives, and, while two promises each have an operation
  under way, whether it is the first promise's operation that completes next, given what
  has happened so far.\<close>

record smtp_world =
  createTransport_throws :: "js_error option"
  verify_rejects :: "js_error option"
  sendMail :: "email_options \<Rightarrow> nat \<Rightarrow> js_error + send_info"
  first_completes_next :: "trace \<Rightarrow> bool"

definition smtp_call :: "request \<Rightarrow> outcall" where
  "smtp_call r = \<lparr>oc_url = ''smtp.zoho.in:587'', oc_request = r, oc_auth = None,
                  oc_timeout = None\<rparr>"

text \<open>The mail library exports \<open>createTransport\<close>; it has no \<open>createTransporter\<close>, so
  the call \<open>nodemailer.createTransporter(...)\<close> throws a TypeError.\<close>

definition nodemailer_createTransporter :: "unit io" where
  "nodemailer_createTransporter = throw (TypeError ''nodemailer.createTransporter is not a function'')"

definition nodemailer_createTransport :: "smtp_world \<Rightarrow> unit io" where
  "nodemailer_createTransport w =
     (case createTransport_throws w of Some e \<Rightarrow> throw e | None \<Rightarrow> return ())"

text \<open>\<open>createEmailTransporter\<close> of sendEmail.js calls \<open>createTransporter\<close>, that of the
  mail function with retry calls \<open>createTransport\<close>.\<close>

definition createEmailTransporter_se :: "unit io" where
  "createEmailTransporter_se = nodemailer_createTransporter"

definition createEmailTransporter :: "smtp_world \<Rightarrow> unit io" where
  "createEmailTransporter w = nodemailer_createTransport w"

definition transporter_verify :: "smtp_world \<Rightarrow> unit io" where
  "transporter_verify w tr =
     (case verify_rejects w of
        Some e \<Rightarrow> (Inl e, tr @ [Outbound (smtp_call SmtpVerify) False])
      | None \<Rightarrow> (Inr (), tr @ [Outbound (smtp_call SmtpVerify) True]))"

definition transporter_sendMail :: "smtp_world \<Rightarrow> email_options \<Rightarrow> nat \<Rightarrow> send_info io" where
  "transporter_sendMail w emailOptions n tr =
     (case sendMail w emailOptions n of
        Inl e \<Rightarrow> (Inl e, tr @ [Outbound (smtp_call (SmtpSend emailOptions)) False])
      | Inr result \<Rightarrow> (Inr result, tr @ [Outbound (smtp_call (SmtpSend emailOptions)) True]))"

text \<open>
  \<open>await Promise.all([p, q])\<close>. Both promises are running when \<open>Promise.all\<close> is
  called. A running promise is the list of the events it still has to go through, each
  the completion of the operation it waits for, and the way it settles after the last.
  One operation completes at a time, the world saying whose; \<open>Promise.all\<close> rejects as
  soon as one promise has rejected, with that rejection, and what the other promise
  still had to do is not in the trace; it fulfils when both have fulfilled.
\<close>

function settle_both ::
  "(trace \<Rightarrow> bool) \<Rightarrow> trace_event list \<Rightarrow> js_error + 'a \<Rightarrow> trace_event list \<Rightarrow> js_error + 'b
     \<Rightarrow> ('a \<times> 'b) io" where
  "settle_both first_next evs1 r1 evs2 r2 tr =
     (case (evs1, r1, evs2, r2) of
        ([], Inl e1, _, _) \<Rightarrow> (Inl e1, tr)
      | (_, _, [], Inl e2) \<Rightarrow> (Inl e2, tr)
      | ([], Inr a, [], Inr b) \<Rightarrow> (Inr (a, b), tr)
      | (x # xs, _, [], Inr b) \<Rightarrow> settle_both first_next xs r1 [] r2 (tr @ [x])
      | ([], Inr a, y # ys, _) \<Rightarrow> settle_both first_next [] r1 ys r2 (tr @ [y])
      | (x # xs, _, y # ys, _) \<Rightarrow>
          if first_next tr then settle_both first_next xs r1 (y # ys) r2 (tr @ [x])
          else settle_both first_next (x # xs) r1 ys r2 (tr @ [y]))"
  by pat_completeness auto
termination
  by (relation "measure (\<lambda>(first_next, evs1, r1, evs2, r2, tr). length evs1 + length evs2)")
     auto

declare settle_both.simps [simp del]

text \<open>The two promises are calls of the mail transport, which answers a send by the
  message and the number of the attempt alone: the events of each and the way it settles
  are those of its run on its own.\<close>

definition promise_all2 :: "(trace \<Rightarrow> bool) \<Rightarrow> 'a io \<Rightarrow> 'b io \<Rightarrow> ('a \<times> 'b) io" where
  "promise_all2 first_next p q tr =
     (case p [] of (r1, evs1) \<Rightarrow>
        (case q [] of (r2, evs2) \<Rightarrow> settle_both first_next evs1 r1 evs2 r2 tr))"

type_synonym form_data = "string \<Rightarrow> string option"

record email_request =
  rq_type :: "string option"
  rq_data :: "form_data option"

definition empty_email_request :: email_request where
  "empty_email_request = \<lparr>rq_type = None, rq_data = None\<rparr>"

text \<open>The messages. The HTML of a message is a fixed text around interpolated values:
  it is kept as the name of the template and the list of the values, in the order of
  the text (the date of submission is left out).\<close>

definition contact_customer_mail :: "env \<Rightarrow> form_data \<Rightarrow> email_options" where
  "contact_customer_mail env d =
     \<lparr>mail_from = EMAIL_USER env, mail_to = d ''email'',
      mail_subject = ''Message Received - Mechinweb IT Services'',
      mail_template = ''contact-confirmation'',
      mail_values = [render (d ''name''), render (d ''subject''), render (d ''message'')]\<rparr>"

definition contact_business_mail :: "env \<Rightarrow> form_data \<Rightarrow> string list \<Rightarrow> email_options" where
  "contact_business_mail env d extra =
     \<lparr>mail_from = EMAIL_USER env, mail_to = Some ''contact@mechinweb.com'',
      mail_subject = ''New Contact Message - '' @ render (d ''subject''),
      mail_template = ''contact-notification'',
      mail_values = [render (d ''name''), render (d ''email''), render (d ''subject''),
                     render (d ''message'')] @ extra\<rparr>"

definition quote_customer_mail :: "env \<Rightarrow> form_data \<Rightarrow> string list \<Rightarrow> email_options" where
  "quote_customer_mail env d extra =
     \<lparr>mail_from = EMAIL_USER env, mail_to = d ''customer_email'',
      mail_subject = ''Quote Request Received - Mechinweb IT Services'',
      mail_template = ''quote-confirmation'',
      mail_values = [render (d ''customer_name''), render (d ''service_type''),
                     render (d ''budget_range''), render (d ''timeline'')] @ extra\<rparr>"

definition quote_business_mail :: "env \<Rightarrow> form_data \<Rightarrow> string list \<Rightarrow> email_options" where
  "quote_business_mail env d extra =
     \<lparr>mail_from = EMAIL_USER env, mail_to = Some ''contact@mechinweb.com'',
      mail_subject = ''New Quote Request - '' @ render (d ''customer_name''),
      mail_template = ''quote-notification'',
      mail_values = [render (d ''customer_name''), render (d ''customer_email''),
                     or_else (d ''company_name'') ''Not provided'',
                     or_else (d ''phone'') ''Not provided'',
                     render (d ''service_type''), render (d ''budget_range''),
                     render (d ''timeline''), render (d ''project_details'')] @ extra\<rparr>"

definition welcome_mail :: "env \<Rightarrow> form_data \<Rightarrow> email_options" where
  "welcome_mail env d =
     \<lparr>mail_from = EMAIL_USER env, mail_to = d ''clientEmail'',
      mail_subject = ''Welcome to Mechinweb - Your Account is Ready!'',
      mail_template = ''welcome'',
      mail_values = [render (d ''clientName''), render (d ''clientName''),
                     render (d ''clientEmail''), render (d ''loginUrl'')]\<rparr>"

definition payment_mail :: "env \<Rightarrow> form_data \<Rightarrow> string list \<Rightarrow> email_options" where
  "payment_mail env d extra =
     \<lparr>mail_from = EMAIL_USER env, mail_to = d ''clientEmail'',
      mail_subject = ''Payment Confirmation - Mechinweb IT Services'',
      mail_template = ''payment-confirmation'',
      mail_values = [render (d ''clientName''), render (d ''serviceName''),
                     render (d ''packageType''), render (d ''orderId''),
                     render (d ''amount'')] @ extra\<rparr>"

definition destructure :: "form_data option \<Rightarrow> form_data io" where
  "destructure data =
     (case data of
        None \<Rightarrow> throw (TypeError ''Cannot destructure property of undefined'')
      | Some d \<Rightarrow> return d)"

section \<open>netlify/functions/sendEmail.js\<close>

definition handleContactForm_se :: "env \<Rightarrow> smtp_world \<Rightarrow> form_data option \<Rightarrow> unit io" where
  "handleContactForm_se env w data =
     bind (destructure data) (\<lambda>d.
     bind (promise_all2 (first_completes_next w)
             (transporter_sendMail w (contact_customer_mail env d) 1)
             (transporter_sendMail w (contact_business_mail env d []) 1))
       (\<lambda>_. return ()))"

definition handleQuoteRequest_se :: "env \<Rightarrow> smtp_world \<Rightarrow> form_data option \<Rightarrow> unit io" where
  "handleQuoteRequest_se env w data =
     bind (destructure data) (\<lambda>d.
     bind (promise_all2 (first_completes_next w)
             (transporter_sendMail w (quote_customer_mail env d []) 1)
             (transporter_sendMail w (quote_business_mail env d []) 1))
       (\<lambda>_. return ()))"

definition handleWelcomeEmail_se :: "env \<Rightarrow> smtp_world \<Rightarrow> form_data option \<Rightarrow> unit io" where
  "handleWelcomeEmail_se env w data =
     bind (destructure data) (\<lambda>d.
     bind (transporter_sendMail w (welcome_mail env d) 1) (\<lambda>_. return ()))"

definition handlePaymentConfirmation_se :: "env \<Rightarrow> smtp_world \<Rightarrow> form_data option \<Rightarrow> unit io" where
  "handlePaymentConfirmation_se env w data =
     bind (destructure data) (\<lambda>d.
     bind (transporter_sendMail w (payment_mail env d []) 1) (\<lambda>_. return ()))"

text \<open>\<open>const { type, data } = JSON.parse(event.body)\<close>: without a body the parse or the
  destructuring throws.\<close>

definition parse_email_body :: "email_request req_body \<Rightarrow> email_request io" where
  "parse_email_body b =
     (case b of
        Absent \<Rightarrow> throw (TypeError ''Cannot destructure property 'type' of 'JSON.parse(...)' as it is null.'')
      | Malformed m \<Rightarrow> throw (SyntaxError m)
      | Parsed rq \<Rightarrow> return rq)"

definition credentials_error :: js_error where
  "credentials_error = Error ''Email credentials not configured. Please set EMAIL_USER and EMAIL_PASSWORD in Netlify environment variables.''"

definition handler_se :: "ctx \<Rightarrow> env \<Rightarrow> smtp_world \<Rightarrow> email_request event \<Rightarrow> response_t io" where
  "handler_se c env w ev =
     (if httpMethod ev = ''OPTIONS''
      then return (preflight ''Content-Type'' ''POST, OPTIONS'')
      else if httpMethod ev \<noteq> ''POST''
      then return (json_response 405 [(''error'', JStr ''Method not allowed'')])
      else
        catch
          (bind (parse_email_body (event_body ev)) (\<lambda>rq.
             if \<not> truthy (EMAIL_USER env) \<or> \<not> truthy (EMAIL_PASSWORD env)
             then throw credentials_error
             else
               bind createEmailTransporter_se (\<lambda>_.
               bind (if rq_type rq = Some ''contact_form''
                     then handleContactForm_se env w (rq_data rq)
                     else if rq_type rq = Some ''quote_request''
                     then handleQuoteRequest_se env w (rq_data rq)
                     else if rq_type rq = Some ''welcome_email''
                     then handleWelcomeEmail_se env w (rq_data rq)
                     else if rq_type rq = Some ''payment_confirmation''
                     then handlePaymentConfirmation_se env w (rq_data rq)
                     else throw (Error ''Invalid email type''))
                 (\<lambda>_. return (json_response 200
                          [(''success'', JBool True),
                           (''message'', JStr ''Email sent successfully''),
                           (''timestamp'', JStr (timestamp c))])))))
          (\<lambda>error.
             return (json_response 500
               [(''success'', JBool False), (''error'', JStr (message error)),
                (''timestamp'', JStr (timestamp c))])))"

section \<open>The mail function with retry (src/unnamed/part_002)\<close>

definition verifyEmailConfig :: "smtp_world \<Rightarrow> bool io" where
  "verifyEmailConfig w =
     catch (bind (transporter_verify w) (\<lambda>_. return True))
       (\<lambda>error. throw (Error (''Email configuration invalid: '' @ message error)))"

text \<open>The \<open>for\<close> loop of \<open>sendEmailWithRetry\<close>, from \<open>attempt\<close> on. A loop that ends
  without returning gives \<open>undefined\<close>, here \<open>None\<close>.\<close>

function sendEmailWithRetry_from ::
  "smtp_world \<Rightarrow> email_options \<Rightarrow> nat \<Rightarrow> nat \<Rightarrow> send_info option io" where
  "sendEmailWithRetry_from w emailOptions maxRetries attempt tr =
     (if attempt \<le> maxRetries
      then (case transporter_sendMail w emailOptions attempt tr of
              (Inr result, tr1) \<Rightarrow> (Inr (Some result), tr1)
            | (Inl error, tr1) \<Rightarrow>
                if attempt = maxRetries then (Inl error, tr1)
                else sendEmailWithRetry_from w emailOptions maxRetries (attempt + 1)
                       (tr1 @ [Delay (2 ^ attempt * 1000)]))
      else (Inr None, tr))"
  by pat_completeness auto
termination
  by (relation "measure (\<lambda>(w, emailOptions, maxRetries, attempt, tr). maxRetries + 1 - attempt)")
     auto

declare sendEmailWithRetry_from.simps [simp del]

definition sendEmailWithRetry :: "smtp_world \<Rightarrow> email_options \<Rightarrow> nat \<Rightarrow> send_info option io" where
  "sendEmailWithRetry w emailOptions maxRetries =
     sendEmailWithRetry_from w emailOptions maxRetries 1"

definition handleContactForm_rt ::
  "env \<Rightarrow> smtp_world \<Rightarrow> form_data option \<Rightarrow> string \<Rightarrow> unit io" where
  "handleContactForm_rt env w data requestId =
     bind (destructure data) (\<lambda>d.
       if \<not> truthy (d ''name'') \<or> \<not> truthy (d ''email'') \<or> \<not> truthy (d ''subject'')
          \<or> \<not> truthy (d ''message'')
       then throw (Error ''Missing required fields: name, email, subject, message'')
       else
         bind (promise_all2 (first_completes_next w)
                 (sendEmailWithRetry w (contact_customer_mail env d) 2)
                 (sendEmailWithRetry w (contact_business_mail env d [requestId]) 2))
           (\<lambda>_. return ()))"

definition handleQuoteRequest_rt ::
  "env \<Rightarrow> smtp_world \<Rightarrow> form_data option \<Rightarrow> string \<Rightarrow> unit io" where
  "handleQuoteRequest_rt env w data requestId =
     bind (destructure data) (\<lambda>d.
     bind (promise_all2 (first_completes_next w)
             (sendEmailWithRetry w (quote_customer_mail env d [requestId]) 2)
             (sendEmailWithRetry w (quote_business_mail env d [requestId]) 2))
       (\<lambda>_. return ()))"

definition handleWelcomeEmail_rt ::
  "env \<Rightarrow> smtp_world \<Rightarrow> form_data option \<Rightarrow> string \<Rightarrow> unit io" where
  "handleWelcomeEmail_rt env w data requestId =
     bind (destructure data) (\<lambda>d.
     bind (sendEmailWithRetry w (welcome_mail env d) 2) (\<lambda>_. return ()))"

definition handlePaymentConfirmation_rt ::
  "env \<Rightarrow> smtp_world \<Rightarrow> form_data option \<Rightarrow> string \<Rightarrow> unit io" where
  "handlePaymentConfirmation_rt env w data requestId =
     bind (destructure data) (\<lambda>d.
     bind (sendEmailWithRetry w (payment_mail env d [requestId]) 2) (\<lambda>_. return ()))"

text \<open>\<open>JSON.parse(event.body || '{}')\<close>, a text that is not JSON becoming the error
  \<open>Invalid JSON in request body\<close>.\<close>

definition parse_email_body_rt :: "email_request req_body \<Rightarrow> email_request io" where
  "parse_email_body_rt b =
     (case b of
        Absent \<Rightarrow> return empty_email_request
      | Malformed m \<Rightarrow> throw (Error ''Invalid JSON in request body'')
      | Parsed rq \<Rightarrow> return rq)"

definition handler_rt :: "ctx \<Rightarrow> env \<Rightarrow> smtp_world \<Rightarrow> email_request event \<Rightarrow> response_t io" where
  "handler_rt c env w ev =
     (if httpMethod ev = ''OPTIONS''
      then return (preflight ''Content-Type, Authorization'' ''POST, OPTIONS'')
      else if httpMethod ev \<noteq> ''POST''
      then return (json_response 405
             [(''success'', JBool False), (''error'', JStr ''Method not allowed''),
              (''requestId'', JStr (requestId_of c))])
      else
        catch
          (bind (parse_email_body_rt (event_body ev)) (\<lambda>rq.
             if \<not> truthy (EMAIL_USER env) \<or> \<not> truthy (EMAIL_PASSWORD env)
             then throw credentials_error
             else
               bind (createEmailTransporter w) (\<lambda>_.
               bind (verifyEmailConfig w) (\<lambda>_.
               bind (if rq_type rq = Some ''contact_form''
                     then handleContactForm_rt env w (rq_data rq) (requestId_of c)
                     else if rq_type rq = Some ''quote_request''
                     then handleQuoteRequest_rt env w (rq_data rq) (requestId_of c)
                     else if rq_type rq = Some ''welcome_email''
                     then handleWelcomeEmail_rt env w (rq_data rq) (requestId_of c)
                     else if rq_type rq = Some ''payment_confirmation''
                     then handlePaymentConfirmation_rt env w (rq_data rq) (requestId_of c)
                     else throw (Error (''Invalid email type: '' @ render (rq_type rq))))
                 (\<lambda>_. return (json_response 200
                          [(''success'', JBool True),
                           (''message'', JStr ''Email sent successfully''),
                           (''requestId'', JStr (requestId_of c)),
                           (''timestamp'', JStr (timestamp c))]))))))
          (\<lambda>error.
             return (json_response 500
               [(''success'', JBool False), (''error'', JStr (message error)),
                (''requestId'', JStr (requestId_of c)),
                (''timestamp'', JStr (timestamp c)),
                (''debug'', JObj
                   [(''hasEmailUser'', JBool (truthy (EMAIL_USER env))),
                    (''hasEmailPassword'', JBool (truthy (EMAIL_PASSWORD env))),
                    (''emailUser'', opt_str (EMAIL_USER env)),
                    (''nodeVersion'', JStr (nodeVersion c))])])))"

section \<open>The mail test functions (src/unnamed/part_001)\<close>

definition test_mail :: "env \<Rightarrow> email_options" where
  "test_mail env =
     \<lparr>mail_from = EMAIL_USER env, mail_to = EMAIL_USER env,
      mail_subject = ''Netlify Email Test - Mechinweb'',
      mail_template = ''test'', mail_values = []\<rparr>"

definition mail_envCheck :: "env \<Rightarrow> jsval" where
  "mail_envCheck env =
     JObj [(''EMAIL_USER'', JBool (truthy (EMAIL_USER env))),
           (''EMAIL_PASSWORD'', JBool (truthy (EMAIL_PASSWORD env))),
           (''EMAIL_USER_VALUE'', opt_str (EMAIL_USER env)),
           (''NODE_ENV'', opt_str (NODE_ENV env)),
           (''NETLIFY'', JBool (truthy (NETLIFY env))),
           (''URL'', opt_str (URL env))]"

definition handler_test_email ::
  "ctx \<Rightarrow> env \<Rightarrow> smtp_world \<Rightarrow> email_request event \<Rightarrow> response_t io" where
  "handler_test_email c env w ev =
     (if httpMethod ev = ''OPTIONS''
      then return (preflight ''Content-Type'' ''GET, OPTIONS'')
      else
        catch
          (if \<not> truthy (EMAIL_USER env) \<or> \<not> truthy (EMAIL_PASSWORD env)
           then return (json_response 500
                  [(''success'', JBool False),
                   (''error'', JStr ''Email credentials not configured''),
                   (''debug'', mail_envCheck env)])
           else
             bind nodemailer_createTransporter (\<lambda>_.
             bind (transporter_verify w) (\<lambda>_.
             bind (if httpMethod ev = ''POST''
                   then bind (transporter_sendMail w (test_mail env) 1) (\<lambda>_. return ())
                   else return ())
               (\<lambda>_. return (json_response 200
                        [(''success'', JBool True),
                         (''message'', JStr ''Email configuration is working''),
                         (''timestamp'', JStr (timestamp c)),
                         (''debug'', mail_envCheck env)])))))
          (\<lambda>error.
             return (json_response 500
               [(''success'', JBool False), (''error'', JStr (message error)),
                (''timestamp'', JStr (timestamp c)),
                (''debug'', JObj
                   [(''EMAIL_USER'', JBool (truthy (EMAIL_USER env))),
                    (''EMAIL_PASSWORD'', JBool (truthy (EMAIL_PASSWORD env))),
                    (''EMAIL_USER_VALUE'', opt_str (EMAIL_USER env))])])))"

text \<open>The second function of the file has no branch for \<open>OPTIONS\<close> and sets no
  headers.\<close>

definition handler_test_nodemailer ::
  "env \<Rightarrow> smtp_world \<Rightarrow> email_request event \<Rightarrow> response_t io" where
  "handler_test_nodemailer env w ev =
     (if \<not> truthy (EMAIL_USER env) \<or> \<not> truthy (EMAIL_PASSWORD env)
      then return \<lparr>statusCode = 500, headers = [],
                   body = Stringify (JObj [(''error'', JStr ''Email credentials not configured.'')])\<rparr>
      else
        catch
          (bind nodemailer_createTransporter (\<lambda>_.
           bind (transporter_verify w) (\<lambda>_.
             return \<lparr>statusCode = 200, headers = [],
                     body = Stringify (JObj
                       [(''success'', JBool True),
                        (''message'', JStr ''Nodemailer is configured correctly!'')])\<rparr>)))
          (\<lambda>error.
             return \<lparr>statusCode = 500, headers = [],
                     body = Stringify (JObj
                       [(''success'', JBool False), (''error'', JStr ''Test failed.''),
                        (''errorMessage'', JStr (message error))])\<rparr>))"

section \<open>The purchase page (src/pages/ServicePurchase.tsx)\<close>

datatype package = basic | standard | enterprise

type_synonym pricing = "package \<Rightarrow> rat option"

record addOn =
  addOn_id :: string
  addOn_name :: string
  addOn_description :: string
  addOn_price :: rat

record service =
  service_ident :: string
  service_name :: string
  service_pricing :: pricing

record page_state =
  user :: "string option"
  service :: "service option"
  selectedPackage :: package
  quantity :: rat
  selectedAddOns :: "string list"
  userCurrency :: string
  convertedPricing :: pricing
  convertedAddOns :: "addOn list"

text \<open>\<open>pricing[selectedPackage] || 0\<close>: an absent entry and a zero entry both give 0.\<close>

definition getCurrentPrice :: "page_state \<Rightarrow> rat" where
  "getCurrentPrice st =
     (case service st of
        None \<Rightarrow> 0
      | Some s \<Rightarrow>
          (let pricing = (if userCurrency st = ''USD'' then service_pricing s
                          else convertedPricing st)
           in case pricing (selectedPackage st) of None \<Rightarrow> 0 | Some p \<Rightarrow> p))"

definition getAddOnPrice :: "page_state \<Rightarrow> string \<Rightarrow> rat" where
  "getAddOnPrice st addOnId =
     (case find (\<lambda>a. addOn_id a = addOnId) (convertedAddOns st) of
        Some a \<Rightarrow> addOn_price a
      | None \<Rightarrow> 0)"

definition getTotalAddOnPrice :: "page_state \<Rightarrow> rat" where
  "getTotalAddOnPrice st =
     foldl (\<lambda>total addOnId. js_add total (getAddOnPrice st addOnId)) 0 (selectedAddOns st)"

definition getTotalPrice :: "page_state \<Rightarrow> rat" where
  "getTotalPrice st =
     (let basePrice = js_mul (getCurrentPrice st) (quantity st);
          addOnPrice = js_mul (getTotalAddOnPrice st) (quantity st)
      in js_add basePrice addOnPrice)"

record order_row =
  client_id :: string
  service_id :: string
  package_type :: package
  amount_usd :: rat
  amount_inr :: rat
  amount_aud :: rat
  currency :: string
  status :: string

text \<open>What the page does that can be seen from outside: an alert, a row passed to the
  \<open>orders\<close> insert, a navigation.\<close>

datatype page_effect = Alert string | Insert order_row | Navigate string

text \<open>
  \<open>setIsLoading\<close> is not declared anywhere in the file: the component declares
  \<open>loading\<close> and \<open>setLoading\<close> (line 42) and nothing is imported under that name. The
  file is a module, so evaluating the identifier throws a ReferenceError.
\<close>

definition setIsLoading :: "bool \<Rightarrow> js_error + unit" where
  "setIsLoading b = Inl (ReferenceError ''setIsLoading is not defined'')"

text \<open>
  The \<open>try\<close> block of \<open>handlePurchase\<close>. \<open>convertCurrency\<close> (imported from
  utils/currency) is asynchronous: the parameter returns \<open>Inl\<close> when the promise rejects.
  \<open>insert_order\<close> is the database client: it answers an insert with an error or with the
  id of the stored order. The result is how the block ends, with what it did before.
\<close>

definition handlePurchase_try ::
  "(rat \<Rightarrow> string \<Rightarrow> string \<Rightarrow> js_error + rat) \<Rightarrow> (order_row \<Rightarrow> js_error + string)
     \<Rightarrow> page_state \<Rightarrow> string \<Rightarrow> service \<Rightarrow> (js_error + unit) \<times> page_effect list" where
  "handlePurchase_try convertCurrency insert_order st user_id s =
     (case setIsLoading True of
        Inl e \<Rightarrow> (Inl e, [])
      | Inr u \<Rightarrow>
          let totalPrice = getTotalPrice st;
              basePrice = getCurrentPrice st
          in case (if userCurrency st = ''USD'' then Inr totalPrice
                   else convertCurrency totalPrice (userCurrency st) ''USD'') of
               Inl e \<Rightarrow> (Inl e, [])
             | Inr usdPrice \<Rightarrow>
          (case (if userCurrency st = ''USD'' then Inr basePrice
                 else convertCurrency basePrice (userCurrency st) ''USD'') of
               Inl e \<Rightarrow> (Inl e, [])
             | Inr usdBasePrice \<Rightarrow>
          (case (if userCurrency st = ''INR'' then Inr totalPrice
                 else convertCurrency usdPrice ''USD'' ''INR'') of
               Inl e \<Rightarrow> (Inl e, [])
             | Inr inr \<Rightarrow>
          (case (if userCurrency st = ''AUD'' then Inr totalPrice
                 else convertCurrency usdPrice ''USD'' ''AUD'') of
               Inl e \<Rightarrow> (Inl e, [])
             | Inr aud \<Rightarrow>
               let row = \<lparr>client_id = user_id, service_id = service_ident s,
                          package_type = selectedPackage st,
                          amount_usd = usdPrice, amount_inr = inr, amount_aud = aud,
                          currency = userCurrency st, status = ''pending''\<rparr>
               in case insert_order row of
                    Inl e \<Rightarrow> (Inl e, [Insert row])
                  | Inr order_id \<Rightarrow>
                      (Inr (), [Insert row, Navigate (''/payment/'' @ order_id)])))))"

text \<open>
  \<open>handlePurchase\<close>: nothing without a user or a service; otherwise the \<open>try\<close> block,
  the \<open>catch\<close> block, which alerts, and the \<open>finally\<close> block, which calls
  \<open>setIsLoading\<close> again. A value thrown in \<open>finally\<close> leaves the function.
\<close>

definition handlePurchase ::
  "(rat \<Rightarrow> string \<Rightarrow> string \<Rightarrow> js_error + rat) \<Rightarrow> (order_row \<Rightarrow> js_error + string)
     \<Rightarrow> page_state \<Rightarrow> (js_error + unit) \<times> page_effect list" where
  "handlePurchase convertCurrency insert_order st =
     (case (user st, service st) of
        (None, _) \<Rightarrow> (Inr (), [])
      | (_, None) \<Rightarrow> (Inr (), [])
      | (Some user_id, Some s) \<Rightarrow>
          (case handlePurchase_try convertCurrency insert_order st user_id s of
             (tried, done) \<Rightarrow>
               (let caught = (case tried of
                                Inl error \<Rightarrow>
                                  done @ [Alert ''Failed to create order. Please try again.'']
                              | Inr u \<Rightarrow> done)
                in case setIsLoading False of
                     Inl e \<Rightarrow> (Inl e, caught)
                   | Inr u \<Rightarrow> (Inr (), caught))))"

text \<open>A sample page state: the four add-ons of the page at their USD prices, a service
  whose basic package costs 20, three units, two add-ons selected.\<close>

definition sample_addOns :: "addOn list" where
  "sample_addOns =
     [\<lparr>addOn_id = ''priority-support'', addOn_name = ''Priority Support'',
        addOn_description = ''24/7 priority technical support'', addOn_price = 10\<rparr>,
      \<lparr>addOn_id = ''backup-service'', addOn_name = ''Backup Service'',
        addOn_description = ''Daily automated backups'', addOn_price = 5\<rparr>,
      \<lparr>addOn_id = ''ssl-certificate'', addOn_name = ''SSL Certificate'',
        addOn_description = ''Premium SSL certificate included'', addOn_price = 15\<rparr>,
      \<lparr>addOn_id = ''monitoring'', addOn_name = ''Monitoring'',
        addOn_description = ''Real-time performance monitoring'', addOn_price = 8\<rparr>]"

definition sample_service :: service where
  "sample_service =
     \<lparr>service_ident = ''email-migration'', service_name = ''Email Migration'',
      service_pricing = (\<lambda>p. case p of basic \<Rightarrow> Some 20 | standard \<Rightarrow> Some 35
                                 | enterprise \<Rightarrow> Some 60)\<rparr>"

definition sample_page :: page_state where
  "sample_page =
     \<lparr>user = Some ''user-1'', service = Some sample_service, selectedPackage = basic,
      quantity = 3, selectedAddOns = [''priority-support'', ''monitoring''],
      userCurrency = ''USD'', convertedPricing = service_pricing sample_service,
      convertedAddOns = sample_addOns\<rparr>"

text \<open>A sample conversion (83 rupees and 3/2 Australian dollars to the US dollar) and a
  database that stores every row under the id \<open>order-1\<close>.\<close>

definition sample_convert :: "rat \<Rightarrow> string \<Rightarrow> string \<Rightarrow> js_error + rat" where
  "sample_convert amount from to =
     (if from = ''USD'' \<and> to = ''INR'' then Inr (js_mul amount 83)
      else if from = ''USD'' \<and> to = ''AUD'' then Inr (js_mul amount (3 / 2))
      else Inl (Error ''unsupported currency''))"

definition sample_insert :: "order_row \<Rightarrow> js_error + string" where
  "sample_insert row = Inr ''order-1''"

text \<open>The same page for a visitor from Australia, at 1.52 Australian dollars to the US
  dollar: the basic package at 30.4 and the backup service at 7.6, as the numbers that
  JavaScript has for these decimals.\<close>

definition fraction_page :: page_state where
  "fraction_page =
     \<lparr>user = Some ''user-1'', service = Some sample_service, selectedPackage = basic,
      quantity = 3, selectedAddOns = [''backup-service''],
      userCurrency = ''AUD'',
      convertedPricing = (\<lambda>p. case p of basic \<Rightarrow> Some (round64 (152 / 5))
                                 | standard \<Rightarrow> Some (round64 (266 / 5))
                                 | enterprise \<Rightarrow> Some (round64 (456 / 5))),
      convertedAddOns =
        [\<lparr>addOn_id = ''backup-service'', addOn_name = ''Backup Service'',
           addOn_description = ''Daily automated backups'', addOn_price = round64 (38 / 5)\<rparr>]\<rparr>"

text \<open>The sum of the prices of the selected add-ons as the specification words it: over
  the selected ids, the price the add-on list gives for the id, and 0 for an id that is
  not in the list; an exact sum.\<close>

definition selected_addOn_sum :: "page_state \<Rightarrow> rat" where
  "selected_addOn_sum st =
     sum_list (map (\<lambda>addOnId.
                      case map_of (map (\<lambda>a. (addOn_id a, addOn_price a)) (convertedAddOns st))
                             addOnId of
                        Some price \<Rightarrow> price
                      | None \<Rightarrow> 0)
                 (selectedAddOns st))"

section \<open>Sample inputs\<close>

definition no_env :: env where
  "no_env = \<lparr>ZOHO_CLIENT_ID = None, ZOHO_CLIENT_SECRET = None, ZOHO_REFRESH_TOKEN = None,
             ZOHO_ORGANIZATION_ID = None, EMAIL_USER = None, EMAIL_PASSWORD = None,
             NODE_ENV = None, NETLIFY = None, URL = None\<rparr>"

definition full_env :: env where
  "full_env = \<lparr>ZOHO_CLIENT_ID = Some ''1000.ABC'', ZOHO_CLIENT_SECRET = Some ''secret'',
               ZOHO_REFRESH_TOKEN = Some ''1000.refresh'', ZOHO_ORGANIZATION_ID = Some ''60001'',
               EMAIL_USER = Some ''no-reply@mechinweb.com'', EMAIL_PASSWORD = Some ''app-password'',
               NODE_ENV = Some ''production'', NETLIFY = Some ''true'',
               URL = Some ''https://mechinweb.com''\<rparr>"

definition sample_ctx :: ctx where
  "sample_ctx = \<lparr>awsRequestId = Some ''req-1'', at_request = 1700000000000,
                 at_invoice_number = 1700000000001, at_invoice_date = 1700000000002,
                 at_due_date = 1700000000003, timestamp = ''2023-11-14T22:13:20.000Z'',
                 nodeVersion = ''v18.0.0''\<rparr>"

definition relay_up :: smtp_world where
  "relay_up = \<lparr>createTransport_throws = None, verify_rejects = None,
               sendMail = (\<lambda>m n. Inr \<lparr>messageId = ''<1@mechinweb.com>'', smtp_response = ''250 OK''\<rparr>),
               first_completes_next = (\<lambda>tr. True)\<rparr>"

definition options_mail_event :: "email_request event" where
  "options_mail_event = \<lparr>httpMethod = ''OPTIONS'', path = ''/.netlify/functions/test'',
                         event_body = Absent\<rparr>"

definition options_event :: "zoho_request event" where
  "options_event = \<lparr>httpMethod = ''OPTIONS'', path = ''/.netlify/functions/zohoIntegration'',
                    event_body = Absent\<rparr>"

section \<open>Reading a response\<close>

definition body_field :: "response_t \<Rightarrow> string \<Rightarrow> jsval" where
  "body_field r k = (case body r of Stringify j \<Rightarrow> field j k | _ \<Rightarrow> Undefined)"

definition get_event :: "zoho_request event" where
  "get_event = \<lparr>httpMethod = ''GET'', path = ''/.netlify/functions/createPayment'',
                event_body = Absent\<rparr>"

definition vendor_down :: axios_world where
  "vendor_down = (\<lambda>h c. Rejected \<lparr>message = ''connect ECONNREFUSED'', response = None,
                                   code = Some ''ECONNREFUSED''\<rparr>)"

definition partial_env :: env where
  "partial_env = \<lparr>ZOHO_CLIENT_ID = Some ''1000.ABC'', ZOHO_CLIENT_SECRET = None,
                  ZOHO_REFRESH_TOKEN = Some '''', ZOHO_ORGANIZATION_ID = Some ''60001'',
                  EMAIL_USER = None, EMAIL_PASSWORD = None,
                  NODE_ENV = None, NETLIFY = None, URL = None\<rparr>"

definition post_event :: "zoho_request event" where
  "post_event = \<lparr>httpMethod = ''POST'', path = ''/.netlify/functions/createPayment'',
                 event_body = Absent\<rparr>"

section \<open>Naming the outbound calls\<close>

definition token_call :: "string \<Rightarrow> nat option \<Rightarrow> outcall" where
  "token_call url t = \<lparr>oc_url = url, oc_request = TokenRefresh, oc_auth = None, oc_timeout = t\<rparr>"

definition contact_create_call ::
  "string \<Rightarrow> string option \<Rightarrow> customer_data \<Rightarrow> nat option \<Rightarrow> outcall" where
  "contact_create_call base accessToken cd t =
     \<lparr>oc_url = base @ ''/contacts'', oc_request = ContactCreate (customerPayload cd),
      oc_auth = oauth accessToken, oc_timeout = t\<rparr>"

definition contact_search_call ::
  "string \<Rightarrow> string option \<Rightarrow> string option \<Rightarrow> nat option \<Rightarrow> outcall" where
  "contact_search_call url accessToken email t =
     \<lparr>oc_url = url, oc_request = ContactSearch email,
      oc_auth = oauth accessToken, oc_timeout = t\<rparr>"

definition invoice_create_call ::
  "string \<Rightarrow> string option \<Rightarrow> invoice_payload \<Rightarrow> nat option \<Rightarrow> outcall" where
  "invoice_create_call base accessToken p t =
     \<lparr>oc_url = base @ ''/invoices'', oc_request = InvoiceCreate p,
      oc_auth = oauth accessToken, oc_timeout = t\<rparr>"

text \<open>Vendors that refuse the refresh token: status 400 with the error code
  \<open>invalid_grant\<close>, status 400 with \<open>invalid_client\<close>, status 401, status 503.\<close>

definition refusal :: "nat \<Rightarrow> string \<Rightarrow> string option \<Rightarrow> js_error" where
  "refusal st txt err =
     \<lparr>message = ''Request failed with status code '' @ show_nat st,
      response = Some \<lparr>err_status = st, err_statusText = txt,
                       err_data = Some \<lparr>body_error = err, body_error_description = None,
                                         body_message = None\<rparr>\<rparr>,
      code = Some ''ERR_BAD_REQUEST''\<rparr>"

definition vendor_refuses :: "js_error \<Rightarrow> axios_world" where
  "vendor_refuses e = (\<lambda>h c. Rejected e)"

text \<open>A customer, a contact the vendor already holds for the same address, and vendors
  that answer the creation call with a given failure and the search with that contact.\<close>

definition sample_customer :: customer_data where
  "sample_customer = \<lparr>cust_name = Some ''Asha Rao'', cust_email = Some ''asha@example.com'',
                       cust_phone = None, cust_company = Some ''Rao Traders''\<rparr>"

definition known_contact :: contact where
  "known_contact = \<lparr>contact_id = ''460000000026049'', contact_name = ''Asha Rao'',
                     contact_email = ''asha@example.com''\<rparr>"

definition no_data :: vendor_data where
  "no_data = \<lparr>access_token = None, data_contact = None, data_contacts = None,
              data_invoice = None\<rparr>"

definition vendor_with_contact :: "js_error \<Rightarrow> axios_world" where
  "vendor_with_contact e = (\<lambda>h c.
     case oc_request c of
       ContactCreate p \<Rightarrow> Rejected e
     | ContactSearch email \<Rightarrow> Resolved (no_data\<lparr>data_contacts := Some [known_contact]\<rparr>)
     | _ \<Rightarrow> Resolved (no_data\<lparr>access_token := Some ''token-1''\<rparr>))"

definition fetch_vendor_with_contact :: "nat \<Rightarrow> fetch_world" where
  "fetch_vendor_with_contact st = (\<lambda>h c.
     case oc_request c of
       ContactCreate p \<Rightarrow> Responded \<lparr>fr_status = st, fr_text = ''{}'', fr_json = Some no_data\<rparr>
     | ContactSearch email \<Rightarrow>
         Responded \<lparr>fr_status = 200, fr_text = ''{}'',
                    fr_json = Some (no_data\<lparr>data_contacts := Some [known_contact]\<rparr>)\<rparr>
     | _ \<Rightarrow> Responded \<lparr>fr_status = 200, fr_text = ''{}'',
                       fr_json = Some (no_data\<lparr>access_token := Some ''token-1''\<rparr>)\<rparr>)"

text \<open>An order of three units, the vendor's invoice for it, and vendors that answer the
  invoice call with that invoice.\<close>

definition sample_items :: "service_item list" where
  "sample_items = [\<lparr>serviceName = ''Email Migration'', packageType = ''basic'',
                     item_quantity = 3, unitPrice = 20, totalPrice = 60\<rparr>]"

definition sample_invoice_data :: invoice_data where
  "sample_invoice_data = \<lparr>inv_serviceItems = Some sample_items, inv_currency = Some ''USD'',
                           inv_notes = None\<rparr>"

definition vendor_invoice_42 :: vendor_invoice where
  "vendor_invoice_42 = \<lparr>invoice_id = ''982000000567114'', invoice_number = ''INV-000042'',
                         invoice_total = 60, invoice_status = ''sent'',
                         last_payment_date = None\<rparr>"

definition vendor_invoicing :: axios_world where
  "vendor_invoicing = (\<lambda>h c. Resolved (no_data\<lparr>access_token := Some ''token-1'',
                                                 data_contact := Some known_contact,
                                                 data_invoice := Some vendor_invoice_42\<rparr>))"

text \<open>A clock whose reading for the invoice date is the last millisecond of a UTC day
  and whose reading for the due date is the first millisecond of the next day.\<close>

definition midnight_ctx :: ctx where
  "midnight_ctx = \<lparr>awsRequestId = Some ''req-2'', at_request = 1700006390000,
                   at_invoice_number = 1700006399999, at_invoice_date = 1700006399999,
                   at_due_date = 1700006400000, timestamp = ''2023-11-15T00:00:00.000Z'',
                   nodeVersion = ''v18.0.0''\<rparr>"

section \<open>Properties of traces\<close>

text \<open>A trace has no retry when no outbound call that failed is made again later.\<close>

fun no_retry :: "trace \<Rightarrow> bool" where
  "no_retry [] = True"
| "no_retry (Outbound c ok # tr) = ((ok \<or> c \<notin> set (calls tr)) \<and> no_retry tr)"
| "no_retry (Delay ms # tr) = no_retry tr"

text \<open>The timeout each kind of request carries in the Netlify functions; the token
  request has 10 seconds in three of them and 15 in one. (The two SMTP requests are not
  HTTP calls and are not made by these functions.)\<close>

fun fixed_timeout :: "nat \<Rightarrow> request \<Rightarrow> nat option" where
  "fixed_timeout token_ms TokenRefresh = Some token_ms"
| "fixed_timeout token_ms (ContactCreate p) = Some 15000"
| "fixed_timeout token_ms (ContactSearch email) = Some 15000"
| "fixed_timeout token_ms ContactsProbe = Some 15000"
| "fixed_timeout token_ms (InvoiceCreate p) = Some 20000"
| "fixed_timeout token_ms (InvoiceGet invoiceId) = Some 15000"
| "fixed_timeout token_ms SmtpVerify = None"
| "fixed_timeout token_ms (SmtpSend m) = None"

fun timeouts_fixed :: "nat \<Rightarrow> trace \<Rightarrow> bool" where
  "timeouts_fixed token_ms [] = True"
| "timeouts_fixed token_ms (Outbound c ok # tr) =
     (oc_timeout c = fixed_timeout token_ms (oc_request c) \<and> timeouts_fixed token_ms tr)"
| "timeouts_fixed token_ms (Delay ms # tr) = timeouts_fixed token_ms tr"

fun no_timeouts :: "trace \<Rightarrow> bool" where
  "no_timeouts [] = True"
| "no_timeouts (Outbound c ok # tr) = (oc_timeout c = None \<and> no_timeouts tr)"
| "no_timeouts (Delay ms # tr) = no_timeouts tr"

text \<open>The calls of a trace that failed, and the number of times a message was sent.\<close>

fun failed_calls :: "trace \<Rightarrow> outcall list" where
  "failed_calls [] = []"
| "failed_calls (Outbound c ok # tr) = (if ok then failed_calls tr else c # failed_calls tr)"
| "failed_calls (Delay ms # tr) = failed_calls tr"

definition attempts :: "email_options \<Rightarrow> trace \<Rightarrow> nat" where
  "attempts m tr = length (filter (\<lambda>c. oc_request c = SmtpSend m) (calls tr))"

text \<open>A statement about a computation: from a trace that satisfies \<open>P\<close> it ends with a
  value \<open>a\<close> and a trace that satisfies \<open>Q a\<close>, or throws with a trace that satisfies
  \<open>E\<close>. An invariant is kept either way.\<close>

definition ensures ::
  "(trace \<Rightarrow> bool) \<Rightarrow> 'a io \<Rightarrow> ('a \<Rightarrow> trace \<Rightarrow> bool) \<Rightarrow> (trace \<Rightarrow> bool) \<Rightarrow> bool" where
  "ensures P m Q E =
     (\<forall>tr. P tr \<longrightarrow> (case m tr of (Inr a, tr') \<Rightarrow> Q a tr' | (Inl e, tr') \<Rightarrow> E tr'))"

abbreviation invariant :: "(trace \<Rightarrow> bool) \<Rightarrow> 'a io \<Rightarrow> bool" where
  "invariant I m \<equiv> ensures I m (\<lambda>a. I) I"

text \<open>\<open>quiet F tr\<close>: the trace has no retry and every call that failed in it is in \<open>F\<close>.\<close>

definition quiet :: "outcall set \<Rightarrow> trace \<Rightarrow> bool" where
  "quiet F tr = (no_retry tr \<and> set (failed_calls tr) \<subseteq> F)"

datatype endpoint = EToken | EProbe | EContactCreate | EContactSearch | EInvoiceCreate
  | EInvoiceGet | ESmtpVerify | ESmtpSend

fun endpoint_of :: "request \<Rightarrow> endpoint" where
  "endpoint_of TokenRefresh = EToken"
| "endpoint_of (ContactCreate p) = EContactCreate"
| "endpoint_of (ContactSearch email) = EContactSearch"
| "endpoint_of ContactsProbe = EProbe"
| "endpoint_of (InvoiceCreate p) = EInvoiceCreate"
| "endpoint_of (InvoiceGet invoiceId) = EInvoiceGet"
| "endpoint_of SmtpVerify = ESmtpVerify"
| "endpoint_of (SmtpSend m) = ESmtpSend"

definition calls_to :: "endpoint set \<Rightarrow> outcall set" where
  "calls_to K = {c. endpoint_of (oc_request c) \<in> K}"

text \<open>A purchase request and a request for a token.\<close>

definition purchase_request :: zoho_request where
  "purchase_request = empty_request\<lparr>rq_customerData := Some sample_customer,
                                      rq_serviceItems := Some sample_items,
                                      rq_currency := Some ''USD''\<rparr>"

definition purchase_event :: "zoho_request event" where
  "purchase_event = \<lparr>httpMethod = ''POST'', path = ''/.netlify/functions/createPayment'',
                     event_body = Parsed purchase_request\<rparr>"

definition token_event :: "zoho_request event" where
  "token_event = \<lparr>httpMethod = ''GET'', path = ''/zoho-integration/token'',
                  event_body = Absent\<rparr>"

text \<open>The order in which the functions call the endpoints, and traces whose calls go up
  in that order and stay below a bound.\<close>

fun rank :: "request \<Rightarrow> nat" where
  "rank TokenRefresh = 0"
| "rank ContactsProbe = 1"
| "rank (ContactCreate p) = 2"
| "rank (ContactSearch email) = 3"
| "rank (InvoiceCreate p) = 4"
| "rank (InvoiceGet invoiceId) = 4"
| "rank SmtpVerify = 5"
| "rank (SmtpSend m) = 6"

definition below :: "nat \<Rightarrow> trace \<Rightarrow> bool" where
  "below n tr = (sorted_wrt (<) (map (\<lambda>c. rank (oc_request c)) (calls tr))
                 \<and> (\<forall>c \<in> set (calls tr). rank (oc_request c) < n))"

text \<open>A relay that accepts every message, one that refuses the first attempt of every
  message and accepts the second, and one that refuses every message to the business
  address; a contact-form submission.\<close>

definition sample_info :: send_info where
  "sample_info = \<lparr>messageId = ''<1@mechinweb.com>'', smtp_response = ''250 OK''\<rparr>"

definition relay_busy :: js_error where
  "relay_busy = \<lparr>message = ''451 Temporary server error'', response = None,
                 code = Some ''EENVELOPE''\<rparr>"

definition relay_flaky :: smtp_world where
  "relay_flaky = \<lparr>createTransport_throws = None, verify_rejects = None,
                  sendMail = (\<lambda>m n. if n = 1 then Inl relay_busy else Inr sample_info),
                  first_completes_next = (\<lambda>tr. True)\<rparr>"

definition relay_business_down :: smtp_world where
  "relay_business_down =
     \<lparr>createTransport_throws = None, verify_rejects = None,
      sendMail = (\<lambda>m n. if mail_to m = Some ''contact@mechinweb.com''
                          then Inl relay_busy else Inr sample_info),
      first_completes_next = (\<lambda>tr. True)\<rparr>"

definition contact_form_data :: form_data where
  "contact_form_data =
     (\<lambda>k. if k = ''name'' then Some ''Asha Rao''
           else if k = ''email'' then Some ''asha@example.com''
           else if k = ''subject'' then Some ''Migration''
           else if k = ''message'' then Some ''Please call me.''
           else None)"

definition contact_form_event :: "email_request event" where
  "contact_form_event =
     \<lparr>httpMethod = ''POST'', path = ''/.netlify/functions/sendEmail'',
      event_body = Parsed \<lparr>rq_type = Some ''contact_form'',
                            rq_data = Some contact_form_data\<rparr>\<rparr>"

text \<open>What the specification says of two sends awaited jointly, in its words: the
  errors of the sends that failed, and a response that reports success when none failed
  and otherwise is a 500 whose \<open>error\<close> is the message of a send that failed.\<close>

definition failures :: "js_error + 'a \<Rightarrow> js_error + 'b \<Rightarrow> js_error list" where
  "failures r1 r2 = (case r1 of Inl e \<Rightarrow> [e] | Inr a \<Rightarrow> [])
                    @ (case r2 of Inl e \<Rightarrow> [e] | Inr b \<Rightarrow> [])"

definition jointly_reported :: "js_error + 'a \<Rightarrow> js_error + 'b \<Rightarrow> response_t \<Rightarrow> bool" where
  "jointly_reported r1 r2 resp =
     (if failures r1 r2 = []
      then statusCode resp = 200 \<and> body_field resp ''success'' = JBool True
      else statusCode resp = 500 \<and> body_field resp ''success'' = JBool False
           \<and> body_field resp ''error'' \<in> set (map JStr (map message (failures r1 r2))))"

section \<open>Purchase-page totals\<close>

lemma round_half_even_int: "round_half_even (of_int m) = m"
  by (simp add: round_half_even_def)

lemma binade_int_bounds:
  assumes "n \<noteq> 0" "\<bar>n\<bar> < 2 ^ 53"
  shows "binade (of_int n) \<le> 52 \<and> - 1 \<le> binade (of_int n)"
proof -
  from assms(1) have p: "0 < \<bar>n\<bar>" by simp
  from assms(2) have u: "bitlen \<bar>n\<bar> \<le> 53"
    by (simp add: bitlen_le_iff_power)
  from p have l: "1 \<le> bitlen \<bar>n\<bar>"
    by (simp add: bitlen_alt_def)
  have b1: "bitlen 1 = 1"
    by (simp add: bitlen_alt_def)
  show ?thesis
    using u l by (simp add: binade_def b1 Let_def)
qed

lemma round64_int:
  assumes "\<bar>n\<bar> < 2 ^ 53"
  shows "round64 (of_int n) = of_int n"
proof (cases "n = 0")
  case True
  then show ?thesis by (simp add: round64_def)
next
  case False
  from binade_int_bounds [OF False assms]
  have b: "binade (of_int n) \<le> 52" "- 1 \<le> binade (of_int n)" by simp_all
  define k where "k = nat (52 - binade (of_int n))"
  from b have m: "max (binade (of_int n)) (- 1022) - 52 = - int k"
    by (simp add: k_def)
  have u: "pow2 (- int k) = 1 / 2 ^ k"
    by (auto simp: pow2_def)
  have "rat_of_int n * 2 ^ k = of_int (n * 2 ^ k)"
    by simp
  then have r: "round_half_even (rat_of_int n * 2 ^ k) = n * 2 ^ k"
    by (simp only: round_half_even_int)
  from False show ?thesis
    by (simp add: round64_def Let_def m u r)
qed

lemma round64_whole:
  assumes "x \<in> \<nat>" "x < 2 ^ 53"
  shows "round64 x = x"
proof -
  from assms(1) obtain n where x: "x = of_nat n"
    by (auto elim: Nats_cases)
  from assms(2) have "rat_of_int (int n) < rat_of_int (2 ^ 53)"
    by (simp add: x)
  then have "int n < 2 ^ 53"
    by (simp only: of_int_less_iff)
  then have "\<bar>int n\<bar> < 2 ^ 53" by simp
  from round64_int [OF this] show ?thesis
    by (simp add: x)
qed

lemma getAddOnPrice_map_of:
  "getAddOnPrice st addOnId =
     (case map_of (map (\<lambda>a. (addOn_id a, addOn_price a)) (convertedAddOns st)) addOnId of
        Some price \<Rightarrow> price
      | None \<Rightarrow> 0)"
proof -
  have "(case find (\<lambda>a. addOn_id a = addOnId) xs of Some a \<Rightarrow> addOn_price a | None \<Rightarrow> 0)
        = (case map_of (map (\<lambda>a. (addOn_id a, addOn_price a)) xs) addOnId of
             Some price \<Rightarrow> price | None \<Rightarrow> 0)" for xs
    by (induction xs) simp_all
  then show ?thesis
    by (simp add: getAddOnPrice_def)
qed

lemma selected_addOn_sum_code:
  "selected_addOn_sum st = sum_list (map (getAddOnPrice st) (selectedAddOns st))"
proof -
  have "getAddOnPrice st
        = (\<lambda>addOnId.
             case map_of (map (\<lambda>a. (addOn_id a, addOn_price a)) (convertedAddOns st)) addOnId of
               Some price \<Rightarrow> price
             | None \<Rightarrow> 0)"
    by (rule ext) (rule getAddOnPrice_map_of)
  then show ?thesis
    by (simp only: selected_addOn_sum_def)
qed

lemma find_absent: "\<forall>x \<in> set xs. \<not> P x \<Longrightarrow> find P xs = None"
  by (induction xs) simp_all

lemma find_Some_mem: "find P xs = Some x \<Longrightarrow> x \<in> set xs"
  by (induction xs) (auto split: if_splits)

lemma getAddOnPrice_whole:
  assumes "\<forall>a \<in> set (convertedAddOns st). addOn_price a \<in> \<nat>"
  shows "getAddOnPrice st addOnId \<in> \<nat>"
proof (cases "find (\<lambda>a. addOn_id a = addOnId) (convertedAddOns st)")
  case None
  then show ?thesis by (simp add: getAddOnPrice_def)
next
  case (Some a)
  from find_Some_mem [OF Some] assms have "addOn_price a \<in> \<nat>" by simp
  with Some show ?thesis by (simp add: getAddOnPrice_def)
qed

lemma Nats_nonneg: "x \<in> \<nat> \<Longrightarrow> 0 \<le> x" for x :: rat
  by (auto elim: Nats_cases)

lemma sum_list_whole:
  fixes f :: "'a \<Rightarrow> rat"
  assumes "\<forall>i \<in> set xs. f i \<in> \<nat>"
  shows "sum_list (map f xs) \<in> \<nat>"
  using assms by (induction xs) (simp_all add: Nats_add)

lemma foldl_js_add_exact:
  assumes "\<forall>i \<in> set xs. f i \<in> \<nat>" "acc \<in> \<nat>" "acc + sum_list (map f xs) < 2 ^ 53"
  shows "foldl (\<lambda>total i. js_add total (f i)) acc xs = acc + sum_list (map f xs)"
  using assms
proof (induction xs arbitrary: acc)
  case Nil
  then show ?case by simp
next
  case (Cons x xs)
  from Cons.prems(1) have fx: "f x \<in> \<nat>" and rest: "\<forall>i \<in> set xs. f i \<in> \<nat>"
    by simp_all
  from sum_list_whole [OF rest] have "0 \<le> sum_list (map f xs)"
    by (rule Nats_nonneg)
  with Cons.prems(3) have small: "acc + f x < 2 ^ 53"
    by simp
  from Cons.prems(2) fx have whole: "acc + f x \<in> \<nat>"
    by (rule Nats_add)
  from round64_whole [OF whole small] have step: "js_add acc (f x) = acc + f x"
    by (simp add: js_add_def)
  from Cons.prems(3) have "(acc + f x) + sum_list (map f xs) < 2 ^ 53"
    by (simp add: add.assoc)
  from Cons.IH [OF rest whole this] show ?case
    by (simp add: step add.assoc)
qed

lemma getCurrentPrice_listed:
  assumes "service st = Some s"
    "(if userCurrency st = ''USD'' then service_pricing s else convertedPricing st)
       (selectedPackage st) = Some p"
  shows "getCurrentPrice st = p"
  using assms by (simp add: getCurrentPrice_def Let_def)

lemma getTotalPrice_whole:
  assumes "service st = Some s"
    "(if userCurrency st = ''USD'' then service_pricing s else convertedPricing st)
       (selectedPackage st) = Some p"
    and whole: "p \<in> \<nat>" "quantity st \<in> \<nat>" "\<forall>a \<in> set (convertedAddOns st). addOn_price a \<in> \<nat>"
    and small: "selected_addOn_sum st < 2 ^ 53"
      "(p + selected_addOn_sum st) * quantity st < 2 ^ 53"
  shows "getTotalPrice st = (p + selected_addOn_sum st) * quantity st"
proof -
  let ?s = "selected_addOn_sum st" and ?q = "quantity st"
  have each: "\<forall>i \<in> set (selectedAddOns st). getAddOnPrice st i \<in> \<nat>"
    using getAddOnPrice_whole [OF whole(3)] by simp
  have s_whole: "?s \<in> \<nat>"
    unfolding selected_addOn_sum_code by (rule sum_list_whole [OF each])
  have addOns: "getTotalAddOnPrice st = ?s"
    unfolding getTotalAddOnPrice_def selected_addOn_sum_code
    using foldl_js_add_exact [OF each, of 0] small(1)
    by (simp add: selected_addOn_sum_code)
  have nn: "0 \<le> p" "0 \<le> ?s" "0 \<le> ?q"
    using whole(1) s_whole whole(2) by (simp_all add: Nats_nonneg)
  have total: "(p + ?s) * ?q = p * ?q + ?s * ?q"
    by (simp add: distrib_right)
  from nn have "0 \<le> p * ?q" "0 \<le> ?s * ?q"
    by simp_all
  with small(2) total have b: "p * ?q < 2 ^ 53" "?s * ?q < 2 ^ 53" "p * ?q + ?s * ?q < 2 ^ 53"
    by simp_all
  have w: "p * ?q \<in> \<nat>" "?s * ?q \<in> \<nat>"
    using whole(1,2) s_whole by (simp_all add: Nats_mult)
  then have w2: "p * ?q + ?s * ?q \<in> \<nat>"
    by (simp add: Nats_add)
  have m1: "js_mul p ?q = p * ?q"
    unfolding js_mul_def by (rule round64_whole [OF w(1) b(1)])
  have m2: "js_mul ?s ?q = ?s * ?q"
    unfolding js_mul_def by (rule round64_whole [OF w(2) b(2)])
  have a: "js_add (p * ?q) (?s * ?q) = p * ?q + ?s * ?q"
    unfolding js_add_def by (rule round64_whole [OF w2 b(3)])
  show ?thesis
    by (simp add: getTotalPrice_def Let_def getCurrentPrice_listed [OF assms(1,2)] addOns m1 m2 a
        total)
qed

text \<open>
  C8, as the code has it. The order total is the unit price that the pricing table of
  the page's currency lists for the selected package, times the quantity, plus the total
  of the selected add-ons, times the quantity, so add-on charges scale with the quantity;
  an add-on id that is not in the add-on list contributes 0. Every product and sum is an
  operation on JavaScript numbers. When the unit price, the add-on prices and the
  quantity are whole numbers and the results stay below \<open>2 ^ 53\<close>, the total is exactly
  (unit price + sum of the prices of the selected add-ons) times the quantity.
\<close>

theorem getTotalPrice_scales_with_quantity:
  assumes "service st = Some s"
    and "(if userCurrency st = ''USD'' then service_pricing s else convertedPricing st)
           (selectedPackage st) = Some p"
  shows "getTotalPrice st
           = js_add (js_mul p (quantity st)) (js_mul (getTotalAddOnPrice st) (quantity st))
     \<and> getTotalAddOnPrice st
           = foldl (\<lambda>total addOnId.
                      js_add total
                        (case map_of (map (\<lambda>a. (addOn_id a, addOn_price a)) (convertedAddOns st))
                                addOnId of
                           Some price \<Rightarrow> price
                         | None \<Rightarrow> 0))
               0 (selectedAddOns st)
     \<and> (addOnId \<notin> addOn_id ` set (convertedAddOns st) \<longrightarrow> getAddOnPrice st addOnId = 0)
     \<and> (p \<in> \<nat> \<and> quantity st \<in> \<nat> \<and> (\<forall>a \<in> set (convertedAddOns st). addOn_price a \<in> \<nat>)
          \<and> selected_addOn_sum st < 2 ^ 53
          \<and> (p + selected_addOn_sum st) * quantity st < 2 ^ 53 \<longrightarrow>
        getTotalPrice st = (p + selected_addOn_sum st) * quantity st)"
proof (intro conjI impI)
  show "getTotalPrice st
          = js_add (js_mul p (quantity st)) (js_mul (getTotalAddOnPrice st) (quantity st))"
    by (simp add: getTotalPrice_def Let_def getCurrentPrice_listed [OF assms])
next
  have "(\<lambda>total addOnId. js_add total (getAddOnPrice st addOnId))
        = (\<lambda>total addOnId.
             js_add total
               (case map_of (map (\<lambda>a. (addOn_id a, addOn_price a)) (convertedAddOns st))
                       addOnId of
                  Some price \<Rightarrow> price
                | None \<Rightarrow> 0))"
    by (simp add: getAddOnPrice_map_of)
  then show "getTotalAddOnPrice st
           = foldl (\<lambda>total addOnId.
                      js_add total
                        (case map_of (map (\<lambda>a. (addOn_id a, addOn_price a)) (convertedAddOns st))
                                addOnId of
                           Some price \<Rightarrow> price
                         | None \<Rightarrow> 0))
               0 (selectedAddOns st)"
    by (simp only: getTotalAddOnPrice_def)
next
  assume "addOnId \<notin> addOn_id ` set (convertedAddOns st)"
  then have "\<forall>a \<in> set (convertedAddOns st). \<not> addOn_id a = addOnId" by auto
  then have "find (\<lambda>a. addOn_id a = addOnId) (convertedAddOns st) = None"
    by (rule find_absent)
  then show "getAddOnPrice st addOnId = 0"
    by (simp add: getAddOnPrice_def)
next
  assume h: "p \<in> \<nat> \<and> quantity st \<in> \<nat> \<and> (\<forall>a \<in> set (convertedAddOns st). addOn_price a \<in> \<nat>)
          \<and> selected_addOn_sum st < 2 ^ 53
          \<and> (p + selected_addOn_sum st) * quantity st < 2 ^ 53"
  then have h': "p \<in> \<nat>" "quantity st \<in> \<nat>" "\<forall>a \<in> set (convertedAddOns st). addOn_price a \<in> \<nat>"
    "selected_addOn_sum st < 2 ^ 53" "(p + selected_addOn_sum st) * quantity st < 2 ^ 53"
    by simp_all
  show "getTotalPrice st = (p + selected_addOn_sum st) * quantity st"
    by (rule getTotalPrice_whole [OF assms h'])
qed

theorem getTotalPrice_scales_with_quantity_witness:
  "service sample_page = Some sample_service
   \<and> service_pricing sample_service (selectedPackage sample_page) = Some 20
   \<and> selected_addOn_sum sample_page = 10 + 8
   \<and> getTotalPrice sample_page = (20 + (10 + 8)) * 3
   \<and> getAddOnPrice sample_page ''express-delivery'' = 0"
proof -
  have s: "service sample_page = Some sample_service"
    by (simp add: sample_page_def)
  have p: "(if userCurrency sample_page = ''USD'' then service_pricing sample_service
            else convertedPricing sample_page) (selectedPackage sample_page) = Some 20"
    by (simp add: sample_page_def sample_service_def)
  have p': "service_pricing sample_service (selectedPackage sample_page) = Some 20"
    by (simp add: sample_page_def sample_service_def)
  have a: "''express-delivery'' \<notin> addOn_id ` set (convertedAddOns sample_page)"
    by (simp add: sample_page_def sample_addOns_def)
  have sum: "selected_addOn_sum sample_page = 10 + 8"
    by (simp add: selected_addOn_sum_def sample_page_def sample_addOns_def)
  have q: "quantity sample_page = 3"
    by (simp add: sample_page_def)
  have w: "(20::rat) \<in> \<nat> \<and> quantity sample_page \<in> \<nat>
        \<and> (\<forall>a \<in> set (convertedAddOns sample_page). addOn_price a \<in> \<nat>)
        \<and> selected_addOn_sum sample_page < 2 ^ 53
        \<and> (20 + selected_addOn_sum sample_page) * quantity sample_page < 2 ^ 53"
    by (simp add: sum q) (simp add: sample_page_def sample_addOns_def)
  note t = getTotalPrice_scales_with_quantity [OF s p, of "''express-delivery''"]
  from t [THEN conjunct2, THEN conjunct2, THEN conjunct1, THEN mp, OF a]
  have absent: "getAddOnPrice sample_page ''express-delivery'' = 0" .
  from t [THEN conjunct2, THEN conjunct2, THEN conjunct2, THEN mp, OF w]
  have total: "getTotalPrice sample_page = (20 + (10 + 8)) * 3"
    by (simp add: sum q)
  show ?thesis
    by (intro conjI s p' sum total absent)
qed

text \<open>The claim as stated fails for prices that are not whole: with the basic package at
  30.4 and the backup service at 7.6, three units come to 113.99999999999998579, which
  is neither the exact product (price + add-on) times 3 of the two numbers nor the
  product computed in JavaScript arithmetic, 114.\<close>

theorem getTotalPrice_counterexample:
  "getCurrentPrice fraction_page = round64 (152 / 5)
   \<and> selected_addOn_sum fraction_page = round64 (38 / 5)
   \<and> quantity fraction_page = 3
   \<and> getTotalPrice fraction_page = 64176294690029560 / 2 ^ 49
   \<and> (round64 (152 / 5) + round64 (38 / 5)) * 3 = 64176294690029565 / 2 ^ 49
   \<and> js_mul (js_add (round64 (152 / 5)) (round64 (38 / 5))) 3 = 114
   \<and> getTotalPrice fraction_page
       \<noteq> (getCurrentPrice fraction_page + selected_addOn_sum fraction_page)
           * quantity fraction_page
   \<and> getTotalPrice fraction_page
       \<noteq> js_mul (js_add (getCurrentPrice fraction_page) (selected_addOn_sum fraction_page))
           (quantity fraction_page)"
proof -
  have p: "getCurrentPrice fraction_page = round64 (152 / 5)"
    by (simp add: getCurrentPrice_def fraction_page_def sample_service_def)
  have s: "selected_addOn_sum fraction_page = round64 (38 / 5)"
    by (simp add: selected_addOn_sum_def fraction_page_def)
  have q: "quantity fraction_page = 3"
    by (simp add: fraction_page_def)
  have a: "getTotalAddOnPrice fraction_page = js_add 0 (round64 (38 / 5))"
    by (simp add: getTotalAddOnPrice_def getAddOnPrice_def fraction_page_def)
  have v: "js_add (js_mul (round64 (152 / 5)) 3) (js_mul (js_add 0 (round64 (38 / 5))) 3)
             = 64176294690029560 / 2 ^ 49"
    by code_simp
  have t: "getTotalPrice fraction_page = 64176294690029560 / 2 ^ 49"
    by (simp only: getTotalPrice_def Let_def p q a v)
  have e: "(round64 (152 / 5) + round64 (38 / 5)) * 3 = 64176294690029565 / 2 ^ 49"
    by code_simp
  have j: "js_mul (js_add (round64 (152 / 5)) (round64 (38 / 5))) 3 = 114"
    by code_simp
  have n1: "getTotalPrice fraction_page
       \<noteq> (getCurrentPrice fraction_page + selected_addOn_sum fraction_page)
           * quantity fraction_page"
    unfolding p s q t e by simp
  have n2: "getTotalPrice fraction_page
       \<noteq> js_mul (js_add (getCurrentPrice fraction_page) (selected_addOn_sum fraction_page))
           (quantity fraction_page)"
    unfolding p s q t j by simp
  show ?thesis
    by (intro conjI p s q t e j n1 n2)
qed

section \<open>New orders\<close>

lemma handlePurchase_try_throws:
  "handlePurchase_try conv ins st u s = (Inl (ReferenceError ''setIsLoading is not defined''), [])"
  by (simp add: handlePurchase_try_def setIsLoading_def)

lemma sample_page_signed_in:
  "user sample_page = Some ''user-1'' \<and> service sample_page = Some sample_service"
  by (simp add: sample_page_def)

text \<open>
  C10. \<open>handlePurchase\<close> never reaches the \<open>orders\<close> insert. Without a user or a service
  it does nothing. Otherwise the first statement of its \<open>try\<close> block throws, the \<open>catch\<close>
  block alerts, and the \<open>finally\<close> block throws again: the function ends with a
  ReferenceError after one alert, whatever the conversion function and the database
  would answer; so for the sample page, with its signed-in user and loaded service.
\<close>

theorem handlePurchase_creates_no_order:
  "handlePurchase conv ins st
     = (if user st = None \<or> service st = None then (Inr (), [])
        else (Inl (ReferenceError ''setIsLoading is not defined''),
              [Alert ''Failed to create order. Please try again.'']))
   \<and> handlePurchase sample_convert sample_insert sample_page
     = (Inl (ReferenceError ''setIsLoading is not defined''),
        [Alert ''Failed to create order. Please try again.''])"
proof
  show "handlePurchase conv ins st
     = (if user st = None \<or> service st = None then (Inr (), [])
        else (Inl (ReferenceError ''setIsLoading is not defined''),
              [Alert ''Failed to create order. Please try again.'']))"
  proof (cases "user st")
    case None
    then show ?thesis by (simp add: handlePurchase_def)
  next
    case u: (Some user_id)
    show ?thesis
    proof (cases "service st")
      case None
      with u show ?thesis by (simp add: handlePurchase_def)
    next
      case (Some s)
      with u show ?thesis
        by (simp add: handlePurchase_def handlePurchase_try_throws setIsLoading_def)
    qed
  qed
next
  show "handlePurchase sample_convert sample_insert sample_page
     = (Inl (ReferenceError ''setIsLoading is not defined''),
        [Alert ''Failed to create order. Please try again.''])"
    by (simp add: handlePurchase_def sample_page_signed_in handlePurchase_try_throws
        setIsLoading_def)
qed

section \<open>Preflight requests\<close>

lemma preflight_shape:
  "statusCode (preflight h m) = 200 \<and> body (preflight h m) = Text []
   \<and> (''Access-Control-Allow-Origin'', ''*'') \<in> set (headers (preflight h m))"
  by (simp add: preflight_def)

text \<open>
  C9, as the code has it. Eight of the nine handlers answer an \<open>OPTIONS\<close> request at
  once: status 200, an empty body and CORS headers, whatever the environment, the request
  body and the vendor are, and with no outbound call (the trace is unchanged). The
  ninth, the second function of src/unnamed/part_001, has no such branch.
\<close>

theorem preflight_answered_at_once:
  assumes z: "httpMethod ev = ''OPTIONS''" and m: "httpMethod mev = ''OPTIONS''"
  shows "handler_v1 c env w ev tr
           = (Inr (preflight ''Content-Type, Authorization'' ''GET, POST, OPTIONS''), tr)
    \<and> handler_v3 c env w ev tr
           = (Inr (preflight ''Content-Type, Authorization'' ''GET, POST, OPTIONS''), tr)
    \<and> handler_cp c env w ev tr
           = (Inr (preflight ''Content-Type, Authorization'' ''POST, OPTIONS''), tr)
    \<and> handler_test_zoho c env w ev tr = (Inr (preflight ''Content-Type'' ''GET, OPTIONS''), tr)
    \<and> handler_sb corsHeaders c env fw ev tr
           = (Inr \<lparr>statusCode = 200, headers = corsHeaders, body = NoContent\<rparr>, tr)
    \<and> handler_se c env sw mev tr = (Inr (preflight ''Content-Type'' ''POST, OPTIONS''), tr)
    \<and> handler_rt c env sw mev tr
           = (Inr (preflight ''Content-Type, Authorization'' ''POST, OPTIONS''), tr)
    \<and> handler_test_email c env sw mev tr
           = (Inr (preflight ''Content-Type'' ''GET, OPTIONS''), tr)
    \<and> (\<forall>h a. statusCode (preflight h a) = 200 \<and> body (preflight h a) = Text []
              \<and> (''Access-Control-Allow-Origin'', ''*'') \<in> set (headers (preflight h a)))"
proof -
  have 1: "handler_v1 c env w ev tr
           = (Inr (preflight ''Content-Type, Authorization'' ''GET, POST, OPTIONS''), tr)"
    by (simp add: z handler_v1_def return_def)
  have 2: "handler_v3 c env w ev tr
           = (Inr (preflight ''Content-Type, Authorization'' ''GET, POST, OPTIONS''), tr)"
    by (simp add: z handler_v3_def return_def)
  have 3: "handler_cp c env w ev tr
           = (Inr (preflight ''Content-Type, Authorization'' ''POST, OPTIONS''), tr)"
    by (simp add: z handler_cp_def return_def)
  have 4: "handler_test_zoho c env w ev tr = (Inr (preflight ''Content-Type'' ''GET, OPTIONS''), tr)"
    by (simp add: z handler_test_zoho_def return_def)
  have 5: "handler_sb corsHeaders c env fw ev tr
           = (Inr \<lparr>statusCode = 200, headers = corsHeaders, body = NoContent\<rparr>, tr)"
    by (simp add: z handler_sb_def return_def)
  have 6: "handler_se c env sw mev tr = (Inr (preflight ''Content-Type'' ''POST, OPTIONS''), tr)"
    by (simp add: m handler_se_def return_def)
  have 7: "handler_rt c env sw mev tr
           = (Inr (preflight ''Content-Type, Authorization'' ''POST, OPTIONS''), tr)"
    by (simp add: m handler_rt_def return_def)
  have 8: "handler_test_email c env sw mev tr
           = (Inr (preflight ''Content-Type'' ''GET, OPTIONS''), tr)"
    by (simp add: m handler_test_email_def return_def)
  have 9: "\<forall>h a. statusCode (preflight h a) = 200 \<and> body (preflight h a) = Text []
              \<and> (''Access-Control-Allow-Origin'', ''*'') \<in> set (headers (preflight h a))"
    using preflight_shape by blast
  show ?thesis
    by (intro conjI 1 2 3 4 5 6 7 8 9)
qed

theorem preflight_answered_at_once_witness:
  "httpMethod options_event = ''OPTIONS'' \<and> httpMethod options_mail_event = ''OPTIONS''
   \<and> handler_v1 sample_ctx no_env (\<lambda>h c. Rejected (Error ''unreachable'')) options_event []
        = (Inr (preflight ''Content-Type, Authorization'' ''GET, POST, OPTIONS''), [])
   \<and> handler_rt sample_ctx no_env relay_up options_mail_event []
        = (Inr (preflight ''Content-Type, Authorization'' ''POST, OPTIONS''), [])"
proof -
  have z: "httpMethod options_event = ''OPTIONS''"
    by (simp add: options_event_def)
  have m: "httpMethod options_mail_event = ''OPTIONS''"
    by (simp add: options_mail_event_def)
  note t = preflight_answered_at_once [OF z m, of sample_ctx no_env
      "\<lambda>h c. Rejected (Error ''unreachable'')" "[]" "[]" "\<lambda>h c. NoResponse (Error ''unreachable'')"
      relay_up]
  from t have a: "handler_v1 sample_ctx no_env (\<lambda>h c. Rejected (Error ''unreachable''))
      options_event [] = (Inr (preflight ''Content-Type, Authorization'' ''GET, POST, OPTIONS''), [])"
    by (elim conjE)
  from t have b: "handler_rt sample_ctx no_env relay_up options_mail_event []
        = (Inr (preflight ''Content-Type, Authorization'' ''POST, OPTIONS''), [])"
    by (elim conjE)
  show ?thesis
    by (intro conjI z m a b)
qed

text \<open>The claim as stated fails at the bare mail test function: without credentials an
  \<open>OPTIONS\<close> request is answered 500 with no headers, and with credentials it goes on to
  create the transporter, as for any other request, and answers 500 with a JSON body.\<close>

theorem preflight_counterexample:
  "handler_test_nodemailer no_env relay_up options_mail_event []
     = (Inr \<lparr>statusCode = 500, headers = [],
             body = Stringify (JObj [(''error'', JStr ''Email credentials not configured.'')])\<rparr>, [])
   \<and> handler_test_nodemailer full_env relay_up options_mail_event []
     = (Inr \<lparr>statusCode = 500, headers = [],
             body = Stringify (JObj [(''success'', JBool False), (''error'', JStr ''Test failed.''),
                      (''errorMessage'',
                       JStr ''nodemailer.createTransporter is not a function'')])\<rparr>,
        [])"
proof -
  have a: "handler_test_nodemailer no_env relay_up options_mail_event []
     = (Inr \<lparr>statusCode = 500, headers = [],
             body = Stringify (JObj [(''error'', JStr ''Email credentials not configured.'')])\<rparr>, [])"
    by (simp add: handler_test_nodemailer_def no_env_def truthy_def return_def)
  have b: "handler_test_nodemailer full_env relay_up options_mail_event []
     = (Inr \<lparr>statusCode = 500, headers = [],
             body = Stringify (JObj [(''success'', JBool False), (''error'', JStr ''Test failed.''),
                      (''errorMessage'',
                       JStr ''nodemailer.createTransporter is not a function'')])\<rparr>,
        [])"
    by (simp add: handler_test_nodemailer_def full_env_def truthy_def return_def bind_def
        catch_def throw_def nodemailer_createTransporter_def TypeError_def)
  show ?thesis
    by (intro conjI a b)
qed

section \<open>Validation of the Zoho configuration\<close>

lemma missing_vars_filter:
  "missing_vars env =
     map fst (filter (\<lambda>(n, v). \<not> truthy v)
       [(''ZOHO_CLIENT_ID'', ZOHO_CLIENT_ID env), (''ZOHO_CLIENT_SECRET'', ZOHO_CLIENT_SECRET env),
        (''ZOHO_REFRESH_TOKEN'', ZOHO_REFRESH_TOKEN env),
        (''ZOHO_ORGANIZATION_ID'', ZOHO_ORGANIZATION_ID env)])"
  by (simp add: missing_vars_def)

lemma missing_vars_empty:
  "missing_vars env = [] \<longleftrightarrow>
     truthy (ZOHO_CLIENT_ID env) \<and> truthy (ZOHO_CLIENT_SECRET env)
     \<and> truthy (ZOHO_REFRESH_TOKEN env) \<and> truthy (ZOHO_ORGANIZATION_ID env)"
  by (simp add: missing_vars_def)

lemma validateZohoConfig_missing:
  "missing_vars env \<noteq> [] \<Longrightarrow>
     validateZohoConfig env tr
       = (Inl (Error (''Missing Zoho configuration: '' @ join '', '' (missing_vars env))), tr)"
  by (simp add: validateZohoConfig_def Let_def throw_def)

lemma validateZohoConfig_present:
  "missing_vars env = [] \<Longrightarrow> validateZohoConfig env tr = (Inr (), tr)"
  by (simp add: validateZohoConfig_def Let_def return_def)

lemma handler_v1_missing:
  assumes "httpMethod ev \<noteq> ''OPTIONS''" "missing_vars env \<noteq> []"
  shows "handler_v1 c env w ev tr
     = (Inr (error_response c env
               (Error (''Missing Zoho configuration: '' @ join '', '' (missing_vars env)))), tr)"
  using assms
  by (simp add: handler_v1_def bind_def catch_def return_def validateZohoConfig_missing)

lemma handler_v3_missing:
  assumes "httpMethod ev \<noteq> ''OPTIONS''" "missing_vars env \<noteq> []"
  shows "handler_v3 c env w ev tr
     = (Inr (error_response c env
               (Error (''Missing Zoho configuration: '' @ join '', '' (missing_vars env)))), tr)"
  using assms
  by (simp add: handler_v3_def bind_def catch_def return_def validateZohoConfig_missing)

lemma handler_cp_missing:
  assumes "httpMethod ev = ''POST''" "missing_vars env \<noteq> []"
  shows "handler_cp c env w ev tr
     = (Inr (error_response_cp c env
               (Error (''Missing Zoho configuration: '' @ join '', '' (missing_vars env)))), tr)"
  using assms
  by (simp add: handler_cp_def bind_def catch_def return_def validateZohoConfig_missing)

lemma handler_test_zoho_missing:
  assumes "httpMethod ev \<noteq> ''OPTIONS''" "missing_vars env \<noteq> []"
  shows "handler_test_zoho c env w ev tr
     = (Inr (json_response 500
               [(''success'', JBool False),
                (''error'', JStr (''Missing Zoho configuration: '' @ join '', '' (missing_vars env))),
                (''debug'', JObj (envCheck env))]), tr)"
  using assms
  by (simp add: handler_test_zoho_def Let_def catch_def return_def)

lemma handler_sb_missing:
  assumes "httpMethod ev \<noteq> ''OPTIONS''"
    "\<not> truthy (ZOHO_CLIENT_ID env) \<or> \<not> truthy (ZOHO_CLIENT_SECRET env)
     \<or> \<not> truthy (ZOHO_REFRESH_TOKEN env)"
  shows "handler_sb corsHeaders c env fw ev tr
     = (Inr (error_response_sb corsHeaders c ev
          (Error ''Zoho credentials not configured. Please check ZOHO_CLIENT_ID, ZOHO_CLIENT_SECRET, and ZOHO_REFRESH_TOKEN environment variables.'')), tr)"
proof -
  from assms(2) have g: "(\<not> truthy (ZOHO_CLIENT_ID env) \<or> \<not> truthy (ZOHO_CLIENT_SECRET env)
     \<or> \<not> truthy (ZOHO_REFRESH_TOKEN env)) = True"
    by simp
  show ?thesis
    unfolding handler_sb_def catch_def
    by (simp only: assms(1) g if_True if_False throw_def return_def prod.case sum.case)
qed

lemma error_response_shape:
  "statusCode (error_response c env e) = 500
   \<and> body_field (error_response c env e) ''success'' = JBool False
   \<and> body_field (error_response c env e) ''error'' = JStr (message e)"
  by (simp add: error_response_def json_response_def body_field_def field_def)

lemma error_response_cp_shape:
  "statusCode (error_response_cp c env e) = 500
   \<and> body_field (error_response_cp c env e) ''success'' = JBool False
   \<and> body_field (error_response_cp c env e) ''error'' = JStr (message e)"
  by (simp add: error_response_cp_def json_response_def body_field_def field_def)

lemma json_response_shape:
  "statusCode (json_response st ((''success'', s) # (''error'', e) # kvs)) = st
   \<and> body_field (json_response st ((''success'', s) # (''error'', e) # kvs)) ''success'' = s
   \<and> body_field (json_response st ((''success'', s) # (''error'', e) # kvs)) ''error'' = e"
  by (simp add: json_response_def body_field_def field_def)

text \<open>
  C5, as the code has it. The list of missing names holds exactly the absent (or empty)
  variables among the four, in the order client id, client secret, refresh token,
  organization id, and is empty exactly when all four are present. When it is not
  empty, both versions of zohoIntegration.js and the Zoho test function answer every
  request other than \<open>OPTIONS\<close>, and createPayment.js answers every \<open>POST\<close> request,
  with status 500, \<open>success: false\<close> and the message
  \<open>Missing Zoho configuration: \<close> followed by the names joined by a comma and a space;
  the trace is unchanged, so no outbound call is made. The Supabase function looks at
  the first three variables only and reports one fixed message.
\<close>

theorem missing_configuration_reported:
  "missing_vars env =
     map fst (filter (\<lambda>(n, v). \<not> truthy v)
       [(''ZOHO_CLIENT_ID'', ZOHO_CLIENT_ID env), (''ZOHO_CLIENT_SECRET'', ZOHO_CLIENT_SECRET env),
        (''ZOHO_REFRESH_TOKEN'', ZOHO_REFRESH_TOKEN env),
        (''ZOHO_ORGANIZATION_ID'', ZOHO_ORGANIZATION_ID env)])
   \<and> (missing_vars env = [] \<longleftrightarrow>
        truthy (ZOHO_CLIENT_ID env) \<and> truthy (ZOHO_CLIENT_SECRET env)
        \<and> truthy (ZOHO_REFRESH_TOKEN env) \<and> truthy (ZOHO_ORGANIZATION_ID env))
   \<and> (missing_vars env \<noteq> [] \<and> httpMethod ev \<noteq> ''OPTIONS'' \<longrightarrow>
        handler_v1 c env w ev tr
          = (Inr (error_response c env
               (Error (''Missing Zoho configuration: '' @ join '', '' (missing_vars env)))), tr)
        \<and> handler_v3 c env w ev tr
          = (Inr (error_response c env
               (Error (''Missing Zoho configuration: '' @ join '', '' (missing_vars env)))), tr)
        \<and> handler_test_zoho c env w ev tr
          = (Inr (json_response 500
               [(''success'', JBool False),
                (''error'', JStr (''Missing Zoho configuration: '' @ join '', '' (missing_vars env))),
                (''debug'', JObj (envCheck env))]), tr))
   \<and> (missing_vars env \<noteq> [] \<and> httpMethod ev = ''POST'' \<longrightarrow>
        handler_cp c env w ev tr
          = (Inr (error_response_cp c env
               (Error (''Missing Zoho configuration: '' @ join '', '' (missing_vars env)))), tr))
   \<and> ((\<not> truthy (ZOHO_CLIENT_ID env) \<or> \<not> truthy (ZOHO_CLIENT_SECRET env)
         \<or> \<not> truthy (ZOHO_REFRESH_TOKEN env)) \<and> httpMethod ev \<noteq> ''OPTIONS'' \<longrightarrow>
        handler_sb corsHeaders c env fw ev tr
          = (Inr (error_response_sb corsHeaders c ev
               (Error ''Zoho credentials not configured. Please check ZOHO_CLIENT_ID, ZOHO_CLIENT_SECRET, and ZOHO_REFRESH_TOKEN environment variables.'')), tr))
   \<and> statusCode (error_response c env e) = 500
   \<and> body_field (error_response c env e) ''success'' = JBool False
   \<and> body_field (error_response c env e) ''error'' = JStr (message e)
   \<and> statusCode (error_response_cp c env e) = 500
   \<and> body_field (error_response_cp c env e) ''success'' = JBool False
   \<and> body_field (error_response_cp c env e) ''error'' = JStr (message e)"
proof -
  have a: "missing_vars env \<noteq> [] \<and> httpMethod ev \<noteq> ''OPTIONS'' \<longrightarrow>
        handler_v1 c env w ev tr
          = (Inr (error_response c env
               (Error (''Missing Zoho configuration: '' @ join '', '' (missing_vars env)))), tr)
        \<and> handler_v3 c env w ev tr
          = (Inr (error_response c env
               (Error (''Missing Zoho configuration: '' @ join '', '' (missing_vars env)))), tr)
        \<and> handler_test_zoho c env w ev tr
          = (Inr (json_response 500
               [(''success'', JBool False),
                (''error'', JStr (''Missing Zoho configuration: '' @ join '', '' (missing_vars env))),
                (''debug'', JObj (envCheck env))]), tr)"
    using handler_v1_missing handler_v3_missing handler_test_zoho_missing by blast
  have b: "missing_vars env \<noteq> [] \<and> httpMethod ev = ''POST'' \<longrightarrow>
        handler_cp c env w ev tr
          = (Inr (error_response_cp c env
               (Error (''Missing Zoho configuration: '' @ join '', '' (missing_vars env)))), tr)"
    using handler_cp_missing by blast
  have d: "(\<not> truthy (ZOHO_CLIENT_ID env) \<or> \<not> truthy (ZOHO_CLIENT_SECRET env)
         \<or> \<not> truthy (ZOHO_REFRESH_TOKEN env)) \<and> httpMethod ev \<noteq> ''OPTIONS'' \<longrightarrow>
        handler_sb corsHeaders c env fw ev tr
          = (Inr (error_response_sb corsHeaders c ev
               (Error ''Zoho credentials not configured. Please check ZOHO_CLIENT_ID, ZOHO_CLIENT_SECRET, and ZOHO_REFRESH_TOKEN environment variables.'')), tr)"
    using handler_sb_missing by blast
  note s1 = error_response_shape [of c env e]
  note s2 = error_response_cp_shape [of c env e]
  from s1 have s1a: "statusCode (error_response c env e) = 500" by (elim conjE)
  from s1 have s1b: "body_field (error_response c env e) ''success'' = JBool False" by (elim conjE)
  from s1 have s1c: "body_field (error_response c env e) ''error'' = JStr (message e)"
    by (elim conjE)
  from s2 have s2a: "statusCode (error_response_cp c env e) = 500" by (elim conjE)
  from s2 have s2b: "body_field (error_response_cp c env e) ''success'' = JBool False"
    by (elim conjE)
  from s2 have s2c: "body_field (error_response_cp c env e) ''error'' = JStr (message e)"
    by (elim conjE)
  show ?thesis
    by (intro conjI missing_vars_filter missing_vars_empty a b d s1a s1b s1c s2a s2b s2c)
qed

lemma missing_vars_partial_env:
  "missing_vars partial_env = [''ZOHO_CLIENT_SECRET'', ''ZOHO_REFRESH_TOKEN'']"
  by (simp add: missing_vars_def partial_env_def truthy_def)

theorem missing_configuration_reported_witness:
  "missing_vars partial_env \<noteq> [] \<and> httpMethod get_event \<noteq> ''OPTIONS''
   \<and> httpMethod post_event = ''POST''
   \<and> handler_v1 sample_ctx partial_env vendor_down get_event []
       = (Inr (error_response sample_ctx partial_env
            (Error ''Missing Zoho configuration: ZOHO_CLIENT_SECRET, ZOHO_REFRESH_TOKEN'')), [])
   \<and> handler_cp sample_ctx partial_env vendor_down post_event []
       = (Inr (error_response_cp sample_ctx partial_env
            (Error ''Missing Zoho configuration: ZOHO_CLIENT_SECRET, ZOHO_REFRESH_TOKEN'')), [])"
proof -
  have n: "missing_vars partial_env \<noteq> []"
    by (simp add: missing_vars_partial_env)
  have g: "httpMethod get_event \<noteq> ''OPTIONS''"
    by (simp add: get_event_def)
  have p: "httpMethod post_event = ''POST''"
    by (simp add: post_event_def)
  have j: "''Missing Zoho configuration: '' @ join '', '' (missing_vars partial_env)
      = ''Missing Zoho configuration: ZOHO_CLIENT_SECRET, ZOHO_REFRESH_TOKEN''"
    by (simp add: missing_vars_partial_env)
  note t1 = missing_configuration_reported [of partial_env get_event sample_ctx vendor_down "[]"]
  note t2 = missing_configuration_reported [of partial_env post_event sample_ctx vendor_down "[]"]
  from t1 n g have a: "handler_v1 sample_ctx partial_env vendor_down get_event []
       = (Inr (error_response sample_ctx partial_env
            (Error (''Missing Zoho configuration: '' @ join '', '' (missing_vars partial_env)))), [])"
    by blast
  from t2 n p have b: "handler_cp sample_ctx partial_env vendor_down post_event []
       = (Inr (error_response_cp sample_ctx partial_env
            (Error (''Missing Zoho configuration: '' @ join '', '' (missing_vars partial_env)))), [])"
    by blast
  show ?thesis
    using n g p a b unfolding j by (intro conjI)
qed

text \<open>The claim as stated fails at createPayment.js: a \<open>GET\<close> request is answered 405
  before the configuration is looked at, with all four variables missing.\<close>

theorem missing_configuration_counterexample:
  "missing_vars no_env = [''ZOHO_CLIENT_ID'', ''ZOHO_CLIENT_SECRET'', ''ZOHO_REFRESH_TOKEN'',
                          ''ZOHO_ORGANIZATION_ID'']
   \<and> handler_cp sample_ctx no_env vendor_down get_event []
       = (Inr (json_response 405 [(''error'', JStr ''Method not allowed'')]), [])
   \<and> statusCode (json_response 405 [(''error'', JStr ''Method not allowed'')]) = 405"
proof -
  have a: "missing_vars no_env = [''ZOHO_CLIENT_ID'', ''ZOHO_CLIENT_SECRET'',
      ''ZOHO_REFRESH_TOKEN'', ''ZOHO_ORGANIZATION_ID'']"
    by (simp add: missing_vars_def no_env_def truthy_def)
  have b: "handler_cp sample_ctx no_env vendor_down get_event []
       = (Inr (json_response 405 [(''error'', JStr ''Method not allowed'')]), [])"
    by (simp add: handler_cp_def get_event_def return_def)
  have c: "statusCode (json_response 405 [(''error'', JStr ''Method not allowed'')]) = 405"
    by (simp add: json_response_def)
  show ?thesis
    by (intro conjI a b c)
qed

section \<open>Errors of the token refresh\<close>

lemma getZohoAccessToken_v1_rejected:
  assumes "w (calls tr) (token_call ''https://accounts.zoho.in/oauth/v2/token'' (Some 10000)) = Rejected e"
  shows "getZohoAccessToken_v1 w tr =
     (Inl (Error
        (if status_of e = Some 400
         then ''Invalid Zoho credentials. Please check ZOHO_CLIENT_ID, ZOHO_CLIENT_SECRET, and ZOHO_REFRESH_TOKEN.''
         else if status_of e = Some 401
         then ''Zoho refresh token expired. Please regenerate the refresh token.''
         else ''Zoho authentication failed: '' @ message e)),
      tr @ [Outbound (token_call ''https://accounts.zoho.in/oauth/v2/token'' (Some 10000)) False])"
  using assms
  by (simp add: getZohoAccessToken_v1_def catch_def bind_def axios_def throw_def token_call_def)

lemma getZohoAccessToken_v3_rejected:
  assumes "w (calls tr) (token_call ''https://accounts.zoho.in/oauth/v2/token'' (Some 15000)) = Rejected e"
  shows "getZohoAccessToken_v3 w tr =
     ((if status_of e = Some 400
       then (case data_of e of
               None \<Rightarrow> Inl (TypeError ''Cannot read properties of undefined (reading 'error')'')
             | Some d \<Rightarrow>
                 Inl (Error
                   (if body_error d = Some ''invalid_grant''
                    then ''Zoho refresh token has expired. Please regenerate the refresh token in Zoho Developer Console.''
                    else if body_error d = Some ''invalid_client''
                    then ''Invalid Zoho client credentials. Please check ZOHO_CLIENT_ID and ZOHO_CLIENT_SECRET.''
                    else ''Zoho token error: ''
                           @ (if truthy (body_error_description d)
                              then render (body_error_description d)
                              else render (body_error d)))))
       else if status_of e = Some 401
       then Inl (Error ''Zoho authentication failed. Please check your credentials.'')
       else Inl (Error (''Zoho token request failed: '' @ message e))),
      tr @ [Outbound (token_call ''https://accounts.zoho.in/oauth/v2/token'' (Some 15000)) False])"
  using assms
  by (simp add: getZohoAccessToken_v3_def catch_def bind_def axios_def throw_def token_call_def
      split: option.splits)

lemma handler_v1_token_error:
  assumes "httpMethod ev \<noteq> ''OPTIONS''" "missing_vars env = []"
    "getZohoAccessToken_v1 w tr = (Inl x, tr')"
  shows "handler_v1 c env w ev tr = (Inr (error_response c env x), tr')"
  using assms
  by (simp add: handler_v1_def bind_def catch_def return_def validateZohoConfig_def Let_def)

lemma handler_v3_token_error:
  assumes "httpMethod ev \<noteq> ''OPTIONS''" "missing_vars env = []"
    "getZohoAccessToken_v3 w tr = (Inl x, tr')"
  shows "handler_v3 c env w ev tr = (Inr (error_response c env x), tr')"
  using assms
  by (simp add: handler_v3_def bind_def catch_def return_def validateZohoConfig_def Let_def)

text \<open>
  C4, as the code has it. When the token request is rejected with error \<open>e\<close>:
  \<^item> the first version of zohoIntegration.js throws a message fixed by the HTTP status
    of \<open>e\<close>: the invalid-credentials text for 400, the refresh-token-expired text for
    401, and otherwise \<open>Zoho authentication failed: \<close> followed by the text of \<open>e\<close>;
  \<^item> the later version reads, for status 400, the error code of the vendor's body:
    \<open>invalid_grant\<close> gives a refresh-token-expired text, \<open>invalid_client\<close> an
    invalid-client-credentials text, anything else \<open>Zoho token error: \<close> with the
    vendor's description or code; status 401 gives an authentication-failed text, and
    any other failure \<open>Zoho token request failed: \<close> followed by the text of \<open>e\<close>;
  \<^item> in both versions the handler answers whatever the token function throws with status
    500, \<open>success: false\<close> and the thrown message as \<open>error\<close>.
\<close>

theorem token_refresh_errors_classified:
  "(w (calls tr) (token_call ''https://accounts.zoho.in/oauth/v2/token'' (Some 10000)) = Rejected e
      \<longrightarrow> getZohoAccessToken_v1 w tr =
         (Inl (Error
            (if status_of e = Some 400
             then ''Invalid Zoho credentials. Please check ZOHO_CLIENT_ID, ZOHO_CLIENT_SECRET, and ZOHO_REFRESH_TOKEN.''
             else if status_of e = Some 401
             then ''Zoho refresh token expired. Please regenerate the refresh token.''
             else ''Zoho authentication failed: '' @ message e)),
          tr @ [Outbound (token_call ''https://accounts.zoho.in/oauth/v2/token'' (Some 10000)) False]))
   \<and> (w (calls tr) (token_call ''https://accounts.zoho.in/oauth/v2/token'' (Some 15000)) = Rejected e
        \<and> (status_of e = Some 400 \<longrightarrow> data_of e = Some d)
      \<longrightarrow> getZohoAccessToken_v3 w tr =
         (Inl (Error
            (if status_of e = Some 400
             then (if body_error d = Some ''invalid_grant''
                   then ''Zoho refresh token has expired. Please regenerate the refresh token in Zoho Developer Console.''
                   else if body_error d = Some ''invalid_client''
                   then ''Invalid Zoho client credentials. Please check ZOHO_CLIENT_ID and ZOHO_CLIENT_SECRET.''
                   else ''Zoho token error: ''
                          @ (if truthy (body_error_description d)
                             then render (body_error_description d)
                             else render (body_error d)))
             else if status_of e = Some 401
             then ''Zoho authentication failed. Please check your credentials.''
             else ''Zoho token request failed: '' @ message e)),
          tr @ [Outbound (token_call ''https://accounts.zoho.in/oauth/v2/token'' (Some 15000)) False]))
   \<and> (httpMethod ev \<noteq> ''OPTIONS'' \<and> missing_vars env = []
        \<and> getZohoAccessToken_v1 w tr = (Inl x, tr')
      \<longrightarrow> handler_v1 c env w ev tr = (Inr (error_response c env x), tr'))
   \<and> (httpMethod ev \<noteq> ''OPTIONS'' \<and> missing_vars env = []
        \<and> getZohoAccessToken_v3 w tr = (Inl x, tr')
      \<longrightarrow> handler_v3 c env w ev tr = (Inr (error_response c env x), tr'))
   \<and> statusCode (error_response c env x) = 500
   \<and> body_field (error_response c env x) ''success'' = JBool False
   \<and> body_field (error_response c env x) ''error'' = JStr (message x)"
proof -
  have a: "w (calls tr) (token_call ''https://accounts.zoho.in/oauth/v2/token'' (Some 10000)) = Rejected e
      \<longrightarrow> getZohoAccessToken_v1 w tr =
         (Inl (Error
            (if status_of e = Some 400
             then ''Invalid Zoho credentials. Please check ZOHO_CLIENT_ID, ZOHO_CLIENT_SECRET, and ZOHO_REFRESH_TOKEN.''
             else if status_of e = Some 401
             then ''Zoho refresh token expired. Please regenerate the refresh token.''
             else ''Zoho authentication failed: '' @ message e)),
          tr @ [Outbound (token_call ''https://accounts.zoho.in/oauth/v2/token'' (Some 10000)) False])"
    using getZohoAccessToken_v1_rejected by blast
  have b: "w (calls tr) (token_call ''https://accounts.zoho.in/oauth/v2/token'' (Some 15000)) = Rejected e
        \<and> (status_of e = Some 400 \<longrightarrow> data_of e = Some d)
      \<longrightarrow> getZohoAccessToken_v3 w tr =
         (Inl (Error
            (if status_of e = Some 400
             then (if body_error d = Some ''invalid_grant''
                   then ''Zoho refresh token has expired. Please regenerate the refresh token in Zoho Developer Console.''
                   else if body_error d = Some ''invalid_client''
                   then ''Invalid Zoho client credentials. Please check ZOHO_CLIENT_ID and ZOHO_CLIENT_SECRET.''
                   else ''Zoho token error: ''
                          @ (if truthy (body_error_description d)
                             then render (body_error_description d)
                             else render (body_error d)))
             else if status_of e = Some 401
             then ''Zoho authentication failed. Please check your credentials.''
             else ''Zoho token request failed: '' @ message e)),
          tr @ [Outbound (token_call ''https://accounts.zoho.in/oauth/v2/token'' (Some 15000)) False])"
  proof (intro impI, elim conjE)
    assume r: "w (calls tr) (token_call ''https://accounts.zoho.in/oauth/v2/token'' (Some 15000)) = Rejected e"
      and d: "status_of e = Some 400 \<longrightarrow> data_of e = Some d"
    show "getZohoAccessToken_v3 w tr =
         (Inl (Error
            (if status_of e = Some 400
             then (if body_error d = Some ''invalid_grant''
                   then ''Zoho refresh token has expired. Please regenerate the refresh token in Zoho Developer Console.''
                   else if body_error d = Some ''invalid_client''
                   then ''Invalid Zoho client credentials. Please check ZOHO_CLIENT_ID and ZOHO_CLIENT_SECRET.''
                   else ''Zoho token error: ''
                          @ (if truthy (body_error_description d)
                             then render (body_error_description d)
                             else render (body_error d)))
             else if status_of e = Some 401
             then ''Zoho authentication failed. Please check your credentials.''
             else ''Zoho token request failed: '' @ message e)),
          tr @ [Outbound (token_call ''https://accounts.zoho.in/oauth/v2/token'' (Some 15000)) False])"
    proof (cases "status_of e = Some 400")
      case True
      with d have "data_of e = Some d" by simp
      with True show ?thesis
        by (simp add: getZohoAccessToken_v3_rejected [of w tr e, OF r])
    next
      case False
      then show ?thesis
        by (simp add: getZohoAccessToken_v3_rejected [of w tr e, OF r])
    qed
  qed
  have c1: "httpMethod ev \<noteq> ''OPTIONS'' \<and> missing_vars env = []
        \<and> getZohoAccessToken_v1 w tr = (Inl x, tr')
      \<longrightarrow> handler_v1 c env w ev tr = (Inr (error_response c env x), tr')"
    using handler_v1_token_error by blast
  have c3: "httpMethod ev \<noteq> ''OPTIONS'' \<and> missing_vars env = []
        \<and> getZohoAccessToken_v3 w tr = (Inl x, tr')
      \<longrightarrow> handler_v3 c env w ev tr = (Inr (error_response c env x), tr')"
    using handler_v3_token_error by blast
  note s = error_response_shape [of c env x]
  from s have s1: "statusCode (error_response c env x) = 500" by (elim conjE)
  from s have s2: "body_field (error_response c env x) ''success'' = JBool False" by (elim conjE)
  from s have s3: "body_field (error_response c env x) ''error'' = JStr (message x)"
    by (elim conjE)
  show ?thesis
    by (intro conjI a b c1 c3 s1 s2 s3)
qed

theorem token_refresh_errors_classified_witness:
  "vendor_refuses (refusal 400 ''Bad Request'' (Some ''invalid_grant'')) (calls [])
       (token_call ''https://accounts.zoho.in/oauth/v2/token'' (Some 10000))
     = Rejected (refusal 400 ''Bad Request'' (Some ''invalid_grant''))
   \<and> httpMethod get_event \<noteq> ''OPTIONS'' \<and> missing_vars full_env = []
   \<and> getZohoAccessToken_v1 (vendor_refuses (refusal 400 ''Bad Request'' (Some ''invalid_grant''))) []
     = (Inl (Error ''Invalid Zoho credentials. Please check ZOHO_CLIENT_ID, ZOHO_CLIENT_SECRET, and ZOHO_REFRESH_TOKEN.''),
        [Outbound (token_call ''https://accounts.zoho.in/oauth/v2/token'' (Some 10000)) False])
   \<and> handler_v1 sample_ctx full_env
        (vendor_refuses (refusal 400 ''Bad Request'' (Some ''invalid_grant''))) get_event []
     = (Inr (error_response sample_ctx full_env
          (Error ''Invalid Zoho credentials. Please check ZOHO_CLIENT_ID, ZOHO_CLIENT_SECRET, and ZOHO_REFRESH_TOKEN.'')),
        [Outbound (token_call ''https://accounts.zoho.in/oauth/v2/token'' (Some 10000)) False])"
proof -
  define e where "e = refusal 400 ''Bad Request'' (Some ''invalid_grant'')"
  define T where "T = token_call ''https://accounts.zoho.in/oauth/v2/token'' (Some 10000)"
  define M where "M = ''Invalid Zoho credentials. Please check ZOHO_CLIENT_ID, ZOHO_CLIENT_SECRET, and ZOHO_REFRESH_TOKEN.''"
  have r: "vendor_refuses e (calls []) T = Rejected e"
    by (simp add: vendor_refuses_def)
  have g: "httpMethod get_event \<noteq> ''OPTIONS''"
    by (simp add: get_event_def)
  have v: "missing_vars full_env = []"
    by (simp add: missing_vars_def full_env_def truthy_def)
  have st: "status_of e = Some 400"
    by (simp add: e_def refusal_def status_of_def)
  note t = token_refresh_errors_classified [of "vendor_refuses e" "[]" e _ get_event full_env
      "Error M" "[Outbound T False]" sample_ctx]
  from t r st have a: "getZohoAccessToken_v1 (vendor_refuses e) [] = (Inl (Error M), [Outbound T False])"
    unfolding T_def M_def by simp
  from t g v a have b: "handler_v1 sample_ctx full_env (vendor_refuses e) get_event []
     = (Inr (error_response sample_ctx full_env (Error M)), [Outbound T False])"
    by blast
  show ?thesis
    using r g v a b unfolding e_def T_def M_def by (intro conjI)
qed

text \<open>The claim as stated fails at the later version of zohoIntegration.js: two
  failures with status 400 give two different messages, neither of them the
  invalid-credentials text, and status 401 gives an authentication-failed text, not the
  refresh-token-expired one.\<close>

theorem token_refresh_counterexample:
  "status_of (refusal 400 ''Bad Request'' (Some ''invalid_grant'')) = Some 400
   \<and> status_of (refusal 400 ''Bad Request'' (Some ''invalid_client'')) = Some 400
   \<and> getZohoAccessToken_v3 (vendor_refuses (refusal 400 ''Bad Request'' (Some ''invalid_grant''))) []
     = (Inl (Error ''Zoho refresh token has expired. Please regenerate the refresh token in Zoho Developer Console.''),
        [Outbound (token_call ''https://accounts.zoho.in/oauth/v2/token'' (Some 15000)) False])
   \<and> getZohoAccessToken_v3 (vendor_refuses (refusal 400 ''Bad Request'' (Some ''invalid_client''))) []
     = (Inl (Error ''Invalid Zoho client credentials. Please check ZOHO_CLIENT_ID and ZOHO_CLIENT_SECRET.''),
        [Outbound (token_call ''https://accounts.zoho.in/oauth/v2/token'' (Some 15000)) False])
   \<and> getZohoAccessToken_v3 (vendor_refuses (refusal 401 ''Unauthorized'' None)) []
     = (Inl (Error ''Zoho authentication failed. Please check your credentials.''),
        [Outbound (token_call ''https://accounts.zoho.in/oauth/v2/token'' (Some 15000)) False])"
proof -
  have s1: "status_of (refusal 400 ''Bad Request'' (Some ''invalid_grant'')) = Some 400"
    by (simp add: refusal_def status_of_def)
  have s2: "status_of (refusal 400 ''Bad Request'' (Some ''invalid_client'')) = Some 400"
    by (simp add: refusal_def status_of_def)
  have s3: "status_of (refusal 401 ''Unauthorized'' None) = Some 401"
    by (simp add: refusal_def status_of_def)
  have d1: "data_of (refusal 400 ''Bad Request'' (Some ''invalid_grant''))
      = Some \<lparr>body_error = Some ''invalid_grant'', body_error_description = None,
               body_message = None\<rparr>"
    by (simp add: refusal_def data_of_def)
  have d2: "data_of (refusal 400 ''Bad Request'' (Some ''invalid_client''))
      = Some \<lparr>body_error = Some ''invalid_client'', body_error_description = None,
               body_message = None\<rparr>"
    by (simp add: refusal_def data_of_def)
  have a: "getZohoAccessToken_v3 (vendor_refuses (refusal 400 ''Bad Request'' (Some ''invalid_grant''))) []
     = (Inl (Error ''Zoho refresh token has expired. Please regenerate the refresh token in Zoho Developer Console.''),
        [Outbound (token_call ''https://accounts.zoho.in/oauth/v2/token'' (Some 15000)) False])"
    by (subst getZohoAccessToken_v3_rejected
        [of _ _ "refusal 400 ''Bad Request'' (Some ''invalid_grant'')"])
       (simp_all add: vendor_refuses_def s1 d1)
  have b: "getZohoAccessToken_v3 (vendor_refuses (refusal 400 ''Bad Request'' (Some ''invalid_client''))) []
     = (Inl (Error ''Invalid Zoho client credentials. Please check ZOHO_CLIENT_ID and ZOHO_CLIENT_SECRET.''),
        [Outbound (token_call ''https://accounts.zoho.in/oauth/v2/token'' (Some 15000)) False])"
    by (subst getZohoAccessToken_v3_rejected
        [of _ _ "refusal 400 ''Bad Request'' (Some ''invalid_client'')"])
       (simp_all add: vendor_refuses_def s2 d2)
  have c: "getZohoAccessToken_v3 (vendor_refuses (refusal 401 ''Unauthorized'' None)) []
     = (Inl (Error ''Zoho authentication failed. Please check your credentials.''),
        [Outbound (token_call ''https://accounts.zoho.in/oauth/v2/token'' (Some 15000)) False])"
    by (subst getZohoAccessToken_v3_rejected [of _ _ "refusal 401 ''Unauthorized'' None"])
       (simp_all add: vendor_refuses_def s3)
  show ?thesis
    by (intro conjI s1 s2 a b c)
qed

section \<open>Find or create a customer\<close>

lemma createZohoCustomer_v1_created:
  assumes "w (calls tr) (contact_create_call baseUrl_in tok cd (Some 15000)) = Resolved d"
    "data_contact d = Some k"
  shows "createZohoCustomer_v1 w tok (Some cd) tr
     = (Inr (contact_id k), tr @ [Outbound (contact_create_call baseUrl_in tok cd (Some 15000)) True])"
  using assms
  by (simp add: createZohoCustomer_v1_def catch_def bind_def axios_def return_def
      contact_create_call_def)

lemma createZohoCustomer_v1_conflict:
  assumes "w (calls tr) (contact_create_call baseUrl_in tok cd (Some 15000)) = Rejected e"
    "status_of e = Some 400"
  shows "createZohoCustomer_v1 w tok (Some cd) tr
     = findZohoCustomer_v1 w tok (cust_email cd)
         (tr @ [Outbound (contact_create_call baseUrl_in tok cd (Some 15000)) False])"
  using assms
  by (simp add: createZohoCustomer_v1_def catch_def bind_def axios_def contact_create_call_def)

lemma createZohoCustomer_v1_failed:
  assumes "w (calls tr) (contact_create_call baseUrl_in tok cd (Some 15000)) = Rejected e"
    "status_of e \<noteq> Some 400"
  shows "createZohoCustomer_v1 w tok (Some cd) tr
     = (Inl e, tr @ [Outbound (contact_create_call baseUrl_in tok cd (Some 15000)) False])"
  using assms
  by (simp add: createZohoCustomer_v1_def catch_def bind_def axios_def throw_def
      contact_create_call_def)

lemma findZohoCustomer_v1_found:
  assumes "w (calls tr) (contact_search_call (baseUrl_in @ ''/contacts'') tok email (Some 15000))
             = Resolved d"
    "data_contacts d = Some (k # ks)"
  shows "findZohoCustomer_v1 w tok email tr
     = (Inr (contact_id k),
        tr @ [Outbound (contact_search_call (baseUrl_in @ ''/contacts'') tok email (Some 15000)) True])"
  using assms
  by (simp add: findZohoCustomer_v1_def catch_def bind_def axios_def return_def
      contact_search_call_def)

lemma createZohoCustomer_cp_created:
  assumes "w (calls tr) (contact_create_call baseUrl_com tok cd (Some 15000)) = Resolved d"
    "data_contact d = Some k"
  shows "createZohoCustomer_cp w tok (Some cd) tr
     = (Inr (contact_id k), tr @ [Outbound (contact_create_call baseUrl_com tok cd (Some 15000)) True])"
  using assms
  by (simp add: createZohoCustomer_cp_def catch_def bind_def axios_def return_def
      contact_create_call_def)

lemma createZohoCustomer_cp_conflict:
  assumes "w (calls tr) (contact_create_call baseUrl_com tok cd (Some 15000)) = Rejected e"
    "status_of e = Some 400"
  shows "createZohoCustomer_cp w tok (Some cd) tr
     = findZohoCustomer_cp w tok (cust_email cd)
         (tr @ [Outbound (contact_create_call baseUrl_com tok cd (Some 15000)) False])"
  using assms
  by (simp add: createZohoCustomer_cp_def catch_def bind_def axios_def contact_create_call_def)

lemma createZohoCustomer_cp_failed:
  assumes "w (calls tr) (contact_create_call baseUrl_com tok cd (Some 15000)) = Rejected e"
    "status_of e \<noteq> Some 400"
  shows "createZohoCustomer_cp w tok (Some cd) tr
     = (Inl e, tr @ [Outbound (contact_create_call baseUrl_com tok cd (Some 15000)) False])"
  using assms
  by (simp add: createZohoCustomer_cp_def catch_def bind_def axios_def throw_def
      contact_create_call_def)

lemma findZohoCustomer_cp_found:
  assumes "w (calls tr) (contact_search_call (baseUrl_com @ ''/contacts'') tok email (Some 15000))
             = Resolved d"
    "data_contacts d = Some (k # ks)"
  shows "findZohoCustomer_cp w tok email tr
     = (Inr (contact_id k),
        tr @ [Outbound (contact_search_call (baseUrl_com @ ''/contacts'') tok email (Some 15000)) True])"
  using assms
  by (simp add: findZohoCustomer_cp_def catch_def bind_def axios_def return_def
      contact_search_call_def)

lemma createZohoCustomer_sb_created:
  assumes "getZohoAccessToken_sb w tr = (Inr td, tr1)"
    "w (calls tr1) (contact_create_call baseUrl_com (access_token td) cd None) = Responded r"
    "fr_ok r" "fr_json r = Some d"
  shows "createZohoCustomer_sb w cd tr
     = (Inr (data_contact d),
        tr1 @ [Outbound (contact_create_call baseUrl_com (access_token td) cd None) True])"
  using assms
  by (simp add: createZohoCustomer_sb_def bind_def fetch_def return_def response_json_def
      contact_create_call_def baseUrl_com_def)

lemma createZohoCustomer_sb_not_ok:
  assumes "getZohoAccessToken_sb w tr = (Inr td, tr1)"
    "w (calls tr1) (contact_create_call baseUrl_com (access_token td) cd None) = Responded r"
    "\<not> fr_ok r"
  shows "createZohoCustomer_sb w cd tr
     = (case findZohoCustomer_sb w (cust_email cd)
              (tr1 @ [Outbound (contact_create_call baseUrl_com (access_token td) cd None) False]) of
          (Inl e, t) \<Rightarrow> (Inl e, t)
        | (Inr found, t) \<Rightarrow> (Inr (Some found), t))"
  using assms
  by (simp add: createZohoCustomer_sb_def bind_def fetch_def return_def
      contact_create_call_def baseUrl_com_def split: prod.splits sum.splits)

lemma createZohoCustomer_sb_no_response:
  assumes "getZohoAccessToken_sb w tr = (Inr td, tr1)"
    "w (calls tr1) (contact_create_call baseUrl_com (access_token td) cd None) = NoResponse e"
  shows "createZohoCustomer_sb w cd tr
     = (Inl e, tr1 @ [Outbound (contact_create_call baseUrl_com (access_token td) cd None) False])"
  using assms
  by (simp add: createZohoCustomer_sb_def bind_def fetch_def
      contact_create_call_def baseUrl_com_def)

lemma createZohoCustomer_v3_created:
  assumes "w (calls tr) (contact_create_call baseUrl_in tok cd (Some 15000)) = Resolved d"
    "data_contact d = Some k"
  shows "createZohoCustomer_v3 w tok (Some cd) tr
     = (Inr k, tr @ [Outbound (contact_create_call baseUrl_in tok cd (Some 15000)) True])"
  using assms
  by (simp add: createZohoCustomer_v3_def catch_def bind_def axios_def return_def
      contact_create_call_def)

lemma createZohoCustomer_v3_exists:
  assumes "w (calls tr) (contact_create_call baseUrl_in tok cd (Some 15000)) = Rejected e"
    "status_of e = Some 400" "data_message_of e = Some m" "str_includes m ''already exists''"
  shows "createZohoCustomer_v3 w tok (Some cd) tr
     = findZohoCustomer_v3 w tok (cust_email cd)
         (tr @ [Outbound (contact_create_call baseUrl_in tok cd (Some 15000)) False])"
  using assms
  by (simp add: createZohoCustomer_v3_def catch_def bind_def axios_def contact_create_call_def)

lemma createZohoCustomer_v3_failed:
  assumes "w (calls tr) (contact_create_call baseUrl_in tok cd (Some 15000)) = Rejected e"
    "status_of e \<noteq> Some 400
     \<or> (case data_message_of e of None \<Rightarrow> True | Some m \<Rightarrow> \<not> str_includes m ''already exists'')"
  shows "createZohoCustomer_v3 w tok (Some cd) tr
     = (Inl (Error (''Customer creation failed: ''
                      @ (if truthy (data_message_of e) then render (data_message_of e)
                         else message e))),
        tr @ [Outbound (contact_create_call baseUrl_in tok cd (Some 15000)) False])"
  using assms
  by (auto simp add: createZohoCustomer_v3_def catch_def bind_def axios_def throw_def
      contact_create_call_def split: option.splits)

lemma findZohoCustomer_sb_found:
  assumes "getZohoAccessToken_sb w tr = (Inr td, tr1)"
    "w (calls tr1) (contact_search_call (baseUrl_com @ ''/contacts'') (access_token td) email None)
       = Responded r"
    "fr_ok r" "fr_json r = Some d" "data_contacts d = Some (k # ks)"
  shows "findZohoCustomer_sb w email tr
     = (Inr k, tr1 @ [Outbound (contact_search_call (baseUrl_com @ ''/contacts'')
                                  (access_token td) email None) True])"
  using assms
  by (simp add: findZohoCustomer_sb_def bind_def fetch_def return_def response_json_def
      contact_search_call_def baseUrl_com_def)

text \<open>
  C1, as the code has it. \<open>createZohoCustomer\<close> returns the contact of the vendor's
  answer when the creation call succeeds (its id in the Netlify functions, the contact
  itself in the Supabase function and in the later zohoIntegration.js).
  \<^item> zohoIntegration.js (first version) and createPayment.js: a creation call rejected
    with status 400 gives the result of \<open>findZohoCustomer\<close> for the same address, which
    is the first contact of the search; a creation call rejected otherwise gives that
    same error, and the creation call is the only call made.
  \<^item> The Supabase function: every answer to the creation call with a status outside 200
    to 299 gives the result of \<open>findZohoCustomer\<close> for the same address; only a call
    without any answer fails with its error.
  \<^item> zohoIntegration.js (later version): the search is made only for status 400 with a
    message that contains \<open>already exists\<close>; any other rejection is thrown as
    \<open>Customer creation failed: ...\<close> and the creation call is the only call made.
\<close>

theorem find_or_create_customer:
  "(w (calls tr) (contact_create_call baseUrl_in tok cd (Some 15000)) = Resolved d
      \<and> data_contact d = Some k \<longrightarrow>
    createZohoCustomer_v1 w tok (Some cd) tr
      = (Inr (contact_id k), tr @ [Outbound (contact_create_call baseUrl_in tok cd (Some 15000)) True]))
   \<and> (w (calls tr) (contact_create_call baseUrl_in tok cd (Some 15000)) = Rejected e
      \<and> status_of e = Some 400 \<longrightarrow>
    createZohoCustomer_v1 w tok (Some cd) tr
      = findZohoCustomer_v1 w tok (cust_email cd)
          (tr @ [Outbound (contact_create_call baseUrl_in tok cd (Some 15000)) False]))
   \<and> (w (calls tr) (contact_create_call baseUrl_in tok cd (Some 15000)) = Rejected e
      \<and> status_of e \<noteq> Some 400 \<longrightarrow>
    createZohoCustomer_v1 w tok (Some cd) tr
      = (Inl e, tr @ [Outbound (contact_create_call baseUrl_in tok cd (Some 15000)) False]))
   \<and> (w (calls tr) (contact_search_call (baseUrl_in @ ''/contacts'') tok email (Some 15000))
        = Resolved d
      \<and> data_contacts d = Some (k # ks) \<longrightarrow>
    findZohoCustomer_v1 w tok email tr
      = (Inr (contact_id k),
         tr @ [Outbound (contact_search_call (baseUrl_in @ ''/contacts'') tok email (Some 15000)) True]))
   \<and> (w (calls tr) (contact_create_call baseUrl_com tok cd (Some 15000)) = Resolved d
      \<and> data_contact d = Some k \<longrightarrow>
    createZohoCustomer_cp w tok (Some cd) tr
      = (Inr (contact_id k), tr @ [Outbound (contact_create_call baseUrl_com tok cd (Some 15000)) True]))
   \<and> (w (calls tr) (contact_create_call baseUrl_com tok cd (Some 15000)) = Rejected e
      \<and> status_of e = Some 400 \<longrightarrow>
    createZohoCustomer_cp w tok (Some cd) tr
      = findZohoCustomer_cp w tok (cust_email cd)
          (tr @ [Outbound (contact_create_call baseUrl_com tok cd (Some 15000)) False]))
   \<and> (w (calls tr) (contact_create_call baseUrl_com tok cd (Some 15000)) = Rejected e
      \<and> status_of e \<noteq> Some 400 \<longrightarrow>
    createZohoCustomer_cp w tok (Some cd) tr
      = (Inl e, tr @ [Outbound (contact_create_call baseUrl_com tok cd (Some 15000)) False]))
   \<and> (w (calls tr) (contact_search_call (baseUrl_com @ ''/contacts'') tok email (Some 15000))
        = Resolved d
      \<and> data_contacts d = Some (k # ks) \<longrightarrow>
    findZohoCustomer_cp w tok email tr
      = (Inr (contact_id k),
         tr @ [Outbound (contact_search_call (baseUrl_com @ ''/contacts'') tok email (Some 15000)) True]))
   \<and> (getZohoAccessToken_sb fw tr = (Inr td, tr1)
      \<and> fw (calls tr1) (contact_create_call baseUrl_com (access_token td) cd None) = Responded r
      \<and> fr_ok r \<and> fr_json r = Some d \<longrightarrow>
    createZohoCustomer_sb fw cd tr
      = (Inr (data_contact d),
         tr1 @ [Outbound (contact_create_call baseUrl_com (access_token td) cd None) True]))
   \<and> (getZohoAccessToken_sb fw tr = (Inr td, tr1)
      \<and> fw (calls tr1) (contact_create_call baseUrl_com (access_token td) cd None) = Responded r
      \<and> \<not> fr_ok r \<longrightarrow>
    createZohoCustomer_sb fw cd tr
      = (case findZohoCustomer_sb fw (cust_email cd)
               (tr1 @ [Outbound (contact_create_call baseUrl_com (access_token td) cd None) False]) of
           (Inl x, t) \<Rightarrow> (Inl x, t)
         | (Inr found, t) \<Rightarrow> (Inr (Some found), t)))
   \<and> (getZohoAccessToken_sb fw tr = (Inr td, tr1)
      \<and> fw (calls tr1) (contact_create_call baseUrl_com (access_token td) cd None) = NoResponse e
      \<longrightarrow>
    createZohoCustomer_sb fw cd tr
      = (Inl e, tr1 @ [Outbound (contact_create_call baseUrl_com (access_token td) cd None) False]))
   \<and> (getZohoAccessToken_sb fw tr = (Inr td, tr1)
      \<and> fw (calls tr1) (contact_search_call (baseUrl_com @ ''/contacts'') (access_token td) email None)
           = Responded r
      \<and> fr_ok r \<and> fr_json r = Some d \<and> data_contacts d = Some (k # ks) \<longrightarrow>
    findZohoCustomer_sb fw email tr
      = (Inr k, tr1 @ [Outbound (contact_search_call (baseUrl_com @ ''/contacts'')
                                   (access_token td) email None) True]))
   \<and> (w (calls tr) (contact_create_call baseUrl_in tok cd (Some 15000)) = Resolved d
      \<and> data_contact d = Some k \<longrightarrow>
    createZohoCustomer_v3 w tok (Some cd) tr
      = (Inr k, tr @ [Outbound (contact_create_call baseUrl_in tok cd (Some 15000)) True]))
   \<and> (w (calls tr) (contact_create_call baseUrl_in tok cd (Some 15000)) = Rejected e
      \<and> status_of e = Some 400 \<and> data_message_of e = Some m
      \<and> str_includes m ''already exists'' \<longrightarrow>
    createZohoCustomer_v3 w tok (Some cd) tr
      = findZohoCustomer_v3 w tok (cust_email cd)
          (tr @ [Outbound (contact_create_call baseUrl_in tok cd (Some 15000)) False]))
   \<and> (w (calls tr) (contact_create_call baseUrl_in tok cd (Some 15000)) = Rejected e
      \<and> (status_of e \<noteq> Some 400
          \<or> (case data_message_of e of None \<Rightarrow> True
              | Some m \<Rightarrow> \<not> str_includes m ''already exists'')) \<longrightarrow>
    createZohoCustomer_v3 w tok (Some cd) tr
      = (Inl (Error (''Customer creation failed: ''
                       @ (if truthy (data_message_of e) then render (data_message_of e)
                          else message e))),
         tr @ [Outbound (contact_create_call baseUrl_in tok cd (Some 15000)) False]))"
  by (intro conjI impI; (elim conjE)?;
      (erule (1) createZohoCustomer_v1_created createZohoCustomer_v1_conflict
         createZohoCustomer_v1_failed findZohoCustomer_v1_found
         createZohoCustomer_cp_created createZohoCustomer_cp_conflict
         createZohoCustomer_cp_failed findZohoCustomer_cp_found
         createZohoCustomer_v3_created createZohoCustomer_v3_failed
       | (rule createZohoCustomer_sb_created createZohoCustomer_sb_not_ok
            createZohoCustomer_sb_no_response findZohoCustomer_sb_found
            createZohoCustomer_v3_exists; assumption)))

theorem find_or_create_customer_witness:
  "vendor_with_contact (refusal 400 ''Bad Request'' None) (calls [])
       (contact_create_call baseUrl_in (Some ''token-1'') sample_customer (Some 15000))
     = Rejected (refusal 400 ''Bad Request'' None)
   \<and> status_of (refusal 400 ''Bad Request'' None) = Some 400
   \<and> createZohoCustomer_v1 (vendor_with_contact (refusal 400 ''Bad Request'' None))
        (Some ''token-1'') (Some sample_customer) []
     = (Inr ''460000000026049'',
        [Outbound (contact_create_call baseUrl_in (Some ''token-1'') sample_customer (Some 15000)) False,
         Outbound (contact_search_call (baseUrl_in @ ''/contacts'') (Some ''token-1'')
                    (Some ''asha@example.com'') (Some 15000)) True])"
proof -
  define e where "e = refusal 400 ''Bad Request'' None"
  define P where "P = contact_create_call baseUrl_in (Some ''token-1'') sample_customer (Some 15000)"
  define S where "S = contact_search_call (baseUrl_in @ ''/contacts'') (Some ''token-1'')
                    (Some ''asha@example.com'') (Some 15000)"
  have r: "vendor_with_contact e (calls []) P = Rejected e"
    by (simp add: vendor_with_contact_def P_def contact_create_call_def)
  have st: "status_of e = Some 400"
    by (simp add: e_def refusal_def status_of_def)
  have em: "cust_email sample_customer = Some ''asha@example.com''"
    by (simp add: sample_customer_def)
  have s: "vendor_with_contact e (calls ([] @ [Outbound P False])) S
      = Resolved (no_data\<lparr>data_contacts := Some [known_contact]\<rparr>)"
    by (simp add: vendor_with_contact_def S_def contact_search_call_def)
  have dc: "data_contacts (no_data\<lparr>data_contacts := Some [known_contact]\<rparr>)
      = Some (known_contact # [])"
    by simp
  note t1 = find_or_create_customer [of "vendor_with_contact e" "[]" "Some ''token-1''"
      sample_customer _ _ e]
  from t1 r st have a: "createZohoCustomer_v1 (vendor_with_contact e) (Some ''token-1'')
      (Some sample_customer) []
      = findZohoCustomer_v1 (vendor_with_contact e) (Some ''token-1'') (cust_email sample_customer)
          ([] @ [Outbound P False])"
    unfolding P_def by blast
  note t2 = find_or_create_customer [of "vendor_with_contact e" "[] @ [Outbound P False]"
      "Some ''token-1''" _ "no_data\<lparr>data_contacts := Some [known_contact]\<rparr>" known_contact _
      "Some ''asha@example.com''" "[]"]
  from t2 s dc have b: "findZohoCustomer_v1 (vendor_with_contact e) (Some ''token-1'')
      (Some ''asha@example.com'') ([] @ [Outbound P False])
      = (Inr (contact_id known_contact), ([] @ [Outbound P False]) @ [Outbound S True])"
    unfolding S_def by blast
  have c: "createZohoCustomer_v1 (vendor_with_contact e) (Some ''token-1'')
      (Some sample_customer) [] = (Inr ''460000000026049'', [Outbound P False, Outbound S True])"
    using a b by (simp add: em known_contact_def)
  show ?thesis
    using r st c unfolding e_def P_def S_def by (intro conjI)
qed

text \<open>The claim as stated fails at the Supabase function: a creation call answered
  with status 500 is followed by a second token request and the search, and the contact
  found is returned.\<close>

theorem find_or_create_customer_counterexample:
  "fst (createZohoCustomer_sb (fetch_vendor_with_contact 500) sample_customer [])
     = Inr (Some known_contact)
   \<and> map oc_request (calls (snd (createZohoCustomer_sb (fetch_vendor_with_contact 500)
                                     sample_customer [])))
     = [TokenRefresh, ContactCreate (customerPayload sample_customer), TokenRefresh,
        ContactSearch (Some ''asha@example.com'')]"
  by (simp add: createZohoCustomer_sb_def findZohoCustomer_sb_def getZohoAccessToken_sb_def
      bind_def fetch_def return_def throw_def response_json_def fr_ok_def
      fetch_vendor_with_contact_def sample_customer_def no_data_def)

section \<open>Invoices\<close>

lemma utc_day_plus_thirty: "utc_day (t + thirty_days) = utc_day t + 30"
proof -
  have "thirty_days = 30 * 86400000"
    by (simp add: thirty_days_def)
  then show ?thesis
    by (simp add: utc_day_def)
qed

lemma createZohoInvoice_v1_created:
  assumes "inv_serviceItems invoiceData = Some items"
    "w (calls tr) (invoice_create_call baseUrl_in tok
         (invoicePayload_of c customerId invoiceData (map lineItem_with_quantity items) (Some False))
         (Some 20000)) = Resolved d"
    "data_invoice d = Some invoice"
  shows "createZohoInvoice_v1 c w tok customerId invoiceData tr
     = (Inr (JObj [(''invoice_id'', JStr (invoice_id invoice)),
                   (''invoice_number'', JStr (invoice_number invoice)),
                   (''payment_url'', JStr (''https://invoice.zoho.in/invoices/''
                                           @ invoice_id invoice @ ''/payment'')),
                   (''total'', JNum (invoice_total invoice)),
                   (''status'', JStr (invoice_status invoice)),
                   (''customer_id'', opt_str customerId)]),
        tr @ [Outbound (invoice_create_call baseUrl_in tok
                (invoicePayload_of c customerId invoiceData (map lineItem_with_quantity items)
                   (Some False))
                (Some 20000)) True])"
  using assms
  by (simp add: createZohoInvoice_v1_def catch_def bind_def axios_def return_def Let_def
      invoice_create_call_def)

lemma createZohoInvoice_cp_created:
  assumes "inv_serviceItems invoiceData = Some items"
    "w (calls tr) (invoice_create_call baseUrl_com tok
         (invoicePayload_of c customerId invoiceData (map lineItem_plain items) None)
         (Some 20000)) = Resolved d"
    "data_invoice d = Some invoice"
  shows "createZohoInvoice_cp c w tok customerId invoiceData tr
     = (Inr (JObj [(''invoice_id'', JStr (invoice_id invoice)),
                   (''invoice_number'', JStr (invoice_number invoice)),
                   (''payment_url'', JStr (''https://invoice.zoho.com/invoices/''
                                           @ invoice_id invoice @ ''/payment'')),
                   (''total'', JNum (invoice_total invoice)),
                   (''status'', JStr (invoice_status invoice))]),
        tr @ [Outbound (invoice_create_call baseUrl_com tok
                (invoicePayload_of c customerId invoiceData (map lineItem_plain items) None)
                (Some 20000)) True])"
  using assms
  by (simp add: createZohoInvoice_cp_def catch_def bind_def axios_def return_def Let_def
      invoice_create_call_def)

lemma createZohoInvoice_sb_created:
  assumes "getZohoAccessToken_sb fw tr = (Inr td, tr1)"
    "inv_serviceItems invoiceData = Some items"
    "fw (calls tr1) (invoice_create_call baseUrl_com (access_token td)
         (invoicePayload_of c customerId invoiceData (map lineItem_with_quantity items) None)
         None) = Responded r"
    "fr_ok r" "fr_json r = Some d" "data_invoice d = Some invoice"
  shows "createZohoInvoice_sb c fw customerId invoiceData tr
     = (Inr (JObj [(''invoice_id'', JStr (invoice_id invoice)),
                   (''invoice_number'', JStr (invoice_number invoice)),
                   (''payment_url'', JStr (''https://invoice.zoho.com/invoices/''
                                           @ invoice_id invoice @ ''/payment'')),
                   (''total'', JNum (invoice_total invoice)),
                   (''status'', JStr (invoice_status invoice))]),
        tr1 @ [Outbound (invoice_create_call baseUrl_com (access_token td)
                 (invoicePayload_of c customerId invoiceData (map lineItem_with_quantity items) None)
                 None) True])"
  using assms
  by (simp add: createZohoInvoice_sb_def bind_def fetch_def return_def Let_def
      response_json_def invoice_create_call_def baseUrl_com_def)

lemma invoicePayload_dates:
  "p_date (invoicePayload_of c customerId invoiceData lineItems tax) = utc_day (at_invoice_date c)
   \<and> p_due_date (invoicePayload_of c customerId invoiceData lineItems tax)
       = utc_day (at_due_date c) + 30
   \<and> p_line_items (invoicePayload_of c customerId invoiceData lineItems tax) = lineItems"
  by (simp add: invoicePayload_of_def utc_day_plus_thirty)

lemma lineItem_fields:
  "lineItem_with_quantity item =
     \<lparr>li_name = serviceName item,
      li_description = serviceName item @ '' - '' @ packageType item @ '' Package (Quantity: ''
                         @ show_nat (item_quantity item) @ '')'',
      li_rate = unitPrice item, li_quantity = item_quantity item,
      li_item_total = totalPrice item\<rparr>
   \<and> lineItem_plain item =
     \<lparr>li_name = serviceName item,
      li_description = serviceName item @ '' - '' @ packageType item @ '' Package'',
      li_rate = unitPrice item, li_quantity = item_quantity item,
      li_item_total = totalPrice item\<rparr>"
  by (simp add: lineItem_with_quantity_def lineItem_plain_def)

text \<open>
  C6, as the code has it. With a list of service items and a vendor that answers the
  invoice call with an invoice:
  \<^item> the payload sent has one line item per service item, in order, carrying the service
    name, a description made of the service name and the package tier, the unit price as
    rate, the quantity, and the total price as item total;
  \<^item> its date is the UTC day of the clock reading for the date and its due date is 30
    days after the UTC day of the clock reading for the due date, hence exactly 30 days
    after the invoice date when the two readings fall on the same UTC day;
  \<^item> createPayment.js and the Supabase function return exactly the id, number, payment
    URL (made from the id), total and status of the vendor's invoice; zohoIntegration.js
    returns these five and, sixth, the customer id it was called with.
\<close>

theorem invoice_reshaping:
  "(inv_serviceItems invoiceData = Some items
      \<and> w (calls tr) (invoice_create_call baseUrl_in tok
           (invoicePayload_of c customerId invoiceData (map lineItem_with_quantity items) (Some False))
           (Some 20000)) = Resolved d
      \<and> data_invoice d = Some invoice \<longrightarrow>
    createZohoInvoice_v1 c w tok customerId invoiceData tr
      = (Inr (JObj [(''invoice_id'', JStr (invoice_id invoice)),
                    (''invoice_number'', JStr (invoice_number invoice)),
                    (''payment_url'', JStr (''https://invoice.zoho.in/invoices/''
                                            @ invoice_id invoice @ ''/payment'')),
                    (''total'', JNum (invoice_total invoice)),
                    (''status'', JStr (invoice_status invoice)),
                    (''customer_id'', opt_str customerId)]),
         tr @ [Outbound (invoice_create_call baseUrl_in tok
                 (invoicePayload_of c customerId invoiceData (map lineItem_with_quantity items)
                    (Some False))
                 (Some 20000)) True]))
   \<and> (inv_serviceItems invoiceData = Some items
      \<and> w (calls tr) (invoice_create_call baseUrl_com tok
           (invoicePayload_of c customerId invoiceData (map lineItem_plain items) None)
           (Some 20000)) = Resolved d
      \<and> data_invoice d = Some invoice \<longrightarrow>
    createZohoInvoice_cp c w tok customerId invoiceData tr
      = (Inr (JObj [(''invoice_id'', JStr (invoice_id invoice)),
                    (''invoice_number'', JStr (invoice_number invoice)),
                    (''payment_url'', JStr (''https://invoice.zoho.com/invoices/''
                                            @ invoice_id invoice @ ''/payment'')),
                    (''total'', JNum (invoice_total invoice)),
                    (''status'', JStr (invoice_status invoice))]),
         tr @ [Outbound (invoice_create_call baseUrl_com tok
                 (invoicePayload_of c customerId invoiceData (map lineItem_plain items) None)
                 (Some 20000)) True]))
   \<and> (getZohoAccessToken_sb fw tr = (Inr td, tr1)
      \<and> inv_serviceItems invoiceData = Some items
      \<and> fw (calls tr1) (invoice_create_call baseUrl_com (access_token td)
           (invoicePayload_of c customerId invoiceData (map lineItem_with_quantity items) None)
           None) = Responded r
      \<and> fr_ok r \<and> fr_json r = Some d \<and> data_invoice d = Some invoice \<longrightarrow>
    createZohoInvoice_sb c fw customerId invoiceData tr
      = (Inr (JObj [(''invoice_id'', JStr (invoice_id invoice)),
                    (''invoice_number'', JStr (invoice_number invoice)),
                    (''payment_url'', JStr (''https://invoice.zoho.com/invoices/''
                                            @ invoice_id invoice @ ''/payment'')),
                    (''total'', JNum (invoice_total invoice)),
                    (''status'', JStr (invoice_status invoice))]),
         tr1 @ [Outbound (invoice_create_call baseUrl_com (access_token td)
                  (invoicePayload_of c customerId invoiceData (map lineItem_with_quantity items) None)
                  None) True]))
   \<and> p_line_items (invoicePayload_of c customerId invoiceData (map f items) tax) = map f items
   \<and> length (p_line_items (invoicePayload_of c customerId invoiceData (map f items) tax))
       = length items
   \<and> lineItem_with_quantity item =
       \<lparr>li_name = serviceName item,
        li_description = serviceName item @ '' - '' @ packageType item @ '' Package (Quantity: ''
                           @ show_nat (item_quantity item) @ '')'',
        li_rate = unitPrice item, li_quantity = item_quantity item,
        li_item_total = totalPrice item\<rparr>
   \<and> lineItem_plain item =
       \<lparr>li_name = serviceName item,
        li_description = serviceName item @ '' - '' @ packageType item @ '' Package'',
        li_rate = unitPrice item, li_quantity = item_quantity item,
        li_item_total = totalPrice item\<rparr>
   \<and> p_date (invoicePayload_of c customerId invoiceData lineItems tax)
       = utc_day (at_invoice_date c)
   \<and> p_due_date (invoicePayload_of c customerId invoiceData lineItems tax)
       = utc_day (at_due_date c) + 30
   \<and> (utc_day (at_due_date c) = utc_day (at_invoice_date c) \<longrightarrow>
        p_due_date (invoicePayload_of c customerId invoiceData lineItems tax)
          = p_date (invoicePayload_of c customerId invoiceData lineItems tax) + 30)"
proof -
  have a: "inv_serviceItems invoiceData = Some items
      \<and> w (calls tr) (invoice_create_call baseUrl_in tok
           (invoicePayload_of c customerId invoiceData (map lineItem_with_quantity items) (Some False))
           (Some 20000)) = Resolved d
      \<and> data_invoice d = Some invoice \<longrightarrow>
    createZohoInvoice_v1 c w tok customerId invoiceData tr
      = (Inr (JObj [(''invoice_id'', JStr (invoice_id invoice)),
                    (''invoice_number'', JStr (invoice_number invoice)),
                    (''payment_url'', JStr (''https://invoice.zoho.in/invoices/''
                                            @ invoice_id invoice @ ''/payment'')),
                    (''total'', JNum (invoice_total invoice)),
                    (''status'', JStr (invoice_status invoice)),
                    (''customer_id'', opt_str customerId)]),
         tr @ [Outbound (invoice_create_call baseUrl_in tok
                 (invoicePayload_of c customerId invoiceData (map lineItem_with_quantity items)
                    (Some False))
                 (Some 20000)) True])"
    by (intro impI, elim conjE, rule createZohoInvoice_v1_created; assumption)
  have b: "inv_serviceItems invoiceData = Some items
      \<and> w (calls tr) (invoice_create_call baseUrl_com tok
           (invoicePayload_of c customerId invoiceData (map lineItem_plain items) None)
           (Some 20000)) = Resolved d
      \<and> data_invoice d = Some invoice \<longrightarrow>
    createZohoInvoice_cp c w tok customerId invoiceData tr
      = (Inr (JObj [(''invoice_id'', JStr (invoice_id invoice)),
                    (''invoice_number'', JStr (invoice_number invoice)),
                    (''payment_url'', JStr (''https://invoice.zoho.com/invoices/''
                                            @ invoice_id invoice @ ''/payment'')),
                    (''total'', JNum (invoice_total invoice)),
                    (''status'', JStr (invoice_status invoice))]),
         tr @ [Outbound (invoice_create_call baseUrl_com tok
                 (invoicePayload_of c customerId invoiceData (map lineItem_plain items) None)
                 (Some 20000)) True])"
    by (intro impI, elim conjE, rule createZohoInvoice_cp_created; assumption)
  have s: "getZohoAccessToken_sb fw tr = (Inr td, tr1)
      \<and> inv_serviceItems invoiceData = Some items
      \<and> fw (calls tr1) (invoice_create_call baseUrl_com (access_token td)
           (invoicePayload_of c customerId invoiceData (map lineItem_with_quantity items) None)
           None) = Responded r
      \<and> fr_ok r \<and> fr_json r = Some d \<and> data_invoice d = Some invoice \<longrightarrow>
    createZohoInvoice_sb c fw customerId invoiceData tr
      = (Inr (JObj [(''invoice_id'', JStr (invoice_id invoice)),
                    (''invoice_number'', JStr (invoice_number invoice)),
                    (''payment_url'', JStr (''https://invoice.zoho.com/invoices/''
                                            @ invoice_id invoice @ ''/payment'')),
                    (''total'', JNum (invoice_total invoice)),
                    (''status'', JStr (invoice_status invoice))]),
         tr1 @ [Outbound (invoice_create_call baseUrl_com (access_token td)
                  (invoicePayload_of c customerId invoiceData (map lineItem_with_quantity items) None)
                  None) True])"
    by (intro impI, elim conjE, rule createZohoInvoice_sb_created; assumption)
  have l1: "p_line_items (invoicePayload_of c customerId invoiceData (map f items) tax) = map f items"
    by (simp add: invoicePayload_of_def)
  have l2: "length (p_line_items (invoicePayload_of c customerId invoiceData (map f items) tax))
       = length items"
    by (simp add: invoicePayload_of_def)
  note li = lineItem_fields [of item]
  from li have i1: "lineItem_with_quantity item =
       \<lparr>li_name = serviceName item,
        li_description = serviceName item @ '' - '' @ packageType item @ '' Package (Quantity: ''
                           @ show_nat (item_quantity item) @ '')'',
        li_rate = unitPrice item, li_quantity = item_quantity item,
        li_item_total = totalPrice item\<rparr>"
    by (elim conjE)
  from li have i2: "lineItem_plain item =
       \<lparr>li_name = serviceName item,
        li_description = serviceName item @ '' - '' @ packageType item @ '' Package'',
        li_rate = unitPrice item, li_quantity = item_quantity item,
        li_item_total = totalPrice item\<rparr>"
    by (elim conjE)
  note dt = invoicePayload_dates [of c customerId invoiceData lineItems tax]
  from dt have d1: "p_date (invoicePayload_of c customerId invoiceData lineItems tax)
       = utc_day (at_invoice_date c)"
    by (elim conjE)
  from dt have d2: "p_due_date (invoicePayload_of c customerId invoiceData lineItems tax)
       = utc_day (at_due_date c) + 30"
    by (elim conjE)
  have d3: "utc_day (at_due_date c) = utc_day (at_invoice_date c) \<longrightarrow>
        p_due_date (invoicePayload_of c customerId invoiceData lineItems tax)
          = p_date (invoicePayload_of c customerId invoiceData lineItems tax) + 30"
    by (simp add: d1 d2)
  show ?thesis
    by (intro conjI a b s l1 l2 i1 i2 d1 d2 d3)
qed

theorem invoice_reshaping_witness:
  "inv_serviceItems sample_invoice_data = Some sample_items
   \<and> data_invoice (no_data\<lparr>access_token := Some ''token-1'', data_contact := Some known_contact,
                             data_invoice := Some vendor_invoice_42\<rparr>) = Some vendor_invoice_42
   \<and> fst (createZohoInvoice_cp sample_ctx vendor_invoicing (Some ''token-1'')
            (Some ''460000000026049'') sample_invoice_data [])
     = Inr (JObj [(''invoice_id'', JStr ''982000000567114''),
                  (''invoice_number'', JStr ''INV-000042''),
                  (''payment_url'', JStr ''https://invoice.zoho.com/invoices/982000000567114/payment''),
                  (''total'', JNum 60),
                  (''status'', JStr ''sent'')])
   \<and> utc_day (at_due_date sample_ctx) = utc_day (at_invoice_date sample_ctx)
   \<and> p_date (invoicePayload_of sample_ctx (Some ''460000000026049'') sample_invoice_data
               (map lineItem_plain sample_items) None) = 19675
   \<and> p_due_date (invoicePayload_of sample_ctx (Some ''460000000026049'') sample_invoice_data
               (map lineItem_plain sample_items) None) = 19705"
proof -
  define P where "P = invoicePayload_of sample_ctx (Some ''460000000026049'') sample_invoice_data
               (map lineItem_plain sample_items) None"
  define D where "D = no_data\<lparr>access_token := Some ''token-1'', data_contact := Some known_contact,
                             data_invoice := Some vendor_invoice_42\<rparr>"
  have i: "inv_serviceItems sample_invoice_data = Some sample_items"
    by (simp add: sample_invoice_data_def)
  have r: "vendor_invoicing (calls [])
      (invoice_create_call baseUrl_com (Some ''token-1'') P (Some 20000)) = Resolved D"
    by (simp add: vendor_invoicing_def D_def)
  have v: "data_invoice D = Some vendor_invoice_42"
    by (simp add: D_def)
  have same: "utc_day (at_due_date sample_ctx) = utc_day (at_invoice_date sample_ctx)"
    by (simp add: utc_day_def sample_ctx_def)
  have day: "utc_day (at_invoice_date sample_ctx) = 19675"
    by (simp add: utc_day_def sample_ctx_def)
  note cp = invoice_reshaping [where w = vendor_invoicing and tr = "[]"
        and invoiceData = sample_invoice_data
        and items = sample_items and d = D and invoice = vendor_invoice_42
        and tok = "Some ''token-1''" and c = sample_ctx and customerId = "Some ''460000000026049''",
      THEN conjunct2, THEN conjunct1, rule_format]
  have a: "createZohoInvoice_cp sample_ctx vendor_invoicing (Some ''token-1'')
            (Some ''460000000026049'') sample_invoice_data []
     = (Inr (JObj [(''invoice_id'', JStr (invoice_id vendor_invoice_42)),
                   (''invoice_number'', JStr (invoice_number vendor_invoice_42)),
                   (''payment_url'', JStr (''https://invoice.zoho.com/invoices/''
                                           @ invoice_id vendor_invoice_42 @ ''/payment'')),
                   (''total'', JNum (invoice_total vendor_invoice_42)),
                   (''status'', JStr (invoice_status vendor_invoice_42))]),
        [] @ [Outbound (invoice_create_call baseUrl_com (Some ''token-1'') P (Some 20000)) True])"
    unfolding P_def by (rule cp) (intro conjI i r [unfolded P_def] v)
  note dd = invoice_reshaping [where c = sample_ctx and customerId = "Some ''460000000026049''"
        and invoiceData = sample_invoice_data and lineItems = "map lineItem_plain sample_items"
        and tax = None,
      THEN conjunct2, THEN conjunct2, THEN conjunct2, THEN conjunct2,
      THEN conjunct2, THEN conjunct2, THEN conjunct2]
  from dd have d1: "p_date P = utc_day (at_invoice_date sample_ctx)"
    unfolding P_def by (elim conjE)
  from dd have d3: "utc_day (at_due_date sample_ctx) = utc_day (at_invoice_date sample_ctx) \<longrightarrow>
      p_due_date P = p_date P + 30"
    unfolding P_def by (elim conjE)
  from d3 same have d2: "p_due_date P = p_date P + 30"
    by (rule mp)
  have a': "fst (createZohoInvoice_cp sample_ctx vendor_invoicing (Some ''token-1'')
            (Some ''460000000026049'') sample_invoice_data [])
     = Inr (JObj [(''invoice_id'', JStr ''982000000567114''),
                  (''invoice_number'', JStr ''INV-000042''),
                  (''payment_url'', JStr ''https://invoice.zoho.com/invoices/982000000567114/payment''),
                  (''total'', JNum 60),
                  (''status'', JStr ''sent'')])"
    by (simp add: a vendor_invoice_42_def)
  have d1': "p_date P = 19675"
    using d1 day by simp
  have d2': "p_due_date P = 19705"
    using d2 d1' by simp
  show ?thesis
    using i v a' same d1' d2' unfolding P_def D_def by (intro conjI)
qed

text \<open>The claim as stated fails at zohoIntegration.js, whose summary has a sixth field,
  \<open>customer_id\<close>; and with the clock read for the date in the last millisecond of a
  UTC day and for the due date in the next millisecond, the due date is 31 days after
  the invoice date.\<close>

theorem invoice_reshaping_counterexample:
  "fst (createZohoInvoice_v1 sample_ctx vendor_invoicing (Some ''token-1'')
          (Some ''460000000026049'') sample_invoice_data [])
     = Inr (JObj [(''invoice_id'', JStr ''982000000567114''),
                  (''invoice_number'', JStr ''INV-000042''),
                  (''payment_url'', JStr ''https://invoice.zoho.in/invoices/982000000567114/payment''),
                  (''total'', JNum 60),
                  (''status'', JStr ''sent''),
                  (''customer_id'', JStr ''460000000026049'')])
   \<and> p_date (invoicePayload_of midnight_ctx (Some ''460000000026049'') sample_invoice_data
               (map lineItem_with_quantity sample_items) (Some False)) = 19675
   \<and> p_due_date (invoicePayload_of midnight_ctx (Some ''460000000026049'') sample_invoice_data
               (map lineItem_with_quantity sample_items) (Some False)) = 19706"
proof -
  have a: "fst (createZohoInvoice_v1 sample_ctx vendor_invoicing (Some ''token-1'')
          (Some ''460000000026049'') sample_invoice_data [])
     = Inr (JObj [(''invoice_id'', JStr ''982000000567114''),
                  (''invoice_number'', JStr ''INV-000042''),
                  (''payment_url'', JStr ''https://invoice.zoho.in/invoices/982000000567114/payment''),
                  (''total'', JNum 60),
                  (''status'', JStr ''sent''),
                  (''customer_id'', JStr ''460000000026049'')])"
    by (simp add: createZohoInvoice_v1_def catch_def bind_def axios_def return_def Let_def
        vendor_invoicing_def sample_invoice_data_def vendor_invoice_42_def opt_str_def)
  have b: "p_date (invoicePayload_of midnight_ctx (Some ''460000000026049'') sample_invoice_data
               (map lineItem_with_quantity sample_items) (Some False)) = 19675"
    by (simp add: invoicePayload_of_def utc_day_def midnight_ctx_def)
  have c: "p_due_date (invoicePayload_of midnight_ctx (Some ''460000000026049'') sample_invoice_data
               (map lineItem_with_quantity sample_items) (Some False)) = 19706"
    by (simp add: invoicePayload_of_def utc_day_def midnight_ctx_def thirty_days_def)
  show ?thesis
    by (intro conjI a b c)
qed

section \<open>Statements about computations\<close>

lemma ensures_return: "(\<And>tr. P tr \<Longrightarrow> Q a tr) \<Longrightarrow> ensures P (return a) Q E"
  by (simp add: ensures_def return_def)

lemma ensures_throw: "(\<And>tr. P tr \<Longrightarrow> E tr) \<Longrightarrow> ensures P (throw e) Q E"
  by (simp add: ensures_def throw_def)

lemma ensures_bind:
  assumes "ensures P m R E" "\<And>a. ensures (R a) (f a) Q E"
  shows "ensures P (bind m f) Q E"
  unfolding ensures_def bind_def
proof (intro allI impI)
  fix tr assume p: "P tr"
  obtain r tr' where m: "m tr = (r, tr')" by (cases "m tr")
  show "case (case m tr of (Inl e, tr') \<Rightarrow> (Inl e, tr') | (Inr a, tr') \<Rightarrow> f a tr') of
          (Inl e, tr') \<Rightarrow> E tr' | (Inr a, tr') \<Rightarrow> Q a tr'"
  proof (cases r)
    case (Inl e)
    with assms(1) p m show ?thesis by (auto simp: ensures_def)
  next
    case (Inr a)
    with assms(1) p m have "R a tr'" by (auto simp: ensures_def)
    with assms(2) [of a] have "case f a tr' of (Inl e, t) \<Rightarrow> E t | (Inr b, t) \<Rightarrow> Q b t"
      by (simp add: ensures_def)
    with m Inr show ?thesis by simp
  qed
qed

lemma ensures_catch:
  assumes "ensures P m Q R" "\<And>e. ensures R (h e) Q E"
  shows "ensures P (catch m h) Q E"
  unfolding ensures_def catch_def
proof (intro allI impI)
  fix tr assume p: "P tr"
  obtain r tr' where m: "m tr = (r, tr')" by (cases "m tr")
  show "case (case m tr of (Inl e, tr') \<Rightarrow> h e tr' | (Inr a, tr') \<Rightarrow> (Inr a, tr')) of
          (Inl e, tr') \<Rightarrow> E tr' | (Inr a, tr') \<Rightarrow> Q a tr'"
  proof (cases r)
    case (Inr a)
    with assms(1) p m show ?thesis by (auto simp: ensures_def)
  next
    case (Inl e)
    with assms(1) p m have "R tr'" by (auto simp: ensures_def)
    with assms(2) [of e] have "case h e tr' of (Inl e, t) \<Rightarrow> E t | (Inr b, t) \<Rightarrow> Q b t"
      by (simp add: ensures_def)
    with m Inl show ?thesis by simp
  qed
qed

lemma ensures_weaken:
  assumes "ensures P' m Q' E'" "\<And>tr. P tr \<Longrightarrow> P' tr" "\<And>a tr. Q' a tr \<Longrightarrow> Q a tr"
    "\<And>tr. E' tr \<Longrightarrow> E tr"
  shows "ensures P m Q E"
  unfolding ensures_def
proof (intro allI impI)
  fix tr assume p: "P tr"
  obtain r tr' where m: "m tr = (r, tr')" by (cases "m tr")
  from assms(1) assms(2) [OF p]
  have c: "case m tr of (Inr a, t) \<Rightarrow> Q' a t | (Inl e, t) \<Rightarrow> E' t"
    by (simp add: ensures_def)
  show "case m tr of (Inl e, t) \<Rightarrow> E t | (Inr a, t) \<Rightarrow> Q a t"
  proof (cases r)
    case (Inl e)
    with c m have "E' tr'" by simp
    with assms(4) m Inl show ?thesis by simp
  next
    case (Inr a)
    with c m have "Q' a tr'" by simp
    with assms(3) m Inr show ?thesis by simp
  qed
qed

lemma ensures_axios:
  assumes "\<And>tr d. P tr \<Longrightarrow> Q d (tr @ [Outbound c True])"
    "\<And>tr. P tr \<Longrightarrow> E (tr @ [Outbound c False])"
  shows "ensures P (axios w c) Q E"
  using assms unfolding ensures_def axios_def
  by (auto split: axios_outcome.splits)

lemma ensures_fetch:
  assumes "\<And>tr r. P tr \<Longrightarrow> Q r (tr @ [Outbound c (fr_ok r)])"
    "\<And>tr. P tr \<Longrightarrow> E (tr @ [Outbound c False])"
  shows "ensures P (fetch w c) Q E"
  using assms unfolding ensures_def fetch_def
  by (auto split: fetch_outcome.splits)

lemma ensures_snd:
  assumes "invariant Q m" "Q tr"
  shows "Q (snd (m tr))"
proof -
  obtain r tr' where m: "m tr = (r, tr')" by (cases "m tr")
  from assms have "case m tr of (Inr a, t) \<Rightarrow> Q t | (Inl e, t) \<Rightarrow> Q t"
    by (simp add: ensures_def)
  with m have "Q tr'"
    by (cases r) simp_all
  with m show ?thesis by simp
qed

lemma inv_return: "invariant I (return a)"
  by (rule ensures_return)

lemma inv_throw: "invariant I (throw e)"
  by (rule ensures_throw)

lemma inv_bind: "invariant I m \<Longrightarrow> (\<And>a. invariant I (f a)) \<Longrightarrow> invariant I (bind m f)"
  by (rule ensures_bind)

lemma inv_catch: "invariant I m \<Longrightarrow> (\<And>e. invariant I (h e)) \<Longrightarrow> invariant I (catch m h)"
  by (rule ensures_catch)

lemmas inv_rules = inv_return inv_throw inv_bind inv_catch

lemma validate_inv: "invariant I (validateZohoConfig env)"
  unfolding validateZohoConfig_def Let_def
  by (intro inv_rules conjI impI allI | simp add: inv_return inv_throw)+

lemma parse_or_empty_inv: "invariant I (parse_or_empty b)"
  unfolding parse_or_empty_def
  by (intro inv_rules conjI impI allI | simp add: inv_return inv_throw split: req_body.splits)+

lemma parse_body_v3_inv: "invariant I (parse_body_v3 ev)"
  unfolding parse_body_v3_def
  by (intro inv_rules conjI impI allI | simp add: inv_return inv_throw split: req_body.splits)+

lemma req_json_inv: "invariant I (req_json b)"
  unfolding req_json_def
  by (intro inv_rules conjI impI allI | simp add: inv_return inv_throw split: req_body.splits)+

lemma response_json_inv: "invariant I (response_json r)"
  unfolding response_json_def
  by (intro inv_rules conjI impI allI | simp add: inv_return inv_throw split: option.splits)+

section \<open>Timeouts\<close>

lemma timeouts_fixed_append:
  "timeouts_fixed t (tr @ tr') \<longleftrightarrow> timeouts_fixed t tr \<and> timeouts_fixed t tr'"
  by (induction t tr rule: timeouts_fixed.induct) auto

lemma no_timeouts_append:
  "no_timeouts (tr @ tr') \<longleftrightarrow> no_timeouts tr \<and> no_timeouts tr'"
  by (induction tr rule: no_timeouts.induct) auto

lemma inv_timeouts_axios:
  assumes "oc_timeout c = fixed_timeout t (oc_request c)"
  shows "invariant (timeouts_fixed t) (axios w c)"
  by (rule ensures_axios) (simp_all add: timeouts_fixed_append assms)

lemma inv_no_timeouts_fetch:
  assumes "oc_timeout c = None"
  shows "invariant (no_timeouts) (fetch w c)"
  by (rule ensures_fetch) (simp_all add: no_timeouts_append assms)

lemma v1_token_timeouts:
  "invariant (timeouts_fixed 10000) (getZohoAccessToken_v1 w)"
  unfolding getZohoAccessToken_v1_def
  by (intro inv_rules inv_timeouts_axios conjI impI allI | simp add: inv_return inv_throw)+

lemma v1_find_timeouts:
  "invariant (timeouts_fixed t) (findZohoCustomer_v1 w tok email)"
  unfolding findZohoCustomer_v1_def
  by (intro inv_rules inv_timeouts_axios conjI impI allI
      | simp add: inv_return inv_throw split: option.splits list.splits)+

lemma v1_create_timeouts:
  "invariant (timeouts_fixed t) (createZohoCustomer_v1 w tok cd)"
  unfolding createZohoCustomer_v1_def
  by (intro inv_rules inv_timeouts_axios v1_find_timeouts conjI impI allI
      | simp add: inv_return inv_throw split: option.splits list.splits)+

lemma v1_invoice_timeouts:
  "invariant (timeouts_fixed t) (createZohoInvoice_v1 c w tok cid data)"
  unfolding createZohoInvoice_v1_def Let_def
  by (intro inv_rules inv_timeouts_axios conjI impI allI
      | simp add: inv_return inv_throw split: option.splits list.splits)+

lemma v1_status_timeouts:
  "invariant (timeouts_fixed t) (getZohoInvoiceStatus_v1 w tok i)"
  unfolding getZohoInvoiceStatus_v1_def Let_def
  by (intro inv_rules inv_timeouts_axios conjI impI allI
      | simp add: inv_return inv_throw split: option.splits list.splits)+

lemma handler_v1_timeouts:
  "invariant (timeouts_fixed 10000) (handler_v1 c env w ev)"
  unfolding handler_v1_def Let_def
  by (intro inv_rules validate_inv parse_or_empty_inv v1_token_timeouts v1_create_timeouts
        v1_invoice_timeouts v1_status_timeouts conjI impI allI
      | simp add: inv_return inv_throw)+

lemma v3_token_timeouts:
  "invariant (timeouts_fixed 15000) (getZohoAccessToken_v3 w)"
  unfolding getZohoAccessToken_v3_def
  by (intro inv_rules inv_timeouts_axios conjI impI allI
      | simp add: inv_return inv_throw split: option.splits)+

lemma v3_test_timeouts:
  "invariant (timeouts_fixed t) (testZohoConnection_v3 w tok)"
  unfolding testZohoConnection_v3_def
  by (intro inv_rules inv_timeouts_axios conjI impI allI | simp add: inv_return inv_throw)+

lemma v3_find_timeouts:
  "invariant (timeouts_fixed t) (findZohoCustomer_v3 w tok email)"
  unfolding findZohoCustomer_v3_def
  by (intro inv_rules inv_timeouts_axios conjI impI allI
      | simp add: inv_return inv_throw split: option.splits list.splits)+

lemma v3_create_timeouts:
  "invariant (timeouts_fixed t) (createZohoCustomer_v3 w tok cd)"
  unfolding createZohoCustomer_v3_def
  by (intro inv_rules inv_timeouts_axios v3_find_timeouts conjI impI allI
      | simp add: inv_return inv_throw split: option.splits list.splits)+

lemma handler_v3_timeouts:
  "invariant (timeouts_fixed 15000) (handler_v3 c env w ev)"
  unfolding handler_v3_def Let_def
  by (intro inv_rules validate_inv parse_body_v3_inv v3_token_timeouts v3_test_timeouts
        v3_create_timeouts v1_invoice_timeouts v1_status_timeouts conjI impI allI
      | simp add: inv_return inv_throw)+

lemma cp_token_timeouts:
  "invariant (timeouts_fixed 10000) (getZohoAccessToken_cp w)"
  unfolding getZohoAccessToken_cp_def
  by (intro inv_rules inv_timeouts_axios conjI impI allI | simp add: inv_return inv_throw)+

lemma cp_find_timeouts:
  "invariant (timeouts_fixed t) (findZohoCustomer_cp w tok email)"
  unfolding findZohoCustomer_cp_def
  by (intro inv_rules inv_timeouts_axios conjI impI allI
      | simp add: inv_return inv_throw split: option.splits list.splits)+

lemma cp_create_timeouts:
  "invariant (timeouts_fixed t) (createZohoCustomer_cp w tok cd)"
  unfolding createZohoCustomer_cp_def
  by (intro inv_rules inv_timeouts_axios cp_find_timeouts conjI impI allI
      | simp add: inv_return inv_throw split: option.splits list.splits)+

lemma cp_invoice_timeouts:
  "invariant (timeouts_fixed t) (createZohoInvoice_cp c w tok cid data)"
  unfolding createZohoInvoice_cp_def Let_def
  by (intro inv_rules inv_timeouts_axios conjI impI allI
      | simp add: inv_return inv_throw split: option.splits list.splits)+

lemma handler_cp_timeouts:
  "invariant (timeouts_fixed 10000) (handler_cp c env w ev)"
  unfolding handler_cp_def Let_def
  by (intro inv_rules validate_inv parse_or_empty_inv cp_token_timeouts cp_create_timeouts
        cp_invoice_timeouts conjI impI allI
      | simp add: inv_return inv_throw)+

lemma handler_test_zoho_timeouts:
  "invariant (timeouts_fixed 10000) (handler_test_zoho c env w ev)"
  unfolding handler_test_zoho_def Let_def
  by (intro inv_rules inv_timeouts_axios conjI impI allI | simp add: inv_return inv_throw)+

lemma sb_token_no_timeouts:
  "invariant (no_timeouts) (getZohoAccessToken_sb w)"
  unfolding getZohoAccessToken_sb_def
  by (intro inv_rules inv_no_timeouts_fetch response_json_inv conjI impI allI
      | simp add: inv_return inv_throw)+

lemma sb_find_no_timeouts:
  "invariant (no_timeouts) (findZohoCustomer_sb w email)"
  unfolding findZohoCustomer_sb_def
  by (intro inv_rules inv_no_timeouts_fetch response_json_inv sb_token_no_timeouts conjI impI allI
      | simp add: inv_return inv_throw split: option.splits list.splits)+

lemma sb_create_no_timeouts:
  "invariant (no_timeouts) (createZohoCustomer_sb w cd)"
  unfolding createZohoCustomer_sb_def
  by (intro inv_rules inv_no_timeouts_fetch response_json_inv sb_token_no_timeouts
        sb_find_no_timeouts conjI impI allI
      | simp add: inv_return inv_throw split: option.splits list.splits)+

lemma sb_invoice_no_timeouts:
  "invariant (no_timeouts) (createZohoInvoice_sb c w cid data)"
  unfolding createZohoInvoice_sb_def Let_def
  by (intro inv_rules inv_no_timeouts_fetch response_json_inv sb_token_no_timeouts conjI impI allI
      | simp add: inv_return inv_throw split: option.splits list.splits)+

lemma sb_get_no_timeouts:
  "invariant (no_timeouts) (getZohoInvoice_sb w i)"
  unfolding getZohoInvoice_sb_def
  by (intro inv_rules inv_no_timeouts_fetch response_json_inv sb_token_no_timeouts conjI impI allI
      | simp add: inv_return inv_throw split: option.splits list.splits)+

lemma handler_sb_no_timeouts:
  "invariant (no_timeouts) (handler_sb corsHeaders c env w ev)"
  unfolding handler_sb_def
  by (intro inv_rules req_json_inv sb_token_no_timeouts sb_create_no_timeouts
        sb_invoice_no_timeouts sb_get_no_timeouts conjI impI allI
      | simp add: inv_return inv_throw)+

text \<open>
  C7, as the code has it. Every outbound call of the four Netlify functions that talk
  to the vendor carries the timeout fixed for its kind of request, whatever the request,
  the environment and the vendor's earlier answers are: 10 seconds for the token request
  (15 in the later zohoIntegration.js), 15 seconds for creating and searching contacts,
  for the connection test and for reading an invoice, 20 seconds for creating an
  invoice. The calls of the Supabase function carry no timeout.
\<close>

theorem timeouts_are_fixed:
  "timeouts_fixed 10000 (snd (handler_v1 c env w ev []))
   \<and> timeouts_fixed 15000 (snd (handler_v3 c env w ev []))
   \<and> timeouts_fixed 10000 (snd (handler_cp c env w ev []))
   \<and> timeouts_fixed 10000 (snd (handler_test_zoho c env w ev []))
   \<and> no_timeouts (snd (handler_sb corsHeaders c env fw ev []))"
proof -
  have 1: "timeouts_fixed 10000 (snd (handler_v1 c env w ev []))"
    by (rule ensures_snd [OF handler_v1_timeouts]) simp
  have 2: "timeouts_fixed 15000 (snd (handler_v3 c env w ev []))"
    by (rule ensures_snd [OF handler_v3_timeouts]) simp
  have 3: "timeouts_fixed 10000 (snd (handler_cp c env w ev []))"
    by (rule ensures_snd [OF handler_cp_timeouts]) simp
  have 4: "timeouts_fixed 10000 (snd (handler_test_zoho c env w ev []))"
    by (rule ensures_snd [OF handler_test_zoho_timeouts]) simp
  have 5: "no_timeouts (snd (handler_sb corsHeaders c env fw ev []))"
    by (rule ensures_snd [OF handler_sb_no_timeouts]) simp
  show ?thesis
    by (intro conjI 1 2 3 4 5)
qed

lemma handler_cp_purchase_calls:
  "map oc_timeout (calls (snd (handler_cp sample_ctx full_env vendor_invoicing purchase_event [])))
     = [Some 10000, Some 15000, Some 20000]"
  by (simp add: handler_cp_def validateZohoConfig_def missing_vars_def full_env_def truthy_def
      parse_or_empty_def getZohoAccessToken_cp_def createZohoCustomer_cp_def
      createZohoInvoice_cp_def bind_def catch_def return_def axios_def vendor_invoicing_def
      purchase_event_def purchase_request_def empty_request_def no_data_def Let_def
      sample_items_def)

theorem timeouts_are_fixed_witness:
  "timeouts_fixed 10000 (snd (handler_cp sample_ctx full_env vendor_invoicing purchase_event []))
   \<and> map oc_timeout (calls (snd (handler_cp sample_ctx full_env vendor_invoicing purchase_event [])))
     = [Some 10000, Some 15000, Some 20000]"
proof -
  note t = timeouts_are_fixed [of sample_ctx full_env vendor_invoicing purchase_event "[]"
      "fetch_vendor_with_contact 200"]
  from t have a: "timeouts_fixed 10000
      (snd (handler_cp sample_ctx full_env vendor_invoicing purchase_event []))"
    by (elim conjE)
  show ?thesis
    by (intro conjI a handler_cp_purchase_calls)
qed

text \<open>The claim as stated fails at the Supabase function: its token request carries
  no timeout.\<close>

theorem timeouts_counterexample:
  "snd (handler_sb [] sample_ctx full_env (fetch_vendor_with_contact 200) token_event [])
     = [Outbound (token_call ''https://accounts.zoho.com/oauth/v2/token'' None) True]
   \<and> oc_timeout (token_call ''https://accounts.zoho.com/oauth/v2/token'' None) = None"
  by (simp add: handler_sb_def full_env_def truthy_def token_event_def getZohoAccessToken_sb_def
      bind_def catch_def return_def fetch_def fr_ok_def response_json_def
      fetch_vendor_with_contact_def token_call_def)

section \<open>Retries\<close>

lemma calls_append: "calls (tr @ tr') = calls tr @ calls tr'"
  by (induction tr rule: calls.induct) simp_all

lemma below_mono: "below n tr \<Longrightarrow> n \<le> m \<Longrightarrow> below m tr"
  by (auto simp: below_def)

lemma below_call:
  assumes "below n tr" "n \<le> rank (oc_request c)"
  shows "below (Suc (rank (oc_request c))) (tr @ [Outbound c ok])"
  using assms
  by (auto simp: below_def calls_append sorted_wrt_append)

lemma below_distinct: "below n tr \<Longrightarrow> distinct (calls tr)"
proof -
  assume "below n tr"
  then have "sorted_wrt (<) (map (\<lambda>c. rank (oc_request c)) (calls tr))"
    by (simp add: below_def)
  then have "distinct (map (\<lambda>c. rank (oc_request c)) (calls tr))"
    by (simp add: strict_sorted_iff)
  then show ?thesis
    by (simp add: distinct_map)
qed

lemma distinct_no_retry: "distinct (calls tr) \<Longrightarrow> no_retry tr"
  by (induction tr rule: no_retry.induct) auto

lemma below_no_retry: "below n tr \<Longrightarrow> no_retry tr"
  by (rule distinct_no_retry) (rule below_distinct)


lemma ensures_weaken_below:
  assumes "ensures (below n) m (\<lambda>a. below j') (below x')" "j' \<le> j" "x' \<le> x"
  shows "ensures (below n) m (\<lambda>a. below j) (below x)"
  using assms(1)
  by (rule ensures_weaken) (auto intro: below_mono assms)

lemma below_return: "ensures (below n) (return a) (\<lambda>a. below n) (below n)"
  by (rule ensures_return)

lemma below_throw: "ensures (below n) (throw e) (\<lambda>a. below n) (below n)"
  by (rule ensures_throw)

lemma below_axios:
  assumes "rank (oc_request c) = r" "n \<le> r"
  shows "ensures (below n) (axios w c) (\<lambda>a. below (Suc r)) (below (Suc r))"
  using assms by (intro ensures_axios) (auto simp: below_call [of n _ c])

lemma below_bind:
  assumes "ensures (below n) m (\<lambda>a. below k) (below x1)"
    "\<And>a. ensures (below k) (f a) (\<lambda>a. below j) (below x2)"
  shows "ensures (below n) (bind m f) (\<lambda>a. below j) (below (max x1 x2))"
  by (rule ensures_bind [where R = "\<lambda>a. below k"])
     (rule ensures_weaken [OF assms(1)], auto intro: below_mono,
      rule ensures_weaken [OF assms(2)], auto intro: below_mono)

lemma below_catch:
  assumes "ensures (below n) m (\<lambda>a. below j1) (below x)"
    "\<And>e. ensures (below x) (h e) (\<lambda>a. below j2) (below x2)"
  shows "ensures (below n) (catch m h) (\<lambda>a. below (max j1 j2)) (below x2)"
  by (rule ensures_catch [where R = "below x"])
     (rule ensures_weaken [OF assms(1)], auto intro: below_mono,
      rule ensures_weaken [OF assms(2)], auto intro: below_mono)

lemma below_if:
  assumes "b \<Longrightarrow> ensures (below n) m1 (\<lambda>a. below j1) (below x1)"
    "\<not> b \<Longrightarrow> ensures (below n) m2 (\<lambda>a. below j2) (below x2)"
  shows "ensures (below n) (if b then m1 else m2) (\<lambda>a. below (max j1 j2)) (below (max x1 x2))"
proof (cases b)
  case True
  then show ?thesis
    using ensures_weaken_below [OF assms(1), of "max j1 j2" "max x1 x2"] by simp
next
  case False
  then show ?thesis
    using ensures_weaken_below [OF assms(2), of "max j1 j2" "max x1 x2"] by simp
qed

lemma below_case_option:
  assumes "v = None \<Longrightarrow> ensures (below n) m1 (\<lambda>a. below j1) (below x1)"
    "\<And>y. v = Some y \<Longrightarrow> ensures (below n) (m2 y) (\<lambda>a. below j2) (below x2)"
  shows "ensures (below n) (case v of None \<Rightarrow> m1 | Some y \<Rightarrow> m2 y)
           (\<lambda>a. below (max j1 j2)) (below (max x1 x2))"
proof (cases v)
  case None
  then show ?thesis
    using ensures_weaken_below [OF assms(1), of "max j1 j2" "max x1 x2"] by simp
next
  case (Some y)
  then show ?thesis
    using ensures_weaken_below [OF assms(2), of y "max j1 j2" "max x1 x2"] by simp
qed

lemmas below_rules = below_return below_throw below_bind below_catch below_if below_case_option

lemma below_case_list:
  assumes "v = [] \<Longrightarrow> ensures (below n) m1 (\<lambda>a. below j1) (below x1)"
    "\<And>y ys. v = y # ys \<Longrightarrow> ensures (below n) (m2 y ys) (\<lambda>a. below j2) (below x2)"
  shows "ensures (below n) (case v of [] \<Rightarrow> m1 | y # ys \<Rightarrow> m2 y ys)
           (\<lambda>a. below (max j1 j2)) (below (max x1 x2))"
proof (cases v)
  case Nil
  then show ?thesis
    using ensures_weaken_below [OF assms(1), of "max j1 j2" "max x1 x2"] by simp
next
  case (Cons y ys)
  then show ?thesis
    using ensures_weaken_below [OF assms(2), of y ys "max j1 j2" "max x1 x2"] by simp
qed

lemma below_start:
  assumes "ensures (below 0) m (\<lambda>a. below j) (below x)"
  shows "no_retry (snd (m []))"
proof -
  obtain r tr' where m: "m [] = (r, tr')" by (cases "m []")
  have "below 0 []"
    by (simp add: below_def)
  with assms have c: "case m [] of (Inr a, t) \<Rightarrow> below j t | (Inl e, t) \<Rightarrow> below x t"
    by (simp add: ensures_def)
  have "no_retry tr'"
  proof (cases r)
    case (Inl e)
    with c m have "below x tr'" by simp
    then show ?thesis by (rule below_no_retry)
  next
    case (Inr a)
    with c m have "below j tr'" by simp
    then show ?thesis by (rule below_no_retry)
  qed
  with m show ?thesis by simp
qed

lemma v1_token_below:
  "ensures (below 0) (getZohoAccessToken_v1 w) (\<lambda>a. below 1) (below 1)"
  unfolding getZohoAccessToken_v1_def
  apply (rule ensures_weaken_below)
    apply (rule below_rules below_axios | simp)+
  done

lemma v1_find_below:
  assumes "n \<le> 3"
  shows "ensures (below n) (findZohoCustomer_v1 w t e) (\<lambda>a. below 4) (below 4)"
  unfolding findZohoCustomer_v1_def
  apply (insert assms, rule ensures_weaken_below)
    apply (rule below_rules below_case_list below_axios | simp)+
  done

lemma v1_create_below:
  assumes "n \<le> 2"
  shows "ensures (below n) (createZohoCustomer_v1 w t cd) (\<lambda>a. below 4) (below 4)"
  unfolding createZohoCustomer_v1_def
  apply (insert assms, rule ensures_weaken_below)
    apply (rule below_rules below_case_list below_axios v1_find_below | simp)+
  done

lemma v1_invoice_below:
  assumes "n \<le> 4"
  shows "ensures (below n) (createZohoInvoice_v1 c w t cid data) (\<lambda>a. below 5) (below 5)"
  unfolding createZohoInvoice_v1_def Let_def
  apply (insert assms, rule ensures_weaken_below)
    apply (rule below_rules below_case_list below_axios | simp)+
  done

lemma v1_status_below:
  assumes "n \<le> 4"
  shows "ensures (below n) (getZohoInvoiceStatus_v1 w t i) (\<lambda>a. below 5) (below 5)"
  unfolding getZohoInvoiceStatus_v1_def
  apply (insert assms, rule ensures_weaken_below)
    apply (rule below_rules below_case_list below_axios | simp)+
  done

lemma handler_v1_below:
  "ensures (below 0) (handler_v1 c env w ev) (\<lambda>a. below 5) (below 5)"
  unfolding handler_v1_def Let_def
  apply (rule ensures_weaken_below)
    apply (rule below_rules validate_inv parse_or_empty_inv v1_token_below v1_create_below
      v1_invoice_below v1_status_below | simp)+
  done

lemma v3_token_below:
  "ensures (below 0) (getZohoAccessToken_v3 w) (\<lambda>a. below 1) (below 1)"
  unfolding getZohoAccessToken_v3_def
  apply (rule ensures_weaken_below)
    apply (rule below_rules below_axios | simp)+
  done

lemma v3_probe_below:
  assumes "n \<le> 1"
  shows "ensures (below n) (testZohoConnection_v3 w t) (\<lambda>a. below 2) (below 2)"
  unfolding testZohoConnection_v3_def
  apply (insert assms, rule ensures_weaken_below)
    apply (rule below_rules below_axios | simp)+
  done

lemma v3_find_below:
  assumes "n \<le> 3"
  shows "ensures (below n) (findZohoCustomer_v3 w t e) (\<lambda>a. below 4) (below 4)"
  unfolding findZohoCustomer_v3_def
  apply (insert assms, rule ensures_weaken_below)
    apply (rule below_rules below_case_list below_axios | simp)+
  done

lemma v3_create_below:
  assumes "n \<le> 2"
  shows "ensures (below n) (createZohoCustomer_v3 w t cd) (\<lambda>a. below 4) (below 4)"
  unfolding createZohoCustomer_v3_def
  apply (insert assms, rule ensures_weaken_below)
    apply (rule below_rules below_case_list below_axios v3_find_below | simp)+
  done

lemma handler_v3_below:
  "ensures (below 0) (handler_v3 c env w ev) (\<lambda>a. below 5) (below 5)"
  unfolding handler_v3_def Let_def
  apply (rule ensures_weaken_below)
    apply (rule below_rules validate_inv parse_body_v3_inv v3_token_below v3_probe_below
      v3_create_below v1_invoice_below v1_status_below | simp)+
  done

lemma cp_token_below:
  "ensures (below 0) (getZohoAccessToken_cp w) (\<lambda>a. below 1) (below 1)"
  unfolding getZohoAccessToken_cp_def
  apply (rule ensures_weaken_below)
    apply (rule below_rules below_axios | simp)+
  done

lemma cp_find_below:
  assumes "n \<le> 3"
  shows "ensures (below n) (findZohoCustomer_cp w t e) (\<lambda>a. below 4) (below 4)"
  unfolding findZohoCustomer_cp_def
  apply (insert assms, rule ensures_weaken_below)
    apply (rule below_rules below_case_list below_axios | simp)+
  done

lemma cp_create_below:
  assumes "n \<le> 2"
  shows "ensures (below n) (createZohoCustomer_cp w t cd) (\<lambda>a. below 4) (below 4)"
  unfolding createZohoCustomer_cp_def
  apply (insert assms, rule ensures_weaken_below)
    apply (rule below_rules below_case_list below_axios cp_find_below | simp)+
  done

lemma cp_invoice_below:
  assumes "n \<le> 4"
  shows "ensures (below n) (createZohoInvoice_cp c w t cid data) (\<lambda>a. below 5) (below 5)"
  unfolding createZohoInvoice_cp_def Let_def
  apply (insert assms, rule ensures_weaken_below)
    apply (rule below_rules below_case_list below_axios | simp)+
  done

lemma handler_cp_below:
  "ensures (below 0) (handler_cp c env w ev) (\<lambda>a. below 5) (below 5)"
  unfolding handler_cp_def
  apply (rule ensures_weaken_below)
    apply (rule below_rules validate_inv parse_or_empty_inv cp_token_below cp_create_below
      cp_invoice_below | simp)+
  done

lemma handler_test_zoho_below:
  "ensures (below 0) (handler_test_zoho c env w ev) (\<lambda>a. below 2) (below 2)"
  unfolding handler_test_zoho_def Let_def
  apply (rule ensures_weaken_below)
    apply (rule below_rules below_axios | simp)+
  done

lemma below_createTransporter:
  "ensures (below n) nodemailer_createTransporter (\<lambda>a. below n) (below n)"
  unfolding nodemailer_createTransporter_def
  by (rule ensures_throw)

lemma below_verify:
  assumes "n \<le> 5"
  shows "ensures (below n) (transporter_verify w) (\<lambda>a. below 6) (below 6)"
  unfolding ensures_def transporter_verify_def
  using assms below_call [of n _ "smtp_call SmtpVerify"]
  by (auto simp: smtp_call_def split: option.splits)

lemma below_sendMail:
  assumes "n \<le> 6"
  shows "ensures (below n) (transporter_sendMail w m k) (\<lambda>a. below 7) (below 7)"
  unfolding ensures_def transporter_sendMail_def
  using assms below_call [of n _ "smtp_call (SmtpSend m)"]
  by (auto simp: smtp_call_def split: sum.splits)

lemma handler_test_email_below:
  "ensures (below 0) (handler_test_email c env w ev) (\<lambda>a. below 7) (below 7)"
  unfolding handler_test_email_def
  apply (rule ensures_weaken_below)
    apply (rule below_rules below_createTransporter below_verify below_sendMail | simp)+
  done

lemma handler_test_nodemailer_below:
  "ensures (below 0) (handler_test_nodemailer env w ev) (\<lambda>a. below 6) (below 6)"
  unfolding handler_test_nodemailer_def
  apply (rule ensures_weaken_below)
    apply (rule below_rules below_createTransporter below_verify | simp)+
  done

lemma failed_calls_append: "failed_calls (tr @ tr') = failed_calls tr @ failed_calls tr'"
  by (induction tr rule: failed_calls.induct) simp_all

lemma no_retry_snoc:
  "no_retry (tr @ [Outbound c ok]) \<longleftrightarrow> no_retry tr \<and> c \<notin> set (failed_calls tr)"
  by (induction tr rule: no_retry.induct) (auto simp: calls_append)

lemma quiet_call:
  assumes "quiet F tr" "c \<notin> F"
  shows "quiet (if ok then F else insert c F) (tr @ [Outbound c ok])"
  using assms by (auto simp: quiet_def no_retry_snoc failed_calls_append)

lemma quiet_mono: "quiet F tr \<Longrightarrow> F \<subseteq> G \<Longrightarrow> quiet G tr"
  by (auto simp: quiet_def)

lemma quiet_start: "quiet {} []"
  by (simp add: quiet_def)

lemma quiet_fetch:
  assumes "endpoint_of (oc_request c) = e" "e \<notin> K"
  shows "ensures (quiet (calls_to K)) (fetch w c)
           (\<lambda>r. quiet (calls_to (if fr_ok r then K else insert e K))) no_retry"
proof (rule ensures_fetch)
  fix tr r assume q: "quiet (calls_to K) tr"
  from assms have n: "c \<notin> calls_to K"
    by (simp add: calls_to_def)
  from quiet_call [OF q n, of "fr_ok r"] assms(1)
  show "quiet (calls_to (if fr_ok r then K else insert e K)) (tr @ [Outbound c (fr_ok r)])"
    by (cases "fr_ok r") (auto elim: quiet_mono simp: calls_to_def)
next
  fix tr assume q: "quiet (calls_to K) tr"
  from assms have n: "c \<notin> calls_to K"
    by (simp add: calls_to_def)
  from quiet_call [OF q n, of False]
  show "no_retry (tr @ [Outbound c False])"
    by (simp add: quiet_def)
qed

lemma quiet_fetch_last:
  assumes "endpoint_of (oc_request c) \<notin> K"
  shows "ensures (quiet (calls_to K)) (fetch w c) (\<lambda>r. no_retry) no_retry"
  by (rule ensures_weaken [OF quiet_fetch [OF refl assms]]) (auto simp: quiet_def)

lemma sb_token_quiet:
  assumes "EToken \<notin> K"
  shows "ensures (quiet (calls_to K)) (getZohoAccessToken_sb w) (\<lambda>a. quiet (calls_to K)) no_retry"
  unfolding getZohoAccessToken_sb_def
proof (rule ensures_bind
    [where R = "\<lambda>r. quiet (calls_to (if fr_ok r then K else insert EToken K))"])
  show "ensures (quiet (calls_to K))
          (fetch w \<lparr>oc_url = ''https://accounts.zoho.com/oauth/v2/token'',
                    oc_request = TokenRefresh, oc_auth = None, oc_timeout = None\<rparr>)
          (\<lambda>r. quiet (calls_to (if fr_ok r then K else insert EToken K))) no_retry"
    by (rule quiet_fetch) (simp_all add: assms)
next
  fix r
  show "ensures (quiet (calls_to (if fr_ok r then K else insert EToken K)))
          (if \<not> fr_ok r
           then throw (Error (''Failed to get Zoho access token: ''
                         @ show_nat (fr_status r) @ '' '' @ fr_text r))
           else response_json r)
          (\<lambda>a. quiet (calls_to K)) no_retry"
  proof (cases "fr_ok r")
    case True
    have "ensures (quiet (calls_to K)) (response_json r) (\<lambda>a. quiet (calls_to K)) no_retry"
      by (rule ensures_weaken [OF response_json_inv [of "quiet (calls_to K)"]])
         (auto simp: quiet_def)
    with True show ?thesis by simp
  next
    case False
    have "ensures (quiet (calls_to (insert EToken K)))
            (throw (Error (''Failed to get Zoho access token: ''
                             @ show_nat (fr_status r) @ '' '' @ fr_text r)))
            (\<lambda>a. quiet (calls_to K)) no_retry"
      by (rule ensures_throw) (simp add: quiet_def)
    with False show ?thesis by simp
  qed
qed

lemma sb_tail_find:
  "invariant no_retry
     (if \<not> fr_ok r
      then throw (Error ''Customer not found and could not be created'')
      else bind (response_json r) (\<lambda>d.
             case data_contacts d of
               Some (c # cs) \<Rightarrow> return c
             | _ \<Rightarrow> throw (Error ''Customer not found'')))"
  by (intro inv_rules response_json_inv conjI impI allI
      | simp add: inv_return inv_throw split: option.splits list.splits)+

lemma sb_find_quiet:
  assumes "EToken \<notin> K" "EContactSearch \<notin> K"
  shows "ensures (quiet (calls_to K)) (findZohoCustomer_sb w email) (\<lambda>a. no_retry) no_retry"
  unfolding findZohoCustomer_sb_def
  apply (rule ensures_bind [where R = "\<lambda>a. quiet (calls_to K)"])
   apply (rule sb_token_quiet [OF assms(1)])
  apply (rule ensures_bind [where R = "\<lambda>a. no_retry"])
   apply (rule quiet_fetch_last)
   apply (simp add: assms)
  apply (rule sb_tail_find)
  done

lemma sb_create_quiet:
  "ensures (quiet {}) (createZohoCustomer_sb w cd) (\<lambda>a. no_retry) no_retry"
  unfolding createZohoCustomer_sb_def
proof (rule ensures_bind [where R = "\<lambda>a. quiet (calls_to {})"])
  show "ensures (quiet {}) (getZohoAccessToken_sb w) (\<lambda>a. quiet (calls_to {})) no_retry"
    using sb_token_quiet [of "{}" w] by (simp add: calls_to_def)
next
  fix t
  let ?c = "\<lparr>oc_url = ''https://invoice.zoho.com/api/v3/contacts'',
             oc_request = ContactCreate (customerPayload cd),
             oc_auth = oauth (access_token t), oc_timeout = None\<rparr>"
  show "ensures (quiet (calls_to {}))
          (bind (fetch w ?c)
             (\<lambda>response.
                if \<not> fr_ok response
                then bind (findZohoCustomer_sb w (cust_email cd)) (\<lambda>found. return (Some found))
                else bind (response_json response) (\<lambda>d. return (data_contact d))))
          (\<lambda>a. no_retry) no_retry"
  proof (rule ensures_bind
      [where R = "\<lambda>r. quiet (calls_to (if fr_ok r then {} else {EContactCreate}))"])
    show "ensures (quiet (calls_to {})) (fetch w ?c)
            (\<lambda>r. quiet (calls_to (if fr_ok r then {} else {EContactCreate}))) no_retry"
      using quiet_fetch [of ?c EContactCreate "{}" w] by simp
  next
    fix r
    show "ensures (quiet (calls_to (if fr_ok r then {} else {EContactCreate})))
            (if \<not> fr_ok r
             then bind (findZohoCustomer_sb w (cust_email cd)) (\<lambda>found. return (Some found))
             else bind (response_json r) (\<lambda>d. return (data_contact d)))
            (\<lambda>a. no_retry) no_retry"
    proof (cases "fr_ok r")
      case True
      have "invariant no_retry (bind (response_json r) (\<lambda>d. return (data_contact d)))"
        by (intro inv_rules response_json_inv)
      then have "ensures (quiet (calls_to {}))
                   (bind (response_json r) (\<lambda>d. return (data_contact d)))
                   (\<lambda>a. no_retry) no_retry"
        by (rule ensures_weaken) (auto simp: quiet_def)
      with True show ?thesis by simp
    next
      case False
      have "ensures (quiet (calls_to {EContactCreate}))
              (bind (findZohoCustomer_sb w (cust_email cd)) (\<lambda>found. return (Some found)))
              (\<lambda>a. no_retry) no_retry"
        by (rule ensures_bind [where R = "\<lambda>a. no_retry"])
           (rule sb_find_quiet, simp, simp, rule inv_return)
      with False show ?thesis by simp
    qed
  qed
qed

lemma sb_invoice_quiet:
  "ensures (quiet {}) (createZohoInvoice_sb c w cid data) (\<lambda>a. no_retry) no_retry"
  unfolding createZohoInvoice_sb_def Let_def
proof (rule ensures_bind [where R = "\<lambda>a. quiet (calls_to {})"])
  show "ensures (quiet {}) (getZohoAccessToken_sb w) (\<lambda>a. quiet (calls_to {})) no_retry"
    using sb_token_quiet [of "{}" w] by (simp add: calls_to_def)
next
  fix t
  show "ensures (quiet (calls_to {}))
     (case inv_serviceItems data of
        None \<Rightarrow> throw (TypeError ''Cannot read properties of undefined (reading 'map')'')
      | Some serviceItems \<Rightarrow>
          bind (fetch w \<lparr>oc_url = ''https://invoice.zoho.com/api/v3/invoices'',
                         oc_request = InvoiceCreate (invoicePayload_of c cid data
                            (map lineItem_with_quantity serviceItems) None),
                         oc_auth = oauth (access_token t), oc_timeout = None\<rparr>)
            (\<lambda>response.
               if \<not> fr_ok response
               then throw (Error (''Failed to create Zoho invoice: ''
                             @ show_nat (fr_status response) @ '' '' @ fr_text response))
               else bind (response_json response) (\<lambda>d.
                      case data_invoice d of
                        None \<Rightarrow> throw (TypeError ''Cannot read properties of undefined (reading 'invoice_id')'')
                      | Some invoice \<Rightarrow>
                          return (JObj
                            [(''invoice_id'', JStr (invoice_id invoice)),
                             (''invoice_number'', JStr (invoice_number invoice)),
                             (''payment_url'', JStr (''https://invoice.zoho.com/invoices/''
                                                     @ invoice_id invoice @ ''/payment'')),
                             (''total'', JNum (invoice_total invoice)),
                             (''status'', JStr (invoice_status invoice))]))))
     (\<lambda>a. no_retry) no_retry"
  proof (cases "inv_serviceItems data")
    case None
    have "ensures (quiet (calls_to {}))
            (throw (TypeError ''Cannot read properties of undefined (reading 'map')''))
            (\<lambda>a. no_retry) no_retry"
      by (rule ensures_throw) (simp add: quiet_def)
    with None show ?thesis by simp
  next
    case (Some serviceItems)
    show ?thesis
      unfolding Some option.case
      apply (rule ensures_bind [where R = "\<lambda>a. no_retry"])
       apply (rule quiet_fetch_last)
       apply simp
      apply (intro inv_rules response_json_inv conjI impI allI
          | simp add: inv_return inv_throw split: option.splits)+
      done
  qed
qed

lemma sb_get_quiet:
  "ensures (quiet {}) (getZohoInvoice_sb w i) (\<lambda>a. no_retry) no_retry"
  unfolding getZohoInvoice_sb_def
  apply (rule ensures_bind [where R = "\<lambda>a. quiet (calls_to {})"])
  using sb_token_quiet [of "{}" w] apply (simp add: calls_to_def)
  apply (rule ensures_bind [where R = "\<lambda>a. no_retry"])
   apply (rule quiet_fetch_last)
   apply simp
  apply (intro inv_rules response_json_inv conjI impI allI
      | simp add: inv_return inv_throw split: option.splits)+
  done

lemma quiet_pure:
  assumes "invariant (quiet {}) m"
  shows "ensures (quiet {}) m (\<lambda>a. no_retry) no_retry"
  by (rule ensures_weaken [OF assms]) (auto simp: quiet_def)

lemma quiet_bind_pure:
  assumes "invariant (quiet {}) m" "\<And>a. ensures (quiet {}) (f a) (\<lambda>a. no_retry) no_retry"
  shows "ensures (quiet {}) (bind m f) (\<lambda>a. no_retry) no_retry"
  by (rule ensures_bind [where R = "\<lambda>a. quiet {}"])
     (rule ensures_weaken [OF assms(1)], auto simp: quiet_def assms(2))

lemma quiet_bind_last:
  assumes "ensures (quiet {}) m (\<lambda>a. no_retry) no_retry" "\<And>a. invariant no_retry (f a)"
  shows "ensures (quiet {}) (bind m f) (\<lambda>a. no_retry) no_retry"
  by (rule ensures_bind [where R = "\<lambda>a. no_retry"]) (rule assms)+

lemma quiet_catch:
  assumes "ensures (quiet {}) m (\<lambda>a. no_retry) no_retry" "\<And>e. invariant no_retry (h e)"
  shows "ensures (quiet {}) (catch m h) (\<lambda>a. no_retry) no_retry"
  by (rule ensures_catch [where R = no_retry]) (rule assms)+

lemma ensures_if:
  assumes "b \<Longrightarrow> ensures P m1 Q E" "\<not> b \<Longrightarrow> ensures P m2 Q E"
  shows "ensures P (if b then m1 else m2) Q E"
  using assms by (cases b) simp_all

lemma sb_token_last:
  "ensures (quiet {}) (getZohoAccessToken_sb w) (\<lambda>a. no_retry) no_retry"
  by (rule ensures_weaken [OF sb_token_quiet [of "{}" w]]) (auto simp: quiet_def calls_to_def)

lemma handler_sb_quiet:
  "ensures (quiet {}) (handler_sb corsHeaders c env w ev) (\<lambda>a. no_retry) no_retry"
  unfolding handler_sb_def
  apply (rule ensures_if quiet_catch
      | rule quiet_pure, rule inv_return inv_throw
      | rule quiet_bind_pure, rule req_json_inv
      | rule quiet_bind_last, rule sb_token_last sb_create_quiet sb_invoice_quiet sb_get_quiet
      | rule inv_return)+
  done

lemma quiet_snd:
  assumes "ensures (quiet {}) m (\<lambda>a. no_retry) no_retry"
  shows "no_retry (snd (m []))"
proof -
  obtain r tr' where m: "m [] = (r, tr')" by (cases "m []")
  from assms quiet_start
  have c: "case m [] of (Inr a, t) \<Rightarrow> no_retry t | (Inl e, t) \<Rightarrow> no_retry t"
    by (simp add: ensures_def)
  from c m have "no_retry tr'"
    by (cases r) simp_all
  with m show ?thesis by simp
qed

lemma handler_se_trace: "snd (handler_se c env w ev tr) = tr"
  by (simp add: handler_se_def parse_email_body_def createEmailTransporter_se_def
      nodemailer_createTransporter_def bind_def catch_def return_def throw_def
      split: req_body.splits)

lemma retry_step_ok:
  assumes "attempt \<le> maxRetries" "sendMail w m attempt = Inr r"
  shows "sendEmailWithRetry_from w m maxRetries attempt tr
           = (Inr (Some r), tr @ [Outbound (smtp_call (SmtpSend m)) True])"
  by (subst sendEmailWithRetry_from.simps) (simp add: assms transporter_sendMail_def)

lemma retry_step_fail:
  assumes "attempt < maxRetries" "sendMail w m attempt = Inl e"
  shows "sendEmailWithRetry_from w m maxRetries attempt tr
           = sendEmailWithRetry_from w m maxRetries (attempt + 1)
               (tr @ [Outbound (smtp_call (SmtpSend m)) False, Delay (2 ^ attempt * 1000)])"
proof -
  from assms(1) have a: "attempt \<le> maxRetries" "attempt \<noteq> maxRetries"
    by simp_all
  show ?thesis
    by (subst sendEmailWithRetry_from.simps) (simp add: a assms(2) transporter_sendMail_def)
qed

lemma retry_step_last:
  assumes "sendMail w m maxRetries = Inl e"
  shows "sendEmailWithRetry_from w m maxRetries maxRetries tr
           = (Inl e, tr @ [Outbound (smtp_call (SmtpSend m)) False])"
  by (subst sendEmailWithRetry_from.simps) (simp add: assms transporter_sendMail_def)

lemma retry_first_ok:
  assumes "sendMail w m 1 = Inr r"
  shows "sendEmailWithRetry w m 2 tr
           = (Inr (Some r), tr @ [Outbound (smtp_call (SmtpSend m)) True])"
  using assms retry_step_ok [of 1 2 w m r tr]
  by (simp add: sendEmailWithRetry_def)

lemma retry_second_attempt:
  assumes "sendMail w m 1 = Inl e"
  shows "sendEmailWithRetry w m 2 tr
           = sendEmailWithRetry_from w m 2 2
               (tr @ [Outbound (smtp_call (SmtpSend m)) False, Delay (2 ^ 1 * 1000)])"
  using retry_step_fail [of 1 2 w m e tr] assms
  by (simp add: sendEmailWithRetry_def numeral_2_eq_2)

lemma retry_second_ok:
  assumes "sendMail w m 1 = Inl e" "sendMail w m 2 = Inr r"
  shows "sendEmailWithRetry w m 2 tr
           = (Inr (Some r), tr @ [Outbound (smtp_call (SmtpSend m)) False, Delay (2 ^ 1 * 1000),
                                  Outbound (smtp_call (SmtpSend m)) True])"
  using retry_step_ok [of 2 2 w m r] assms(2)
  by (simp add: retry_second_attempt [OF assms(1)])

lemma retry_both_fail:
  assumes "sendMail w m 1 = Inl e" "sendMail w m 2 = Inl e'"
  shows "sendEmailWithRetry w m 2 tr
           = (Inl e', tr @ [Outbound (smtp_call (SmtpSend m)) False, Delay (2 ^ 1 * 1000),
                            Outbound (smtp_call (SmtpSend m)) False])"
  using retry_step_last [of w m 2 e'] assms(2)
  by (simp add: retry_second_attempt [OF assms(1)])

lemma retry_cases:
  "(case sendMail w m 1 of
      Inr r \<Rightarrow>
        sendEmailWithRetry w m 2 tr
          = (Inr (Some r), tr @ [Outbound (smtp_call (SmtpSend m)) True])
    | Inl e \<Rightarrow>
        (case sendMail w m 2 of
           Inr r \<Rightarrow>
             sendEmailWithRetry w m 2 tr
               = (Inr (Some r), tr @ [Outbound (smtp_call (SmtpSend m)) False,
                                      Delay (2 ^ 1 * 1000),
                                      Outbound (smtp_call (SmtpSend m)) True])
         | Inl e' \<Rightarrow>
             sendEmailWithRetry w m 2 tr
               = (Inl e', tr @ [Outbound (smtp_call (SmtpSend m)) False,
                                Delay (2 ^ 1 * 1000),
                                Outbound (smtp_call (SmtpSend m)) False])))"
proof (cases "sendMail w m 1")
  case (Inr r)
  then show ?thesis
    by (simp add: retry_first_ok)
next
  case 1: (Inl e)
  show ?thesis
  proof (cases "sendMail w m 2")
    case (Inr r)
    with 1 show ?thesis
      by (simp only: sum.case retry_second_ok [OF 1 Inr])
  next
    case (Inl e')
    with 1 show ?thesis
      by (simp only: sum.case retry_both_fail [OF 1 Inl])
  qed
qed

lemma retry_attempts:
  "attempts m (snd (sendEmailWithRetry w m 2 [])) \<in> {1, 2}"
proof (cases "sendMail w m 1")
  case (Inr r)
  then show ?thesis
    by (simp add: retry_first_ok attempts_def smtp_call_def)
next
  case 1: (Inl e)
  show ?thesis
  proof (cases "sendMail w m 2")
    case (Inr r)
    show ?thesis
      by (simp add: retry_second_ok [OF 1 Inr] attempts_def smtp_call_def)
  next
    case (Inl e')
    show ?thesis
      by (simp add: retry_both_fail [OF 1 Inl] attempts_def smtp_call_def)
  qed
qed

text \<open>
  C2. \<open>sendEmailWithRetry\<close>, called with its default of two attempts as every caller
  does, sends the message once when the first attempt succeeds and returns that result;
  when the first attempt fails it waits \<open>2 ^ 1\<close> seconds and sends again, returning the
  result of the second attempt or throwing the error of the second attempt; so it makes
  one or two attempts. In every other function no outbound call that failed is made
  again, whatever the request, the environment and the answers of the vendor or the
  relay are: the two versions of zohoIntegration.js, createPayment.js, the Zoho test
  function, the Supabase function, sendEmail.js and the two mail test functions.
\<close>

theorem email_retry_policy:
  "(case sendMail sw m 1 of
      Inr r \<Rightarrow>
        sendEmailWithRetry sw m 2 tr
          = (Inr (Some r), tr @ [Outbound (smtp_call (SmtpSend m)) True])
    | Inl e \<Rightarrow>
        (case sendMail sw m 2 of
           Inr r \<Rightarrow>
             sendEmailWithRetry sw m 2 tr
               = (Inr (Some r), tr @ [Outbound (smtp_call (SmtpSend m)) False,
                                      Delay (2 ^ 1 * 1000),
                                      Outbound (smtp_call (SmtpSend m)) True])
         | Inl e' \<Rightarrow>
             sendEmailWithRetry sw m 2 tr
               = (Inl e', tr @ [Outbound (smtp_call (SmtpSend m)) False,
                                Delay (2 ^ 1 * 1000),
                                Outbound (smtp_call (SmtpSend m)) False])))
   \<and> attempts m (snd (sendEmailWithRetry sw m 2 [])) \<in> {1, 2}
   \<and> no_retry (snd (handler_v1 c env w ev []))
   \<and> no_retry (snd (handler_v3 c env w ev []))
   \<and> no_retry (snd (handler_cp c env w ev []))
   \<and> no_retry (snd (handler_test_zoho c env w ev []))
   \<and> no_retry (snd (handler_sb corsHeaders c env fw ev []))
   \<and> no_retry (snd (handler_se c env sw mev []))
   \<and> no_retry (snd (handler_test_email c env sw mev []))
   \<and> no_retry (snd (handler_test_nodemailer env sw mev []))"
proof -
  have 1: "no_retry (snd (handler_v1 c env w ev []))"
    by (rule below_start [OF handler_v1_below])
  have 2: "no_retry (snd (handler_v3 c env w ev []))"
    by (rule below_start [OF handler_v3_below])
  have 3: "no_retry (snd (handler_cp c env w ev []))"
    by (rule below_start [OF handler_cp_below])
  have 4: "no_retry (snd (handler_test_zoho c env w ev []))"
    by (rule below_start [OF handler_test_zoho_below])
  have 5: "no_retry (snd (handler_sb corsHeaders c env fw ev []))"
    by (rule quiet_snd [OF handler_sb_quiet])
  have 6: "no_retry (snd (handler_se c env sw mev []))"
    by (simp add: handler_se_trace)
  have 7: "no_retry (snd (handler_test_email c env sw mev []))"
    by (rule below_start [OF handler_test_email_below])
  have 8: "no_retry (snd (handler_test_nodemailer env sw mev []))"
    by (rule below_start [OF handler_test_nodemailer_below])
  show ?thesis
    by (intro conjI retry_cases retry_attempts 1 2 3 4 5 6 7 8)
qed

lemma handler_cp_failed_create:
  "failed_calls (snd (handler_cp sample_ctx full_env
      (vendor_with_contact (refusal 400 ''Bad Request'' None)) purchase_event []))
     = [contact_create_call baseUrl_com (Some ''token-1'') sample_customer (Some 15000)]"
  by (simp add: handler_cp_def validateZohoConfig_def missing_vars_def full_env_def truthy_def
      parse_or_empty_def getZohoAccessToken_cp_def createZohoCustomer_cp_def
      findZohoCustomer_cp_def createZohoInvoice_cp_def bind_def catch_def return_def throw_def
      axios_def vendor_with_contact_def refusal_def status_of_def
      purchase_event_def purchase_request_def empty_request_def no_data_def Let_def
      sample_items_def contact_create_call_def)

theorem email_retry_policy_witness:
  "sendEmailWithRetry relay_flaky (test_mail full_env) 2 []
     = (Inr (Some sample_info),
        [Outbound (smtp_call (SmtpSend (test_mail full_env))) False, Delay 2000,
         Outbound (smtp_call (SmtpSend (test_mail full_env))) True])
   \<and> no_retry (snd (handler_cp sample_ctx full_env
        (vendor_with_contact (refusal 400 ''Bad Request'' None)) purchase_event []))
   \<and> failed_calls (snd (handler_cp sample_ctx full_env
        (vendor_with_contact (refusal 400 ''Bad Request'' None)) purchase_event []))
     = [contact_create_call baseUrl_com (Some ''token-1'') sample_customer (Some 15000)]"
proof -
  note t = email_retry_policy [where sw = relay_flaky and m = "test_mail full_env"
      and tr = "[]" and c = sample_ctx and env = full_env
      and w = "vendor_with_contact (refusal 400 ''Bad Request'' None)"
      and ev = purchase_event and corsHeaders = "[]"
      and fw = "fetch_vendor_with_contact 200" and mev = contact_form_event]
  from t [THEN conjunct1]
  have a: "sendEmailWithRetry relay_flaky (test_mail full_env) 2 []
     = (Inr (Some sample_info),
        [Outbound (smtp_call (SmtpSend (test_mail full_env))) False, Delay 2000,
         Outbound (smtp_call (SmtpSend (test_mail full_env))) True])"
    by (simp add: relay_flaky_def)
  note b = t [THEN conjunct2, THEN conjunct2, THEN conjunct2, THEN conjunct2, THEN conjunct1]
  show ?thesis
    by (intro conjI a b handler_cp_failed_create)
qed

section \<open>Two promises awaited jointly\<close>

lemma settle_both_rejected_first:
  "settle_both f [] (Inl e1) evs2 r2 tr = (Inl e1, tr)"
  by (subst settle_both.simps) (simp split: list.splits sum.splits)

lemma settle_both_rejected_second:
  "settle_both f (x # xs) r1 [] (Inl e2) tr = (Inl e2, tr)"
  "settle_both f [] (Inr a) [] (Inl e2) tr = (Inl e2, tr)"
  by (subst settle_both.simps, simp)+

lemma settle_both_fulfilled:
  "settle_both f [] (Inr a) [] (Inr b) tr = (Inr (a, b), tr)"
  by (subst settle_both.simps) simp

lemma settle_both_first_moves:
  "settle_both f (x # xs) r1 [] (Inr b) tr = settle_both f xs r1 [] (Inr b) (tr @ [x])"
  by (subst settle_both.simps) simp

lemma settle_both_second_moves:
  "settle_both f [] (Inr a) (y # ys) r2 tr = settle_both f [] (Inr a) ys r2 (tr @ [y])"
  by (subst settle_both.simps) simp

lemma settle_both_either_moves:
  "settle_both f (x # xs) r1 (y # ys) r2 tr =
     (if f tr then settle_both f xs r1 (y # ys) r2 (tr @ [x])
      else settle_both f (x # xs) r1 ys r2 (tr @ [y]))"
  by (subst settle_both.simps) simp

lemmas settle_both_eqs = settle_both_rejected_first settle_both_rejected_second
  settle_both_fulfilled settle_both_first_moves settle_both_second_moves
  settle_both_either_moves

text \<open>The mail function with retry is the exception to the absence of retries: with a
  relay that refuses the first attempt of every message, its trace repeats a call that
  failed.\<close>

lemma handler_rt_retries:
  "\<not> no_retry (snd (handler_rt sample_ctx full_env relay_flaky contact_form_event []))"
proof -
  have c: "sendMail relay_flaky m 1 = Inl relay_busy" "sendMail relay_flaky m 2 = Inr sample_info"
    for m
    by (simp_all add: relay_flaky_def)
  have r: "createTransport_throws relay_flaky = None" "verify_rejects relay_flaky = None"
    "first_completes_next relay_flaky = (\<lambda>tr. True)"
    by (simp_all add: relay_flaky_def)
  show ?thesis
    by (simp add: handler_rt_def contact_form_event_def parse_email_body_rt_def full_env_def
        truthy_def createEmailTransporter_def nodemailer_createTransport_def
        verifyEmailConfig_def transporter_verify_def
        handleContactForm_rt_def destructure_def contact_form_data_def promise_all2_def
        retry_second_ok [OF c] settle_both_eqs bind_def catch_def return_def throw_def r)
qed

lemma settle_both_outcome:
  "(case fst (settle_both f evs1 r1 evs2 r2 tr) of
      Inr ab \<Rightarrow> r1 = Inr (fst ab) \<and> r2 = Inr (snd ab)
    | Inl e \<Rightarrow> r1 = Inl e \<or> r2 = Inl e)"
proof (induction evs1 arbitrary: evs2 tr)
  case Nil
  show ?case
  proof (cases r1)
    case (Inl e1)
    then show ?thesis
      by (simp add: settle_both_rejected_first)
  next
    case a: (Inr a)
    show ?thesis
      unfolding a
    proof (induction evs2 arbitrary: tr)
      case Nil
      show ?case
        by (cases r2) (simp_all add: settle_both_eqs)
    next
      case (Cons y ys)
      from Cons [of "tr @ [y]"] show ?case
        by (simp add: settle_both_second_moves)
    qed
  qed
next
  case outer: (Cons x xs)
  show ?case
  proof (induction evs2 arbitrary: tr)
    case Nil
    show ?case
    proof (cases r2)
      case (Inl e2)
      then show ?thesis
        by (simp add: settle_both_rejected_second)
    next
      case (Inr b)
      with outer [of "[]" "tr @ [x]"] show ?thesis
        by (simp add: settle_both_first_moves)
    qed
  next
    case inner: (Cons y ys)
    show ?case
    proof (cases "f tr")
      case True
      with outer [of "y # ys" "tr @ [x]"] show ?thesis
        by (simp add: settle_both_either_moves)
    next
      case False
      with inner [of "tr @ [y]"] show ?thesis
        by (simp add: settle_both_either_moves)
    qed
  qed
qed

lemma promise_all2_reported:
  assumes out: "out = (case fst (promise_all2 f p q tr0) of
                         Inr u \<Rightarrow> (Inr ok, snd (promise_all2 f p q tr0))
                       | Inl e \<Rightarrow> (Inr (err e), snd (promise_all2 f p q tr0)))"
    and ok: "statusCode ok = 200" "body_field ok ''success'' = JBool True"
    and err: "\<And>e. statusCode (err e) = 500" "\<And>e. body_field (err e) ''success'' = JBool False"
      "\<And>e. body_field (err e) ''error'' = JStr (message e)"
  shows "case fst out of Inl e \<Rightarrow> False
         | Inr resp \<Rightarrow> jointly_reported (fst (p [])) (fst (q [])) resp"
proof -
  obtain r1 evs1 where 1: "p [] = (r1, evs1)" by (cases "p []")
  obtain r2 evs2 where 2: "q [] = (r2, evs2)" by (cases "q []")
  have pa: "promise_all2 f p q tr0 = settle_both f evs1 r1 evs2 r2 tr0"
    by (simp add: promise_all2_def 1 2)
  note o = settle_both_outcome [where f = f and ?evs1.0 = evs1 and ?r1.0 = r1 and ?evs2.0 = evs2
      and ?r2.0 = r2 and tr = tr0]
  show ?thesis
  proof (cases "fst (settle_both f evs1 r1 evs2 r2 tr0)")
    case (Inl e)
    with o have "r1 = Inl e \<or> r2 = Inl e" by simp
    then have "failures r1 r2 \<noteq> [] \<and> message e \<in> set (map message (failures r1 r2))"
      by (cases r1; cases r2) (auto simp: failures_def)
    with Inl show ?thesis
      by (auto simp: out pa 1 2 jointly_reported_def err)
  next
    case (Inr ab)
    with o have "r1 = Inr (fst ab)" "r2 = Inr (snd ab)" by simp_all
    then have "failures r1 r2 = []"
      by (simp add: failures_def)
    with Inr show ?thesis
      by (simp add: out pa 1 2 jointly_reported_def ok)
  qed
qed

lemma handler_rt_contact:
  assumes "httpMethod ev = ''POST''" "event_body ev = Parsed rq" "rq_data rq = Some d"
    "truthy (EMAIL_USER env)" "truthy (EMAIL_PASSWORD env)" "createTransport_throws w = None"
    "verify_rejects w = None" "rq_type rq = Some ''contact_form''"
    "truthy (d ''name'')" "truthy (d ''email'')" "truthy (d ''subject'')"
    "truthy (d ''message'')"
  shows "handler_rt c env w ev [] =
     (case fst (promise_all2 (first_completes_next w)
                  (sendEmailWithRetry w (contact_customer_mail env d) 2)
                  (sendEmailWithRetry w (contact_business_mail env d [requestId_of c]) 2) [Outbound (smtp_call SmtpVerify) True]) of
        Inr u \<Rightarrow>
          (Inr (json_response 200
                  [(''success'', JBool True), (''message'', JStr ''Email sent successfully''),
                   (''requestId'', JStr (requestId_of c)),
                   (''timestamp'', JStr (timestamp c))]),
           snd (promise_all2 (first_completes_next w)
                  (sendEmailWithRetry w (contact_customer_mail env d) 2)
                  (sendEmailWithRetry w (contact_business_mail env d [requestId_of c]) 2) [Outbound (smtp_call SmtpVerify) True]))
      | Inl e \<Rightarrow>
          (Inr (json_response 500
                  [(''success'', JBool False), (''error'', JStr (message e)),
                   (''requestId'', JStr (requestId_of c)),
                   (''timestamp'', JStr (timestamp c)),
                   (''debug'', JObj
                      [(''hasEmailUser'', JBool (truthy (EMAIL_USER env))),
                       (''hasEmailPassword'', JBool (truthy (EMAIL_PASSWORD env))),
                       (''emailUser'', opt_str (EMAIL_USER env)),
                       (''nodeVersion'', JStr (nodeVersion c))])]),
           snd (promise_all2 (first_completes_next w)
                  (sendEmailWithRetry w (contact_customer_mail env d) 2)
                  (sendEmailWithRetry w (contact_business_mail env d [requestId_of c]) 2) [Outbound (smtp_call SmtpVerify) True])))"
proof -
  obtain r t where pa: "promise_all2 (first_completes_next w)
                  (sendEmailWithRetry w (contact_customer_mail env d) 2)
                  (sendEmailWithRetry w (contact_business_mail env d [requestId_of c]) 2) [Outbound (smtp_call SmtpVerify) True] = (r, t)"
    by (cases "promise_all2 (first_completes_next w)
                  (sendEmailWithRetry w (contact_customer_mail env d) 2)
                  (sendEmailWithRetry w (contact_business_mail env d [requestId_of c]) 2) [Outbound (smtp_call SmtpVerify) True]")
  from pa show ?thesis
    by (cases r)
       (simp_all add: handler_rt_def assms parse_email_body_rt_def createEmailTransporter_def
          nodemailer_createTransport_def verifyEmailConfig_def transporter_verify_def handleContactForm_rt_def destructure_def
          bind_def catch_def return_def)
qed

lemma handler_rt_quote:
  assumes "httpMethod ev = ''POST''" "event_body ev = Parsed rq" "rq_data rq = Some d"
    "truthy (EMAIL_USER env)" "truthy (EMAIL_PASSWORD env)" "createTransport_throws w = None"
    "verify_rejects w = None" "rq_type rq = Some ''quote_request''"
  shows "handler_rt c env w ev [] =
     (case fst (promise_all2 (first_completes_next w)
                  (sendEmailWithRetry w (quote_customer_mail env d [requestId_of c]) 2)
                  (sendEmailWithRetry w (quote_business_mail env d [requestId_of c]) 2) [Outbound (smtp_call SmtpVerify) True]) of
        Inr u \<Rightarrow>
          (Inr (json_response 200
                  [(''success'', JBool True), (''message'', JStr ''Email sent successfully''),
                   (''requestId'', JStr (requestId_of c)),
                   (''timestamp'', JStr (timestamp c))]),
           snd (promise_all2 (first_completes_next w)
                  (sendEmailWithRetry w (quote_customer_mail env d [requestId_of c]) 2)
                  (sendEmailWithRetry w (quote_business_mail env d [requestId_of c]) 2) [Outbound (smtp_call SmtpVerify) True]))
      | Inl e \<Rightarrow>
          (Inr (json_response 500
                  [(''success'', JBool False), (''error'', JStr (message e)),
                   (''requestId'', JStr (requestId_of c)),
                   (''timestamp'', JStr (timestamp c)),
                   (''debug'', JObj
                      [(''hasEmailUser'', JBool (truthy (EMAIL_USER env))),
                       (''hasEmailPassword'', JBool (truthy (EMAIL_PASSWORD env))),
                       (''emailUser'', opt_str (EMAIL_USER env)),
                       (''nodeVersion'', JStr (nodeVersion c))])]),
           snd (promise_all2 (first_completes_next w)
                  (sendEmailWithRetry w (quote_customer_mail env d [requestId_of c]) 2)
                  (sendEmailWithRetry w (quote_business_mail env d [requestId_of c]) 2) [Outbound (smtp_call SmtpVerify) True])))"
proof -
  obtain r t where pa: "promise_all2 (first_completes_next w)
                  (sendEmailWithRetry w (quote_customer_mail env d [requestId_of c]) 2)
                  (sendEmailWithRetry w (quote_business_mail env d [requestId_of c]) 2) [Outbound (smtp_call SmtpVerify) True] = (r, t)"
    by (cases "promise_all2 (first_completes_next w)
                  (sendEmailWithRetry w (quote_customer_mail env d [requestId_of c]) 2)
                  (sendEmailWithRetry w (quote_business_mail env d [requestId_of c]) 2) [Outbound (smtp_call SmtpVerify) True]")
  from pa show ?thesis
    by (cases r)
       (simp_all add: handler_rt_def assms parse_email_body_rt_def createEmailTransporter_def
          nodemailer_createTransport_def verifyEmailConfig_def transporter_verify_def handleQuoteRequest_rt_def destructure_def
          bind_def catch_def return_def)
qed

lemma handler_rt_reports_jointly:
  assumes "httpMethod ev = ''POST''" "event_body ev = Parsed rq" "rq_data rq = Some d"
    "truthy (EMAIL_USER env)" "truthy (EMAIL_PASSWORD env)" "createTransport_throws w = None"
    "verify_rejects w = None"
  shows
    "(rq_type rq = Some ''contact_form''
        \<and> truthy (d ''name'') \<and> truthy (d ''email'') \<and> truthy (d ''subject'')
        \<and> truthy (d ''message'') \<longrightarrow>
      (case fst (handler_rt c env w ev []) of
         Inl e \<Rightarrow> False
       | Inr resp \<Rightarrow>
           jointly_reported
             (fst (sendEmailWithRetry w (contact_customer_mail env d) 2 []))
             (fst (sendEmailWithRetry w (contact_business_mail env d [requestId_of c]) 2 []))
             resp))
     \<and> (rq_type rq = Some ''quote_request'' \<longrightarrow>
      (case fst (handler_rt c env w ev []) of
         Inl e \<Rightarrow> False
       | Inr resp \<Rightarrow>
           jointly_reported
             (fst (sendEmailWithRetry w (quote_customer_mail env d [requestId_of c]) 2 []))
             (fst (sendEmailWithRetry w (quote_business_mail env d [requestId_of c]) 2 []))
             resp))"
proof (intro conjI impI)
  assume h: "rq_type rq = Some ''contact_form''
        \<and> truthy (d ''name'') \<and> truthy (d ''email'') \<and> truthy (d ''subject'')
        \<and> truthy (d ''message'')"
  then have h': "rq_type rq = Some ''contact_form''"
    "truthy (d ''name'')" "truthy (d ''email'')" "truthy (d ''subject'')" "truthy (d ''message'')"
    by simp_all
  note e = handler_rt_contact [OF assms h', of c]
  show "case fst (handler_rt c env w ev []) of
         Inl e \<Rightarrow> False
       | Inr resp \<Rightarrow>
           jointly_reported
             (fst (sendEmailWithRetry w (contact_customer_mail env d) 2 []))
             (fst (sendEmailWithRetry w (contact_business_mail env d [requestId_of c]) 2 []))
             resp"
    by (rule promise_all2_reported [OF e])
       (simp_all add: json_response_def body_field_def field_def)
next
  assume h: "rq_type rq = Some ''quote_request''"
  note e = handler_rt_quote [OF assms h, of c]
  show "case fst (handler_rt c env w ev []) of
         Inl e \<Rightarrow> False
       | Inr resp \<Rightarrow>
           jointly_reported
             (fst (sendEmailWithRetry w (quote_customer_mail env d [requestId_of c]) 2 []))
             (fst (sendEmailWithRetry w (quote_business_mail env d [requestId_of c]) 2 []))
             resp"
    by (rule promise_all2_reported [OF e])
       (simp_all add: json_response_def body_field_def field_def)
qed

text \<open>With a relay that accepts every message the mail function with retry sends both
  messages and answers 200; with one that refuses every message to the business address
  it answers 500 with the relay's message.\<close>

lemma handler_rt_relay_up:
  "handler_rt sample_ctx full_env relay_up contact_form_event []
     = (Inr (json_response 200
               [(''success'', JBool True), (''message'', JStr ''Email sent successfully''),
                (''requestId'', JStr ''req-1''),
                (''timestamp'', JStr ''2023-11-14T22:13:20.000Z'')]),
        [Outbound (smtp_call SmtpVerify) True,
         Outbound (smtp_call (SmtpSend (contact_customer_mail full_env contact_form_data))) True,
         Outbound (smtp_call (SmtpSend (contact_business_mail full_env contact_form_data
                                          [''req-1'']))) True])"
proof -
  have c: "sendMail relay_up m 1 = Inr sample_info" for m
    by (simp add: relay_up_def sample_info_def)
  have r: "createTransport_throws relay_up = None" "verify_rejects relay_up = None"
    "first_completes_next relay_up = (\<lambda>tr. True)"
    by (simp_all add: relay_up_def)
  have e: "truthy (EMAIL_USER full_env)" "truthy (EMAIL_PASSWORD full_env)"
    "requestId_of sample_ctx = ''req-1''" "timestamp sample_ctx = ''2023-11-14T22:13:20.000Z''"
    by (simp_all add: full_env_def truthy_def requestId_of_def or_else_def sample_ctx_def)
  have d: "truthy (contact_form_data ''name'')" "truthy (contact_form_data ''email'')"
    "truthy (contact_form_data ''subject'')" "truthy (contact_form_data ''message'')"
    by (simp_all add: contact_form_data_def truthy_def)
  show ?thesis
    by (simp add: handler_rt_def contact_form_event_def parse_email_body_rt_def e d
        createEmailTransporter_def nodemailer_createTransport_def
        verifyEmailConfig_def transporter_verify_def
        handleContactForm_rt_def destructure_def promise_all2_def
        retry_first_ok [OF c] settle_both_eqs bind_def catch_def return_def throw_def r)
qed

lemma handler_rt_business_down:
  "handler_rt sample_ctx full_env relay_business_down contact_form_event []
     = (Inr (json_response 500
               [(''success'', JBool False), (''error'', JStr ''451 Temporary server error''),
                (''requestId'', JStr ''req-1''),
                (''timestamp'', JStr ''2023-11-14T22:13:20.000Z''),
                (''debug'', JObj
                   [(''hasEmailUser'', JBool True), (''hasEmailPassword'', JBool True),
                    (''emailUser'', JStr ''no-reply@mechinweb.com''),
                    (''nodeVersion'', JStr ''v18.0.0'')])]),
        [Outbound (smtp_call SmtpVerify) True,
         Outbound (smtp_call (SmtpSend (contact_customer_mail full_env contact_form_data))) True,
         Outbound (smtp_call (SmtpSend (contact_business_mail full_env contact_form_data
                                          [''req-1'']))) False,
         Delay 2000,
         Outbound (smtp_call (SmtpSend (contact_business_mail full_env contact_form_data
                                          [''req-1'']))) False])"
proof -
  have c: "sendMail relay_business_down (contact_customer_mail full_env contact_form_data) 1
             = Inr sample_info"
    by (simp add: relay_business_down_def contact_customer_mail_def contact_form_data_def)
  have b: "sendMail relay_business_down
             (contact_business_mail full_env contact_form_data [''req-1'']) 1 = Inl relay_busy"
    "sendMail relay_business_down
             (contact_business_mail full_env contact_form_data [''req-1'']) 2 = Inl relay_busy"
    by (simp_all add: relay_business_down_def contact_business_mail_def)
  have r: "createTransport_throws relay_business_down = None"
    "verify_rejects relay_business_down = None"
    "first_completes_next relay_business_down = (\<lambda>tr. True)"
    by (simp_all add: relay_business_down_def)
  have e: "truthy (EMAIL_USER full_env)" "truthy (EMAIL_PASSWORD full_env)"
    "EMAIL_USER full_env = Some ''no-reply@mechinweb.com''"
    "truthy (Some ''no-reply@mechinweb.com'')"
    "requestId_of sample_ctx = ''req-1''" "timestamp sample_ctx = ''2023-11-14T22:13:20.000Z''"
    "nodeVersion sample_ctx = ''v18.0.0''"
    by (simp_all add: full_env_def truthy_def requestId_of_def or_else_def sample_ctx_def)
  have d: "truthy (contact_form_data ''name'')" "truthy (contact_form_data ''email'')"
    "truthy (contact_form_data ''subject'')" "truthy (contact_form_data ''message'')"
    by (simp_all add: contact_form_data_def truthy_def)
  have m: "message relay_busy = ''451 Temporary server error''"
    by (simp add: relay_busy_def)
  show ?thesis
    by (simp add: handler_rt_def contact_form_event_def parse_email_body_rt_def e d
        createEmailTransporter_def nodemailer_createTransport_def
        verifyEmailConfig_def transporter_verify_def
        handleContactForm_rt_def destructure_def promise_all2_def
        retry_first_ok [OF c] retry_both_fail [OF b] settle_both_eqs bind_def catch_def
        return_def throw_def r m opt_str_def)
qed

text \<open>
  C3. In sendEmail.js the two sends are never reached. For every POST with a parsed body
  and the mail credentials set, whatever its type and data and whatever the relay would
  do, the handler fails when it creates the transporter: it answers 500 with the
  message of that failure and makes no outbound call. (The mail function with retry,
  which creates its transporter with \<open>createTransport\<close>, sends both messages and answers
  from both results.)
\<close>

theorem sendEmail_reaches_no_send:
  assumes "httpMethod ev = ''POST''" "event_body ev = Parsed rq"
    "truthy (EMAIL_USER env)" "truthy (EMAIL_PASSWORD env)"
  shows "handler_se c env w ev []
           = (Inr (json_response 500
                     [(''success'', JBool False),
                      (''error'', JStr ''nodemailer.createTransporter is not a function''),
                      (''timestamp'', JStr (timestamp c))]),
              [])"
  by (simp add: handler_se_def assms parse_email_body_def createEmailTransporter_se_def
      nodemailer_createTransporter_def TypeError_def bind_def catch_def return_def throw_def)

theorem sendEmail_reaches_no_send_witness:
  "httpMethod contact_form_event = ''POST''
   \<and> event_body contact_form_event
       = Parsed \<lparr>rq_type = Some ''contact_form'', rq_data = Some contact_form_data\<rparr>
   \<and> truthy (EMAIL_USER full_env) \<and> truthy (EMAIL_PASSWORD full_env)
   \<and> handler_se sample_ctx full_env relay_up contact_form_event []
       = (Inr (json_response 500
                 [(''success'', JBool False),
                  (''error'', JStr ''nodemailer.createTransporter is not a function''),
                  (''timestamp'', JStr (timestamp sample_ctx))]),
          [])"
proof -
  have p: "httpMethod contact_form_event = ''POST''"
    "event_body contact_form_event
       = Parsed \<lparr>rq_type = Some ''contact_form'', rq_data = Some contact_form_data\<rparr>"
    "truthy (EMAIL_USER full_env)" "truthy (EMAIL_PASSWORD full_env)"
    by (simp_all add: contact_form_event_def full_env_def truthy_def)
  note t = sendEmail_reaches_no_send [OF p, of sample_ctx relay_up]
  show ?thesis
    by (intro conjI p t)
qed

end
